theory Spec2Isabelle
  imports
    Complex_Main
    "HOL-Library.Char_ord"
    "HOL-Library.List_Lexorder"
    "HOL-Library.Product_Lexorder"
    "HOL-Library.Sublist"
begin

chapter \<open>The record access layer of the licence-application admin backend\<close>

text \<open>
  The development embeds \<^verbatim>\<open>src/models/userModel.js\<close> (class \<^verbatim>\<open>User\<close>) and the
  listing handler of \<^verbatim>\<open>src/Routes/Applications.js\<close>. JavaScript values, the thrown
  errors and the PostgreSQL statements the code sends are all explicit: an operation takes
  the database and returns its result (or the error it throws) together with the database
  it leaves behind.
\<close>

section \<open>JavaScript values\<close>

text \<open>
  A number value is an integer or \<open>NaN\<close>; values that are fractional or infinite
  numbers are outside the model (the numbers that strings denote are not: see
  \<^verbatim>\<open>ToNumber\<close> below). A string is a sequence of code units below 256. An object
  is read through its properties, an absent property being \<open>Undefined\<close>; a result row
  of the driver is such an object.
\<close>

datatype val =
    Undefined
  | Null
  | Bool bool
  | Num int
  | NaN
  | Str string
  | Arr "val list"
  | Obj "(string \<times> val) list"

type_synonym obj = "string \<Rightarrow> val"

text \<open>An object literal: a later binding of a property overrides an earlier one.\<close>

definition object :: "(string \<times> val) list \<Rightarrow> obj" where
  "object kvs k = (case map_of (rev kvs) k of Some v \<Rightarrow> v | None \<Rightarrow> Undefined)"

text \<open>Truthiness, as \<^verbatim>\<open>!x\<close> and \<^verbatim>\<open>if (x)\<close> read it.\<close>

fun truthy :: "val \<Rightarrow> bool" where
  "truthy Undefined = False"
| "truthy Null = False"
| "truthy (Bool b) = b"
| "truthy (Num n) = (n \<noteq> 0)"
| "truthy NaN = False"
| "truthy (Str s) = (s \<noteq> [])"
| "truthy (Arr xs) = True"
| "truthy (Obj kvs) = True"

fun typeof :: "val \<Rightarrow> string" where
  "typeof Undefined = ''undefined''"
| "typeof Null = ''object''"
| "typeof (Bool b) = ''boolean''"
| "typeof (Num n) = ''number''"
| "typeof NaN = ''number''"
| "typeof (Str s) = ''string''"
| "typeof (Arr xs) = ''object''"
| "typeof (Obj kvs) = ''object''"

fun isArray :: "val \<Rightarrow> bool" where
  "isArray (Arr xs) = True"
| "isArray v = False"

text \<open>\<^verbatim>\<open>Array.prototype.join\<close> on strings.\<close>

fun join :: "string \<Rightarrow> string list \<Rightarrow> string" where
  "join sep [] = []"
| "join sep [x] = x"
| "join sep (x # y # ys) = x @ sep @ join sep (y # ys)"

text \<open>
  Decimal notation of a number, and \<^verbatim>\<open>ToString\<close> as template literals apply it.
  (From \<open>10^21\<close> on JavaScript writes a number with an exponent; the digits here
  denote the same number.)
\<close>

fun dec_nat :: "nat \<Rightarrow> string" where
  "dec_nat n =
     (if n < 10 then [char_of (48 + n)]
      else dec_nat (n div 10) @ [char_of (48 + n mod 10)])"

definition dec_int :: "int \<Rightarrow> string" where
  "dec_int n = (if n < 0 then CHR ''-'' # dec_nat (nat (- n)) else dec_nat (nat n))"

fun to_string :: "val \<Rightarrow> string" where
  "to_string Undefined = ''undefined''"
| "to_string Null = ''null''"
| "to_string (Bool b) = (if b then ''true'' else ''false'')"
| "to_string (Num n) = dec_int n"
| "to_string NaN = ''NaN''"
| "to_string (Str s) = s"
| "to_string (Arr xs) =
     join '','' (map (\<lambda>x. if x = Undefined \<or> x = Null then [] else to_string x) xs)"
| "to_string (Obj kvs) = ''[object Object]''"

text \<open>
  \<^verbatim>\<open>ToNumber\<close> gives a number that need not be an integer: a double, kept as the
  rational it is, an infinity or \<open>NaN\<close>. (The two zeros are one: no comparison tells
  them apart.)
\<close>

datatype number = Finite rat | PlusInfinity | MinusInfinity | NotANumber

text \<open>
  The double nearest to a rational, ties going to the even significand: 53 bits of
  significand, exponents from -1022 to 1023, subnormals below, and an infinity from
  \<open>2^1024\<close> on (after rounding). \<open>pow b e\<close> is the power of \<open>b\<close> with the integer
  exponent \<open>e\<close>, computed by repeated squaring.
\<close>

function squaring :: "rat \<Rightarrow> int \<Rightarrow> rat" where
  "squaring b n =
     (if n \<le> 0 then 1
      else if even n then squaring (b * b) (n div 2)
      else b * squaring (b * b) (n div 2))"
  by pat_completeness auto
termination
  by (relation "measure (\<lambda>(b, n). nat n)") auto

declare squaring.simps [simp del]

definition pow :: "rat \<Rightarrow> int \<Rightarrow> rat" where
  "pow b e = (if 0 \<le> e then squaring b e else 1 / squaring b (- e))"

definition round_half_even :: "rat \<Rightarrow> int" where
  "round_half_even x =
     (let f = \<lfloor>x\<rfloor>; d = x - of_int f in
      if d < 1 / 2 then f else if 1 / 2 < d then f + 1 else if even f then f else f + 1)"

function bit_length :: "int \<Rightarrow> int" where
  "bit_length n = (if n \<le> 0 then 0 else 1 + bit_length (n div 2))"
  by pat_completeness auto
termination
  by (relation "measure nat") auto

declare bit_length.simps [simp del]

text \<open>The exponent \<open>e\<close> with \<open>2^e \<le> a < 2^(e+1)\<close>, for a positive \<open>a\<close>.\<close>

definition floor_log2 :: "rat \<Rightarrow> int" where
  "floor_log2 a =
     (let e = bit_length (fst (quotient_of a)) - bit_length (snd (quotient_of a))
      in if pow 2 e \<le> a then e else e - 1)"

definition to_double :: "rat \<Rightarrow> number" where
  "to_double x =
     (if x = 0 then Finite 0
      else
        let e = max (floor_log2 \<bar>x\<bar>) (- 1022);
            ulp = pow 2 (e - 52);
            r = of_int (round_half_even (\<bar>x\<bar> / ulp)) * ulp
        in if pow 2 1024 \<le> r then (if 0 < x then PlusInfinity else MinusInfinity)
           else Finite (sgn x * r))"

text \<open>
  \<^verbatim>\<open>StringToNumber\<close>. Blanks around the text are dropped and the empty text is 0. What
  remains is a literal with a prefix \<^verbatim>\<open>0x\<close>, \<^verbatim>\<open>0o\<close> or \<^verbatim>\<open>0b\<close> (either case, no
  sign), or a decimal literal: an optional sign, then \<^verbatim>\<open>Infinity\<close> or digits with an
  optional fraction and an optional exponent (\<^verbatim>\<open>12\<close>, \<^verbatim>\<open>1.5\<close>, \<^verbatim>\<open>5.\<close>, \<^verbatim>\<open>.5\<close>,
  \<^verbatim>\<open>1e3\<close>, \<^verbatim>\<open>2.5E-3\<close>). Anything else is \<open>NaN\<close>. The value denoted is rounded to
  the nearest double.
\<close>

definition is_space :: "char \<Rightarrow> bool" where
  "is_space c =
     (c \<in> set [CHR '' '', CHR 0x09, CHR 0x0A, CHR 0x0B, CHR 0x0C, CHR 0x0D, CHR 0xA0])"

definition is_digit :: "char \<Rightarrow> bool" where
  "is_digit c = (CHR ''0'' \<le> c \<and> c \<le> CHR ''9'')"

definition trim :: "string \<Rightarrow> string" where
  "trim s = rev (dropWhile is_space (rev (dropWhile is_space s)))"

definition digit_of :: "char \<Rightarrow> nat" where
  "digit_of c =
     (if CHR ''0'' \<le> c \<and> c \<le> CHR ''9'' then of_char c - 48
      else if CHR ''a'' \<le> c \<and> c \<le> CHR ''f'' then of_char c - 87
      else if CHR ''A'' \<le> c \<and> c \<le> CHR ''F'' then of_char c - 55
      else 36)"

definition digits_val :: "nat \<Rightarrow> string \<Rightarrow> int" where
  "digits_val radix ds = foldl (\<lambda>a c. int radix * a + int (digit_of c)) 0 ds"

definition parse_radix :: "nat \<Rightarrow> string \<Rightarrow> int option" where
  "parse_radix radix ds =
     (if ds \<noteq> [] \<and> list_all (\<lambda>c. digit_of c < radix) ds then Some (digits_val radix ds)
      else None)"

definition parse_digits :: "string \<Rightarrow> int option" where
  "parse_digits ds = parse_radix 10 ds"

text \<open>A signed integer in decimal notation: the exponent of a literal.\<close>

fun parse_dec :: "string \<Rightarrow> int option" where
  "parse_dec [] = None"
| "parse_dec (c # cs) =
     (if c = CHR ''-'' then map_option uminus (parse_digits cs)
      else if c = CHR ''+'' then parse_digits cs
      else parse_digits (c # cs))"

text \<open>Digits, fraction and exponent of a decimal literal without its sign.\<close>

definition parse_unsigned_decimal :: "string \<Rightarrow> rat option" where
  "parse_unsigned_decimal s =
     (let is_e = (\<lambda>c. c = CHR ''e'' \<or> c = CHR ''E'');
          mantissa = takeWhile (\<lambda>c. \<not> is_e c) s;
          exponent = dropWhile (\<lambda>c. \<not> is_e c) s;
          whole = takeWhile is_digit mantissa;
          rest = dropWhile is_digit mantissa;
          fraction = tl rest
      in
      if (rest = [] \<or> hd rest = CHR ''.'' \<and> list_all is_digit fraction)
         \<and> (whole \<noteq> [] \<or> fraction \<noteq> [])
      then
        (case (if exponent = [] then Some 0 else parse_dec (tl exponent)) of
           None \<Rightarrow> None
         | Some k \<Rightarrow>
             Some (of_int (digits_val 10 (whole @ fraction)) * pow 10 (k - int (length fraction))))
      else None)"

definition parse_decimal_literal :: "string \<Rightarrow> number" where
  "parse_decimal_literal s =
     (let negative = (s \<noteq> [] \<and> hd s = CHR ''-'');
          unsigned = (if s \<noteq> [] \<and> (hd s = CHR ''-'' \<or> hd s = CHR ''+'') then tl s else s)
      in
      if unsigned = ''Infinity'' then (if negative then MinusInfinity else PlusInfinity)
      else
        case parse_unsigned_decimal unsigned of
          None \<Rightarrow> NotANumber
        | Some x \<Rightarrow> to_double (if negative then - x else x))"

definition parse_prefixed_literal :: "string \<Rightarrow> int option" where
  "parse_prefixed_literal s =
     (if take 2 s \<in> {''0x'', ''0X''} then parse_radix 16 (drop 2 s)
      else if take 2 s \<in> {''0o'', ''0O''} then parse_radix 8 (drop 2 s)
      else if take 2 s \<in> {''0b'', ''0B''} then parse_radix 2 (drop 2 s)
      else None)"

definition str_to_num :: "string \<Rightarrow> number" where
  "str_to_num s =
     (if trim s = [] then Finite 0
      else
        case parse_prefixed_literal (trim s) of
          Some n \<Rightarrow> to_double (of_int n)
        | None \<Rightarrow> parse_decimal_literal (trim s))"

text \<open>
  \<^verbatim>\<open>ToNumber\<close> of a value. An array or object goes through its text (\<^verbatim>\<open>valueOf\<close>
  returns the object itself, so \<^verbatim>\<open>toString\<close> decides).
\<close>

fun to_number :: "val \<Rightarrow> number" where
  "to_number Undefined = NotANumber"
| "to_number Null = Finite 0"
| "to_number (Bool b) = Finite (if b then 1 else 0)"
| "to_number (Num n) = Finite (of_int n)"
| "to_number NaN = NotANumber"
| "to_number (Str s) = str_to_num s"
| "to_number (Arr xs) = str_to_num (to_string (Arr xs))"
| "to_number (Obj kvs) = str_to_num (to_string (Obj kvs))"

text \<open>
  The comparisons of the source have a number on the right: \<^verbatim>\<open>v < k\<close>, \<^verbatim>\<open>v <= k\<close>,
  \<^verbatim>\<open>v > k\<close>. The left operand is converted to a number; each comparison is false when
  that is \<open>NaN\<close>.
\<close>

definition js_lt :: "val \<Rightarrow> int \<Rightarrow> bool" where
  "js_lt v k =
     (case to_number v of Finite x \<Rightarrow> x < of_int k | MinusInfinity \<Rightarrow> True | _ \<Rightarrow> False)"

definition js_le :: "val \<Rightarrow> int \<Rightarrow> bool" where
  "js_le v k =
     (case to_number v of Finite x \<Rightarrow> x \<le> of_int k | MinusInfinity \<Rightarrow> True | _ \<Rightarrow> False)"

definition js_gt :: "val \<Rightarrow> int \<Rightarrow> bool" where
  "js_gt v k =
     (case to_number v of Finite x \<Rightarrow> of_int k < x | PlusInfinity \<Rightarrow> True | _ \<Rightarrow> False)"

section \<open>Errors\<close>

text \<open>
  A thrown error carries a message and, when the database driver raised it, the SQLSTATE
  code of the failure. \<^verbatim>\<open>new Error(msg)\<close> has no code.
\<close>

datatype js_error = Error (code: "string option") (message: string)

definition new_Error :: "string \<Rightarrow> js_error" where
  "new_Error msg = Error None msg"

definition pg_error :: "string \<Rightarrow> string \<Rightarrow> js_error" where
  "pg_error c msg = Error (Some c) msg"

section \<open>The database and the query primitive\<close>

text \<open>
  The database holds the rows of each table, by the table's name. What the environment
  decides is part of it: \<open>faults\<close> says, for the n-th call of the query primitive, whether
  the pool fails to hand out a connection or the statement fails for a reason outside the
  tables (a lost connection, the 5000 ms statement timeout, a parameter the server cannot
  cast to the column's type); \<open>clock\<close> is the value of \<^verbatim>\<open>CURRENT_TIMESTAMP\<close> in that
  call, in microseconds. \<open>oplog\<close> is what \<^verbatim>\<open>logOperation\<close> has written: the
  operation's label and whether it succeeded.

  Column values are kept as the driver received them (\<^verbatim>\<open>undefined\<close> becoming NULL); the
  cast to the column's type is modelled where a statement computes with the value, and
  timestamps are numbers of microseconds. The surrogate key \<^verbatim>\<open>id SERIAL\<close> of the tables
  plays no part in the statements below and is left out of the rows.
\<close>

datatype fault = ConnectError js_error | StatementError js_error

record database =
  tables :: "string \<Rightarrow> obj list"
  calls :: nat
  oplog :: "(string \<times> bool) list"
  faults :: "nat \<Rightarrow> fault option"
  clock :: "nat \<Rightarrow> int"

text \<open>
  A statement with its parameters bound: given the current timestamp and the database it
  gives the rows it returns and the database it leaves, or the driver's error.
\<close>

type_synonym statement = "int \<Rightarrow> database \<Rightarrow> js_error + (obj list \<times> database)"

definition logOperation :: "string \<Rightarrow> bool \<Rightarrow> database \<Rightarrow> database" where
  "logOperation operation success s = s\<lparr>oplog := oplog s @ [(operation, success)]\<rparr>"

text \<open>The \<^verbatim>\<open>catch\<close> block of \<^verbatim>\<open>executeQuery\<close>: three SQLSTATE codes get a message of their own.\<close>

definition translate_error :: "js_error \<Rightarrow> js_error" where
  "translate_error error =
     (if code error = Some ''23505'' then new_Error ''Duplicate entry: Record already exists''
      else if code error = Some ''23503'' then new_Error ''Referenced record does not exist''
      else if code error = Some ''23502'' then new_Error ''Required field is missing''
      else error)"

text \<open>
  \<^verbatim>\<open>executeQuery(query, values, operationName)\<close>. \<^verbatim>\<open>db.connect()\<close> stands before
  the \<^verbatim>\<open>try\<close>: its failure is thrown as it is and nothing is logged.
\<close>

definition executeQuery :: "statement \<Rightarrow> string \<Rightarrow> database \<Rightarrow> (js_error + obj list) \<times> database" where
  "executeQuery query operationName s =
     (let n = calls s; s1 = s\<lparr>calls := Suc n\<rparr> in
      case faults s n of
        Some (ConnectError e) \<Rightarrow> (Inl e, s1)
      | Some (StatementError e) \<Rightarrow> (Inl (translate_error e), logOperation operationName False s1)
      | None \<Rightarrow>
          (case query (clock s n) s1 of
             Inl e \<Rightarrow> (Inl (translate_error e), logOperation operationName False s1)
           | Inr (rows, s2) \<Rightarrow> (Inr rows, logOperation operationName True s2)))"

text \<open>The error with which a statement fails in a call, when it does.\<close>

definition statement_failure :: "statement \<Rightarrow> database \<Rightarrow> js_error option" where
  "statement_failure query s =
     (case faults s (calls s) of
        Some (ConnectError e) \<Rightarrow> None
      | Some (StatementError e) \<Rightarrow> Some e
      | None \<Rightarrow>
          (case query (clock s (calls s)) (s\<lparr>calls := Suc (calls s)\<rparr>) of
             Inl e \<Rightarrow> Some e
           | Inr r \<Rightarrow> None))"

section \<open>Validation helpers\<close>

text \<open>\<^verbatim>\<open>/^[^\s@]+@[^\s@]+\.[^\s@]+$/\<close>; \<^verbatim>\<open>\s\<close> matches the blanks of \<open>is_space\<close>.\<close>

definition plain :: "char \<Rightarrow> bool" where
  "plain c = (\<not> is_space c \<and> c \<noteq> CHR ''@'')"

definition emailRegex_test :: "string \<Rightarrow> bool" where
  "emailRegex_test s =
     (let local = takeWhile (\<lambda>c. c \<noteq> CHR ''@'') s;
          rest = dropWhile (\<lambda>c. c \<noteq> CHR ''@'') s;
          host = tl rest
      in local \<noteq> [] \<and> list_all plain local \<and> rest \<noteq> [] \<and> list_all plain host
         \<and> CHR ''.'' \<in> set (butlast (tl host)))"

definition isValidEmail :: "val \<Rightarrow> bool" where
  "isValidEmail email = (if \<not> truthy email then True else emailRegex_test (to_string email))"

text \<open>
  \<^verbatim>\<open>validateRequiredFields(data, requiredFields)\<close>, with its
  \<^verbatim>\<open>requiredFields.filter(field => !data[field])\<close> under the name the source gives it.
\<close>

definition missingFields :: "obj \<Rightarrow> string list \<Rightarrow> string list" where
  "missingFields data requiredFields = filter (\<lambda>field. \<not> truthy (data field)) requiredFields"

definition validateRequiredFields :: "obj \<Rightarrow> string list \<Rightarrow> js_error + unit" where
  "validateRequiredFields data requiredFields =
     (if length (missingFields data requiredFields) > 0
      then Inl (new_Error (''Missing required fields: '' @ join '', '' (missingFields data requiredFields)))
      else Inr ())"

text \<open>
  Every entity operation wraps its body:
  \<^verbatim>\<open>catch (error) { throw new Error(`Failed to ...: ${error.message}`) }\<close>.
\<close>

definition rethrow :: "string \<Rightarrow> (js_error + 'a) \<times> database \<Rightarrow> (js_error + 'a) \<times> database" where
  "rethrow context_prefix r =
     (case fst r of
        Inl error \<Rightarrow> (Inl (new_Error (context_prefix @ message error)), snd r)
      | Inr x \<Rightarrow> (Inr x, snd r))"

text \<open>\<^verbatim>\<open>result.rows[0]\<close>: \<^verbatim>\<open>undefined\<close> (here \<open>None\<close>) when no row came back.\<close>

fun first_row :: "obj list \<Rightarrow> obj option" where
  "first_row [] = None"
| "first_row (r # rs) = Some r"

section \<open>Tables and statements\<close>

text \<open>
  What the \<^verbatim>\<open>CREATE TABLE\<close> statements declare and the statements below depend on: the
  \<^verbatim>\<open>NOT NULL\<close> columns, the \<^verbatim>\<open>UNIQUE\<close> column that \<^verbatim>\<open>ON CONFLICT\<close> names, the
  column that \<^verbatim>\<open>REFERENCES users(sub)\<close>, the \<^verbatim>\<open>CHECK\<close> constraints and the
  \<^verbatim>\<open>BEFORE INSERT OR UPDATE\<close> row trigger.
\<close>

record table_schema =
  relation :: string
  not_null :: "string list"
  unique_key :: string
  references_users :: "string option"
  check_ok :: "obj \<Rightarrow> bool"
  before_row :: "obj \<Rightarrow> obj"

definition users_schema :: table_schema where
  "users_schema =
     \<lparr>relation = ''users'', not_null = [''sub'', ''name''], unique_key = ''sub'',
      references_users = None, check_ok = (\<lambda>r. True), before_row = (\<lambda>r. r)\<rparr>"

definition licence_categories_schema :: table_schema where
  "licence_categories_schema =
     \<lparr>relation = ''licence_categories'',
      not_null = [''category_code'', ''category_label'', ''description'', ''fee''],
      unique_key = ''category_code'',
      references_users = None, check_ok = (\<lambda>r. True), before_row = (\<lambda>r. r)\<rparr>"

text \<open>
  The trigger function of \<^verbatim>\<open>createSessionsTable\<close>:
  \<^verbatim>\<open>NEW.expires_at = NEW.created_at + (NEW.expires_in || ' seconds')::INTERVAL\<close>,
  NULL when an operand is NULL.
\<close>

fun add_seconds :: "val \<Rightarrow> val \<Rightarrow> val" where
  "add_seconds (Num t) (Num n) = Num (t + n * 1000000)"
| "add_seconds created expires = Null"

definition calculate_expires_at :: "obj \<Rightarrow> obj" where
  "calculate_expires_at NEW =
     NEW(''expires_at'' := add_seconds (NEW ''created_at'') (NEW ''expires_in''))"

definition user_sessions_schema :: table_schema where
  "user_sessions_schema =
     \<lparr>relation = ''user_sessions'', not_null = [''session_id''], unique_key = ''session_id'',
      references_users = Some ''sub'', check_ok = (\<lambda>r. True),
      before_row = calculate_expires_at\<rparr>"

definition validStatuses :: "string list" where
  "validStatuses = [''pending'', ''submitted'', ''approved'', ''rejected'', ''cancelled'']"

definition validAdminStatuses :: "string list" where
  "validAdminStatuses = [''unverified'', ''verified'', ''on_hold'']"

text \<open>A \<^verbatim>\<open>CHECK (c IN (...))\<close> constraint holds of a row whose \<open>c\<close> is NULL.\<close>

definition check_in :: "string list \<Rightarrow> val \<Rightarrow> bool" where
  "check_in allowed v = (v = Null \<or> v \<in> set (map Str allowed))"

definition applications_schema :: table_schema where
  "applications_schema =
     \<lparr>relation = ''applications'',
      not_null = [''sub'', ''application_id'', ''medical_certificate_id'', ''full_name'',
                  ''email'', ''date_of_birth'', ''doctor_name'', ''hospital'', ''issued_date'',
                  ''expiry_date'', ''selected_categories''],
      unique_key = ''application_id'',
      references_users = None,
      check_ok = (\<lambda>r. check_in validStatuses (r ''status'')
                       \<and> check_in validAdminStatuses (r ''admin_status'')),
      before_row = (\<lambda>r. r)\<rparr>"

definition medical_certificates_schema :: table_schema where
  "medical_certificates_schema =
     \<lparr>relation = ''medical_certificates'',
      not_null = [''certificate_id'', ''issued_date'', ''expiry_date'', ''doctor_name'',
                  ''hospital''],
      unique_key = ''certificate_id'',
      references_users = Some ''sub'', check_ok = (\<lambda>r. True), before_row = (\<lambda>r. r)\<rparr>"

text \<open>A parameter as the driver sends it: \<^verbatim>\<open>undefined\<close> goes out as NULL.\<close>

definition bind :: "val \<Rightarrow> val" where
  "bind v = (if v = Undefined then Null else v)"

text \<open>SQL equality in a \<^verbatim>\<open>WHERE\<close> clause or a unique index: NULL equals nothing.\<close>

definition sql_eq :: "val \<Rightarrow> val \<Rightarrow> bool" where
  "sql_eq a b = (a \<noteq> Null \<and> b \<noteq> Null \<and> a = b)"

definition set_table :: "string \<Rightarrow> obj list \<Rightarrow> database \<Rightarrow> database" where
  "set_table t rows s = s\<lparr>tables := (tables s)(t := rows)\<rparr>"

text \<open>
  \<^verbatim>\<open>INSERT INTO t (...) VALUES (...) [ON CONFLICT (key) DO UPDATE SET ...] RETURNING *\<close>
  of one row. The server fires the row trigger on the proposed row, checks \<^verbatim>\<open>NOT NULL\<close>
  and \<^verbatim>\<open>CHECK\<close>, then looks the key up in the unique index: on a conflict the statement
  fails with 23505, or, with \<^verbatim>\<open>ON CONFLICT\<close>, updates the row found (\<open>do_update\<close>
  gives the new row from the existing one and from \<^verbatim>\<open>EXCLUDED\<close>, and the trigger fires
  again). The foreign key is checked for a row that was inserted.
\<close>

definition insert_into ::
  "table_schema \<Rightarrow> (obj \<Rightarrow> obj \<Rightarrow> obj) option \<Rightarrow> obj \<Rightarrow> database \<Rightarrow> js_error + (obj list \<times> database)"
  where
  "insert_into sch on_conflict new s =
     (let proposed = before_row sch new;
          rows = tables s (relation sch);
          key = unique_key sch
      in
      case find (\<lambda>c. proposed c = Null) (not_null sch) of
        Some c \<Rightarrow>
          Inl (pg_error ''23502'' (''null value in column '' @ c @ '' violates not-null constraint''))
      | None \<Rightarrow>
          if \<not> check_ok sch proposed
          then Inl (pg_error ''23514'' (''new row for relation '' @ relation sch @ '' violates check constraint''))
          else
            (case find (\<lambda>r. sql_eq (r key) (proposed key)) rows of
               Some existing \<Rightarrow>
                 (case on_conflict of
                    None \<Rightarrow>
                      Inl (pg_error ''23505'' (''duplicate key value violates unique constraint on '' @ key))
                  | Some do_update \<Rightarrow>
                      (let updated = before_row sch (do_update existing proposed) in
                       Inr ([updated],
                            set_table (relation sch)
                              (map (\<lambda>r. if sql_eq (r key) (proposed key) then updated else r) rows) s)))
             | None \<Rightarrow>
                 (case references_users sch of
                    None \<Rightarrow> Inr ([proposed], set_table (relation sch) (rows @ [proposed]) s)
                  | Some c \<Rightarrow>
                      if proposed c \<noteq> Null
                         \<and> \<not> list_ex (\<lambda>u. sql_eq (u ''sub'') (proposed c)) (tables s ''users'')
                      then Inl (pg_error ''23503'' (''insert on table '' @ relation sch @ '' violates foreign key constraint''))
                      else Inr ([proposed], set_table (relation sch) (rows @ [proposed]) s))))"

text \<open>\<^verbatim>\<open>SELECT ... FROM t WHERE ...\<close>.\<close>

definition select_from :: "string \<Rightarrow> (obj \<Rightarrow> bool) \<Rightarrow> database \<Rightarrow> js_error + (obj list \<times> database)" where
  "select_from t wh s = Inr (filter wh (tables s t), s)"

text \<open>
  \<^verbatim>\<open>UPDATE t SET ... WHERE ... RETURNING *\<close>: every row the condition holds of is
  replaced; the statement fails, changing nothing, when a new row breaks a \<^verbatim>\<open>CHECK\<close>.
\<close>

definition update_where ::
  "table_schema \<Rightarrow> (obj \<Rightarrow> bool) \<Rightarrow> (obj \<Rightarrow> obj) \<Rightarrow> database \<Rightarrow> js_error + (obj list \<times> database)"
  where
  "update_where sch wh assign s =
     (let rows = tables s (relation sch);
          new = (\<lambda>r. before_row sch (assign r))
      in
      if list_ex (\<lambda>r. wh r \<and> \<not> check_ok sch (new r)) rows
      then Inl (pg_error ''23514'' (''new row for relation '' @ relation sch @ '' violates check constraint''))
      else Inr (map new (filter wh rows),
                set_table (relation sch) (map (\<lambda>r. if wh r then new r else r) rows) s))"

subsection \<open>The statements of the entity operations\<close>

text \<open>The statement of \<^verbatim>\<open>saveUser\<close>.\<close>

definition users_upsert :: "val \<Rightarrow> val \<Rightarrow> val \<Rightarrow> val \<Rightarrow> val \<Rightarrow> val \<Rightarrow> statement" where
  "users_upsert sub name email phone date_of_birth address now s =
     insert_into users_schema
       (Some (\<lambda>existing EXCLUDED. existing
           (''name'' := EXCLUDED ''name'',
            ''email'' := EXCLUDED ''email'',
            ''phone'' := EXCLUDED ''phone'',
            ''date_of_birth'' := EXCLUDED ''date_of_birth'',
            ''address'' := EXCLUDED ''address'',
            ''updated_at'' := Num now)))
       (object
          [(''sub'', bind sub), (''name'', bind name), (''email'', bind email),
           (''phone'', bind phone), (''date_of_birth'', bind date_of_birth),
           (''address'', bind address),
           (''created_at'', Num now), (''updated_at'', Num now)])
       s"

text \<open>The statement of \<^verbatim>\<open>saveMedicalCertificate\<close>.\<close>

definition medical_certificates_upsert :: "val list \<Rightarrow> statement" where
  "medical_certificates_upsert params now s =
     insert_into medical_certificates_schema
       (Some (\<lambda>existing EXCLUDED. existing
           (''issued_date'' := EXCLUDED ''issued_date'',
            ''expiry_date'' := EXCLUDED ''expiry_date'',
            ''doctor_name'' := EXCLUDED ''doctor_name'',
            ''hospital'' := EXCLUDED ''hospital'',
            ''blood_group'' := EXCLUDED ''blood_group'',
            ''is_fit_to_drive'' := EXCLUDED ''is_fit_to_drive'',
            ''vision_status'' := EXCLUDED ''vision_status'',
            ''hearing_status'' := EXCLUDED ''hearing_status'',
            ''remarks'' := EXCLUDED ''remarks'',
            ''updated_at'' := Num now)))
       (object
          (zip [''sub'', ''certificate_id'', ''issued_date'', ''expiry_date'', ''doctor_name'',
                ''hospital'', ''blood_group'', ''is_fit_to_drive'', ''vision_status'',
                ''hearing_status'', ''remarks'']
               (map bind params)
           @ [(''created_at'', Num now), (''updated_at'', Num now)]))
       s"

text \<open>
  The server's reading of a parameter for an \<^verbatim>\<open>INTEGER\<close> column: the decimal text of
  a 32-bit integer, blanks around it allowed (the six of C's \<^verbatim>\<open>isspace\<close>).
\<close>

definition isspace :: "char \<Rightarrow> bool" where
  "isspace c = (c \<in> set [CHR '' '', CHR 0x09, CHR 0x0A, CHR 0x0B, CHR 0x0C, CHR 0x0D])"

definition int4_in :: "val \<Rightarrow> js_error + val" where
  "int4_in v =
     (if v = Undefined \<or> v = Null then Inr Null
      else
        case (case v of Num n \<Rightarrow> Some n
              | Str t \<Rightarrow> parse_dec (rev (dropWhile isspace (rev (dropWhile isspace t))))
              | _ \<Rightarrow> None) of
          None \<Rightarrow> Inl (pg_error ''22P02'' ''invalid input syntax for type integer'')
        | Some n \<Rightarrow>
            if - 2147483648 \<le> n \<and> n \<le> 2147483647 then Inr (Num n)
            else Inl (pg_error ''22003'' ''value is out of range for type integer''))"

text \<open>The statement of \<^verbatim>\<open>saveUserSession\<close>.\<close>

definition user_sessions_upsert :: "val \<Rightarrow> val \<Rightarrow> val \<Rightarrow> val \<Rightarrow> val \<Rightarrow> val \<Rightarrow> statement" where
  "user_sessions_upsert sub session_id access_token token_type expires_in scope now s =
     (case int4_in expires_in of
        Inl e \<Rightarrow> Inl e
      | Inr seconds \<Rightarrow>
          insert_into user_sessions_schema
            (Some (\<lambda>existing EXCLUDED. existing
                (''access_token'' := EXCLUDED ''access_token'',
                 ''token_type'' := EXCLUDED ''token_type'',
                 ''expires_in'' := EXCLUDED ''expires_in'',
                 ''scope'' := EXCLUDED ''scope'',
                 ''created_at'' := Num now)))
            (object
               [(''sub'', bind sub), (''session_id'', bind session_id),
                (''access_token'', bind access_token), (''token_type'', bind token_type),
                (''expires_in'', seconds), (''scope'', bind scope),
                (''created_at'', Num now), (''expires_at'', Null)])
            s)"

text \<open>The statement of \<^verbatim>\<open>addLicenceCategory\<close>: a plain \<^verbatim>\<open>INSERT\<close>.\<close>

definition licence_categories_insert :: "val list \<Rightarrow> statement" where
  "licence_categories_insert params now s =
     insert_into licence_categories_schema None
       (object
          (zip [''category_code'', ''category_label'', ''description'', ''fee'', ''min_age'',
                ''vehicle_type'']
               (map bind params)
           @ [(''is_active'', Bool True),
              (''created_at'', Num now), (''updated_at'', Num now)]))
       s"

text \<open>The statement of \<^verbatim>\<open>saveApplication\<close>: a plain \<^verbatim>\<open>INSERT\<close> of 25 columns.\<close>

definition applications_insert :: "val list \<Rightarrow> statement" where
  "applications_insert params now s =
     insert_into applications_schema None
       (object
          (zip [''sub'', ''application_id'', ''medical_certificate_id'',
                ''selected_categories'', ''status'', ''total_amount'', ''payment_reference_id'',
                ''payment_transaction_id'', ''full_name'', ''email'', ''phone'',
                ''date_of_birth'', ''gender'', ''blood_group'', ''doctor_name'', ''hospital'',
                ''issued_date'', ''expiry_date'', ''is_fit_to_drive'', ''vision'', ''hearing'',
                ''remarks'', ''photo_url'', ''written_test'', ''practical_test'']
               (map bind params)
           @ [(''admin_status'', Str ''unverified''),
              (''created_at'', Num now), (''updated_at'', Num now)]))
       s"

text \<open>The statements of \<^verbatim>\<open>findBySub\<close> and \<^verbatim>\<open>getLicenceCategoryByCode\<close>.\<close>

definition users_select_by_sub :: "val \<Rightarrow> statement" where
  "users_select_by_sub sub now s = select_from ''users'' (\<lambda>r. sql_eq (r ''sub'') (bind sub)) s"

definition licence_categories_select_by_code :: "val \<Rightarrow> statement" where
  "licence_categories_select_by_code categoryCode now s =
     select_from ''licence_categories'' (\<lambda>r. sql_eq (r ''category_code'') (bind categoryCode)) s"

text \<open>
  The statement of \<^verbatim>\<open>findApplicationById\<close>:
  \<^verbatim>\<open>SELECT a.*, u.sub, u.name, u.email, u.phone, u.date_of_birth, u.address
  FROM applications a JOIN users u ON a.sub = u.sub WHERE a.application_id = $1\<close>.
  In the row object the driver builds, a later column of the same name replaces an
  earlier one.
\<close>

definition applications_join_users_by_id :: "val \<Rightarrow> statement" where
  "applications_join_users_by_id applicationId now s =
     Inr (concat
            (map (\<lambda>a. map (\<lambda>u. a(''sub'' := u ''sub'', ''name'' := u ''name'',
                                   ''email'' := u ''email'', ''phone'' := u ''phone'',
                                   ''date_of_birth'' := u ''date_of_birth'',
                                   ''address'' := u ''address''))
                          (filter (\<lambda>u. sql_eq (a ''sub'') (u ''sub'')) (tables s ''users'')))
                 (filter (\<lambda>a. sql_eq (a ''application_id'') (bind applicationId))
                         (tables s ''applications''))),
          s)"

text \<open>The statement of \<^verbatim>\<open>updateApplicationStatus\<close>.\<close>

definition applications_update_status :: "val \<Rightarrow> val \<Rightarrow> statement" where
  "applications_update_status status applicationId now s =
     update_where applications_schema
       (\<lambda>r. sql_eq (r ''application_id'') (bind applicationId))
       (\<lambda>r. r(''status'' := bind status, ''updated_at'' := Num now))
       s"

section \<open>The entity operations of class User\<close>

text \<open>
  An operation returns what it returns or throws, and the database it leaves. The body of
  each \<^verbatim>\<open>try\<close> is a definition of its own, so that the wrapping \<^verbatim>\<open>catch\<close> reads as
  in the source; the checks a save operation makes before it sends its statement are
  gathered, in the source's order, in a definition of their own.
\<close>

definition throw :: "string \<Rightarrow> database \<Rightarrow> (js_error + 'a) \<times> database" where
  "throw msg s = (Inl (new_Error msg), s)"

text \<open>\<^verbatim>\<open>const result = await this.executeQuery(...); return result.rows[0]\<close>.\<close>

definition return_first :: "(js_error + obj list) \<times> database \<Rightarrow> (js_error + obj option) \<times> database" where
  "return_first r = (case fst r of Inl e \<Rightarrow> (Inl e, snd r) | Inr rows \<Rightarrow> (Inr (first_row rows), snd r))"

text \<open>
  \<^verbatim>\<open>saveUser(userData)\<close>. Whether \<^verbatim>\<open>new Date(date_of_birth)\<close> is a valid date is the
  engine's date parser's answer, a parameter here.
\<close>

definition saveUser_checks :: "(val \<Rightarrow> bool) \<Rightarrow> obj \<Rightarrow> js_error + unit" where
  "saveUser_checks valid_date userData =
     (case validateRequiredFields userData [''sub'', ''name''] of
        Inl e \<Rightarrow> Inl e
      | Inr ok \<Rightarrow>
          if \<not> isValidEmail (userData ''email'') then Inl (new_Error ''Invalid email format'')
          else if truthy (userData ''date_of_birth'') \<and> \<not> valid_date (userData ''date_of_birth'')
          then Inl (new_Error ''Invalid date_of_birth format. Use YYYY-MM-DD'')
          else Inr ())"

definition saveUser_body :: "(val \<Rightarrow> bool) \<Rightarrow> obj \<Rightarrow> database \<Rightarrow> (js_error + obj option) \<times> database" where
  "saveUser_body valid_date userData s =
     (case saveUser_checks valid_date userData of
        Inl e \<Rightarrow> (Inl e, s)
      | Inr ok \<Rightarrow>
          return_first
            (executeQuery
               (users_upsert (userData ''sub'') (userData ''name'') (userData ''email'')
                  (userData ''phone'') (userData ''date_of_birth'') (userData ''address''))
               ''Save/update user'' s))"

definition saveUser :: "(val \<Rightarrow> bool) \<Rightarrow> obj \<Rightarrow> database \<Rightarrow> (js_error + obj option) \<times> database" where
  "saveUser valid_date userData s =
     rethrow ''Failed to save user: '' (saveUser_body valid_date userData s)"

text \<open>\<^verbatim>\<open>saveMedicalCertificate(userId, certificateData)\<close>.\<close>

definition saveMedicalCertificate_checks :: "obj \<Rightarrow> js_error + unit" where
  "saveMedicalCertificate_checks certificateData =
     validateRequiredFields certificateData
       [''certificate_id'', ''issued_date'', ''expiry_date'', ''doctor_name'', ''hospital'']"

definition saveMedicalCertificate_body :: "val \<Rightarrow> obj \<Rightarrow> database \<Rightarrow> (js_error + obj option) \<times> database" where
  "saveMedicalCertificate_body userId certificateData s =
     (case saveMedicalCertificate_checks certificateData of
        Inl e \<Rightarrow> (Inl e, s)
      | Inr ok \<Rightarrow>
          return_first
            (executeQuery
               (medical_certificates_upsert
                  [userId, certificateData ''certificate_id'', certificateData ''issued_date'',
                   certificateData ''expiry_date'', certificateData ''doctor_name'',
                   certificateData ''hospital'', certificateData ''blood_group'',
                   certificateData ''is_fit_to_drive'', certificateData ''vision_status'',
                   certificateData ''hearing_status'', certificateData ''remarks''])
               ''Save medical certificate'' s))"

definition saveMedicalCertificate :: "val \<Rightarrow> obj \<Rightarrow> database \<Rightarrow> (js_error + obj option) \<times> database" where
  "saveMedicalCertificate userId certificateData s =
     rethrow ''Failed to save medical certificate: ''
       (saveMedicalCertificate_body userId certificateData s)"

text \<open>\<^verbatim>\<open>getLicenceCategoryByCode(categoryCode)\<close>.\<close>

definition getLicenceCategoryByCode_body :: "val \<Rightarrow> database \<Rightarrow> (js_error + obj option) \<times> database" where
  "getLicenceCategoryByCode_body categoryCode s =
     (if \<not> truthy categoryCode then throw ''categoryCode is required'' s
      else
        case executeQuery (licence_categories_select_by_code categoryCode)
               ''Get licence category by code'' s of
          (Inl e, s') \<Rightarrow> (Inl e, s')
        | (Inr rows, s') \<Rightarrow>
            if length rows = 0
            then throw (''Licence category '' @ [CHR 0x27] @ to_string categoryCode @ [CHR 0x27] @ '' not found'') s'
            else (Inr (first_row rows), s'))"

definition getLicenceCategoryByCode :: "val \<Rightarrow> database \<Rightarrow> (js_error + obj option) \<times> database" where
  "getLicenceCategoryByCode categoryCode s =
     rethrow ''Failed to get licence category: '' (getLicenceCategoryByCode_body categoryCode s)"

text \<open>\<^verbatim>\<open>addLicenceCategory(categoryData)\<close>.\<close>

definition addLicenceCategory_checks :: "obj \<Rightarrow> js_error + unit" where
  "addLicenceCategory_checks categoryData =
     (case validateRequiredFields categoryData
             [''category_code'', ''category_label'', ''description'', ''fee''] of
        Inl e \<Rightarrow> Inl e
      | Inr ok \<Rightarrow>
          if js_le (categoryData ''fee'') 0 then Inl (new_Error ''Fee must be a positive number'')
          else if truthy (categoryData ''min_age'')
                  \<and> (js_lt (categoryData ''min_age'') 16 \<or> js_gt (categoryData ''min_age'') 100)
          then Inl (new_Error ''Minimum age must be between 16 and 100'')
          else Inr ())"

definition addLicenceCategory_body :: "obj \<Rightarrow> database \<Rightarrow> (js_error + obj option) \<times> database" where
  "addLicenceCategory_body categoryData s =
     (case addLicenceCategory_checks categoryData of
        Inl e \<Rightarrow> (Inl e, s)
      | Inr ok \<Rightarrow>
          return_first
            (executeQuery
               (licence_categories_insert
                  [categoryData ''category_code'', categoryData ''category_label'',
                   categoryData ''description'', categoryData ''fee'',
                   categoryData ''min_age'', categoryData ''vehicle_type''])
               ''Add licence category'' s))"

definition addLicenceCategory :: "obj \<Rightarrow> database \<Rightarrow> (js_error + obj option) \<times> database" where
  "addLicenceCategory categoryData s =
     rethrow ''Failed to add licence category: '' (addLicenceCategory_body categoryData s)"

text \<open>
  \<^verbatim>\<open>saveUserSession(userId, sessionData)\<close>. The destructuring default
  \<^verbatim>\<open>expires_in = 3600\<close> applies to \<^verbatim>\<open>undefined\<close> only.
\<close>

definition default_to :: "val \<Rightarrow> val \<Rightarrow> val" where
  "default_to d v = (if v = Undefined then d else v)"

definition saveUserSession_checks :: "obj \<Rightarrow> js_error + unit" where
  "saveUserSession_checks sessionData =
     validateRequiredFields sessionData [''session_id'', ''access_token'']"

definition saveUserSession_body :: "val \<Rightarrow> obj \<Rightarrow> database \<Rightarrow> (js_error + obj option) \<times> database" where
  "saveUserSession_body userId sessionData s =
     (let expires_in = default_to (Num 3600) (sessionData ''expires_in'') in
      case saveUserSession_checks sessionData of
        Inl e \<Rightarrow> (Inl e, s)
      | Inr ok \<Rightarrow>
          return_first
            (executeQuery
               (user_sessions_upsert userId (sessionData ''session_id'')
                  (sessionData ''access_token'') (sessionData ''token_type'') expires_in
                  (sessionData ''scope''))
               ''Save user session'' s))"

definition saveUserSession :: "val \<Rightarrow> obj \<Rightarrow> database \<Rightarrow> (js_error + obj option) \<times> database" where
  "saveUserSession userId sessionData s =
     rethrow ''Failed to save user session: '' (saveUserSession_body userId sessionData s)"

text \<open>
  \<^verbatim>\<open>saveApplication(applicationData)\<close>. A structured document is sent as its JSON text
  and read back by the server; the two together are taken as the identity on documents.
\<close>

definition saveApplication_required :: "string list" where
  "saveApplication_required =
     [''sub'', ''application_id'', ''selectCategories'', ''fullName'', ''email'', ''dob'',
      ''doctorName'', ''hospital'', ''issuedDate'', ''expiryDate'']"

definition saveApplication_checks :: "obj \<Rightarrow> js_error + unit" where
  "saveApplication_checks applicationData =
     (let selectCategories = applicationData ''selectCategories'';
          status = default_to (Str ''pending'') (applicationData ''status'');
          writtenTest = applicationData ''writtenTest'';
          practicalTest = applicationData ''practicalTest'';
          total_amount = default_to (Num 0) (applicationData ''total_amount'')
      in
      case validateRequiredFields applicationData saveApplication_required of
        Inl e \<Rightarrow> Inl e
      | Inr ok \<Rightarrow>
          if \<not> isArray selectCategories \<and> typeof selectCategories \<noteq> ''object''
          then Inl (new_Error ''selected_categories must be a valid array or JSON object'')
          else if js_lt total_amount 0
          then Inl (new_Error ''Total amount must be a non-negative number'')
          else if status \<notin> set (map Str validStatuses)
          then Inl (new_Error (''Invalid status. Must be one of: '' @ join '', '' validStatuses))
          else if truthy writtenTest \<and> typeof writtenTest \<noteq> ''object''
          then Inl (new_Error ''writtenTest must be a valid JSON object'')
          else if truthy practicalTest \<and> typeof practicalTest \<noteq> ''object''
          then Inl (new_Error ''practicalTest must be a valid JSON object'')
          else Inr ())"

definition saveApplication_body :: "obj \<Rightarrow> database \<Rightarrow> (js_error + obj option) \<times> database" where
  "saveApplication_body applicationData s =
     (let selectCategories = applicationData ''selectCategories'';
          status = default_to (Str ''pending'') (applicationData ''status'');
          writtenTest = applicationData ''writtenTest'';
          practicalTest = applicationData ''practicalTest'';
          total_amount = default_to (Num 0) (applicationData ''total_amount'');
          payment_reference_id = default_to Null (applicationData ''payment_reference_id'');
          payment_transaction_id = default_to Null (applicationData ''payment_transaction_id'')
      in
      case saveApplication_checks applicationData of
        Inl e \<Rightarrow> (Inl e, s)
      | Inr ok \<Rightarrow>
          return_first
            (executeQuery
               (applications_insert
                  [applicationData ''sub'', applicationData ''application_id'',
                   applicationData ''medical_certificate_id'', selectCategories, status,
                   total_amount, payment_reference_id, payment_transaction_id,
                   applicationData ''fullName'', applicationData ''email'',
                   applicationData ''phone'', applicationData ''dob'',
                   applicationData ''gender'', applicationData ''bloodGroup'',
                   applicationData ''doctorName'', applicationData ''hospital'',
                   applicationData ''issuedDate'', applicationData ''expiryDate'',
                   applicationData ''isFitToDrive'', applicationData ''vision'',
                   applicationData ''hearing'', applicationData ''remarks'',
                   applicationData ''photoUrl'',
                   (if truthy writtenTest then writtenTest else Null),
                   (if truthy practicalTest then practicalTest else Null)])
               ''Save application'' s))"

definition saveApplication :: "obj \<Rightarrow> database \<Rightarrow> (js_error + obj option) \<times> database" where
  "saveApplication applicationData s =
     rethrow ''Failed to save application: '' (saveApplication_body applicationData s)"

text \<open>\<^verbatim>\<open>findBySub(sub)\<close>.\<close>

definition findBySub_body :: "val \<Rightarrow> database \<Rightarrow> (js_error + obj option) \<times> database" where
  "findBySub_body sub s =
     (if \<not> truthy sub then throw ''sub is required'' s
      else return_first (executeQuery (users_select_by_sub sub) ''Find user by sub'' s))"

definition findBySub :: "val \<Rightarrow> database \<Rightarrow> (js_error + obj option) \<times> database" where
  "findBySub sub s = rethrow ''Failed to find user: '' (findBySub_body sub s)"

text \<open>\<^verbatim>\<open>findApplicationById(applicationId)\<close>.\<close>

definition findApplicationById_body :: "val \<Rightarrow> database \<Rightarrow> (js_error + obj option) \<times> database" where
  "findApplicationById_body applicationId s =
     (if \<not> truthy applicationId then throw ''applicationId is required'' s
      else
        case executeQuery (applications_join_users_by_id applicationId)
               ''Find application by ID'' s of
          (Inl e, s') \<Rightarrow> (Inl e, s')
        | (Inr rows, s') \<Rightarrow>
            if length rows = 0
            then throw (''Application '' @ [CHR 0x27] @ to_string applicationId @ [CHR 0x27] @ '' not found'') s'
            else (Inr (first_row rows), s'))"

definition findApplicationById :: "val \<Rightarrow> database \<Rightarrow> (js_error + obj option) \<times> database" where
  "findApplicationById applicationId s =
     rethrow ''Failed to find application: '' (findApplicationById_body applicationId s)"

text \<open>\<^verbatim>\<open>updateApplicationStatus(applicationId, status)\<close>.\<close>

definition updateApplicationStatus_body :: "val \<Rightarrow> val \<Rightarrow> database \<Rightarrow> (js_error + obj option) \<times> database" where
  "updateApplicationStatus_body applicationId status s =
     (if \<not> truthy applicationId \<or> \<not> truthy status
      then throw ''applicationId and status are required'' s
      else if status \<notin> set (map Str validStatuses)
      then throw (''Invalid status. Must be one of: '' @ join '', '' validStatuses) s
      else
        case executeQuery (applications_update_status status applicationId)
               ''Update application status'' s of
          (Inl e, s') \<Rightarrow> (Inl e, s')
        | (Inr rows, s') \<Rightarrow>
            if length rows = 0
            then throw (''Application '' @ [CHR 0x27] @ to_string applicationId @ [CHR 0x27] @ '' not found'') s'
            else (Inr (first_row rows), s'))"

definition updateApplicationStatus :: "val \<Rightarrow> val \<Rightarrow> database \<Rightarrow> (js_error + obj option) \<times> database" where
  "updateApplicationStatus applicationId status s =
     rethrow ''Failed to update application status: ''
       (updateApplicationStatus_body applicationId status s)"

section \<open>The listing of applications\<close>

text \<open>
  The handler of \<^verbatim>\<open>GET /\<close> in \<^verbatim>\<open>src/Routes/Applications.js\<close>. The query
  parameters \<^verbatim>\<open>page\<close> and \<^verbatim>\<open>limit\<close> are taken at the integers they denote;
  \<^verbatim>\<open>status\<close>, \<^verbatim>\<open>search\<close>, \<^verbatim>\<open>sortBy\<close> and \<^verbatim>\<open>sortOrder\<close> are strings or
  absent. Letters are the ASCII letters.
\<close>

definition to_lower :: "char \<Rightarrow> char" where
  "to_lower c = (if CHR ''A'' \<le> c \<and> c \<le> CHR ''Z'' then char_of (of_char c + (32::nat)) else c)"

definition to_upper :: "char \<Rightarrow> char" where
  "to_upper c = (if CHR ''a'' \<le> c \<and> c \<le> CHR ''z'' then char_of (of_char c - (32::nat)) else c)"

text \<open>
  The server's \<^verbatim>\<open>LIKE\<close>: in the pattern \<^verbatim>\<open>%\<close> stands for any run of characters,
  \<^verbatim>\<open>_\<close> for any one character, and a backslash makes the next character stand for
  itself. (On a pattern that ends in a lone backslash the server raises an error; the
  patterns built below end in \<^verbatim>\<open>%\<close>.) \<^verbatim>\<open>ILIKE\<close> compares the lower-cased pattern
  with the lower-cased text. A column that is NULL, or does not hold a string, matches
  nothing.
\<close>

fun like :: "string \<Rightarrow> string \<Rightarrow> bool" where
  "like [] t = (t = [])"
| "like (p # ps) [] = (p = CHR ''%'' \<and> like ps [])"
| "like (p # ps) (c # cs) =
     (if p = CHR ''%'' then like ps (c # cs) \<or> like (p # ps) cs
      else if p = CHR ''_'' then like ps cs
      else if p = CHR 0x5C then (case ps of [] \<Rightarrow> False | q # qs \<Rightarrow> c = q \<and> like qs cs)
      else c = p \<and> like ps cs)"

definition ilike :: "val \<Rightarrow> string \<Rightarrow> bool" where
  "ilike v pattern =
     (case v of Str t \<Rightarrow> like (map to_lower pattern) (map to_lower t) | _ \<Rightarrow> False)"

text \<open>
  \<^verbatim>\<open>ORDER BY column ASC|DESC\<close>: NULL sorts as larger than every value; strings compare
  code unit by code unit. Rows with equal keys come in an order the server does not
  specify; the model fixes one.
\<close>

definition sort_key_of :: "val \<Rightarrow> nat \<times> int \<times> string" where
  "sort_key_of v =
     (case v of Null \<Rightarrow> (1, 0, []) | Num n \<Rightarrow> (0, n, []) | Str t \<Rightarrow> (0, 0, t) | _ \<Rightarrow> (0, 0, []))"

definition order_by :: "string \<Rightarrow> bool \<Rightarrow> obj list \<Rightarrow> obj list" where
  "order_by column descending rows =
     (if descending then rev (sort_key (\<lambda>r. sort_key_of (r column)) rows)
      else sort_key (\<lambda>r. sort_key_of (r column)) rows)"

text \<open>\<^verbatim>\<open>LIMIT $n OFFSET $m\<close>: the server rejects a negative offset, then a negative limit.\<close>

definition limit_offset :: "int \<Rightarrow> int \<Rightarrow> obj list \<Rightarrow> js_error + obj list" where
  "limit_offset limit offset rows =
     (if offset < 0 then Inl (pg_error ''2201X'' ''OFFSET must not be negative'')
      else if limit < 0 then Inl (pg_error ''2201W'' ''LIMIT must not be negative'')
      else Inr (take (nat limit) (drop (nat offset) rows)))"

text \<open>The columns the filtered query selects (\<^verbatim>\<open>admin_status\<close> is not among them).\<close>

definition listed_columns :: "string list" where
  "listed_columns =
     [''sub'', ''application_id'', ''medical_certificate_id'', ''full_name'', ''email'',
      ''phone'', ''date_of_birth'', ''gender'', ''blood_group'', ''doctor_name'', ''hospital'',
      ''issued_date'', ''expiry_date'', ''is_fit_to_drive'', ''vision'', ''hearing'', ''remarks'',
      ''photo_url'', ''written_test'', ''practical_test'', ''selected_categories'',
      ''total_amount'', ''payment_reference_id'', ''payment_transaction_id'', ''status'',
      ''created_at'', ''updated_at'']"

definition project :: "string list \<Rightarrow> obj \<Rightarrow> obj" where
  "project columns r c = (if c \<in> set columns then r c else Undefined)"

text \<open>
  The conditions the handler appends to \<^verbatim>\<open>WHERE 1=1\<close>: \<^verbatim>\<open>a.status = $n\<close> when
  \<^verbatim>\<open>status\<close> is given and is not \<^verbatim>\<open>'all'\<close>, and the five \<^verbatim>\<open>ILIKE\<close> tests against
  \<^verbatim>\<open>`%${search}%`\<close> when \<^verbatim>\<open>search\<close> is given.
\<close>

definition status_condition :: "string option \<Rightarrow> obj \<Rightarrow> bool" where
  "status_condition status a =
     (case status of
        None \<Rightarrow> True
      | Some st \<Rightarrow> if st \<noteq> [] \<and> st \<noteq> ''all'' then sql_eq (a ''status'') (Str st) else True)"

definition search_condition :: "string option \<Rightarrow> obj \<Rightarrow> bool" where
  "search_condition search a =
     (case search of
        None \<Rightarrow> True
      | Some term \<Rightarrow>
          if term \<noteq> []
          then (let pattern = ''%'' @ term @ ''%'' in
                ilike (a ''application_id'') pattern
                \<or> ilike (a ''medical_certificate_id'') pattern
                \<or> ilike (a ''sub'') pattern
                \<or> ilike (a ''full_name'') pattern
                \<or> ilike (a ''email'') pattern)
          else True)"

definition validSortColumns :: "string list" where
  "validSortColumns =
     [''created_at'', ''updated_at'', ''full_name'', ''status'', ''expiry_date'',
      ''application_id'', ''medical_certificate_id'']"

text \<open>The four statements of the handler.\<close>

definition applications_page ::
  "(obj \<Rightarrow> bool) \<Rightarrow> string \<Rightarrow> bool \<Rightarrow> int \<Rightarrow> int \<Rightarrow> statement" where
  "applications_page wh sortColumn descending limit offset now s =
     (case limit_offset limit offset
             (order_by sortColumn descending (filter wh (tables s ''applications''))) of
        Inl e \<Rightarrow> Inl e
      | Inr rows \<Rightarrow> Inr (map (project listed_columns) rows, s))"

definition applications_count :: "(obj \<Rightarrow> bool) \<Rightarrow> statement" where
  "applications_count wh now s =
     Inr ([object [(''count'', Num (int (length (filter wh (tables s ''applications'')))))]], s)"

definition applications_simple_page :: "int \<Rightarrow> int \<Rightarrow> statement" where
  "applications_simple_page limit offset now s =
     (case limit_offset limit offset (order_by ''created_at'' True (tables s ''applications'')) of
        Inl e \<Rightarrow> Inl e
      | Inr rows \<Rightarrow> Inr (rows, s))"

definition applications_simple_count :: statement where
  "applications_simple_count now s =
     Inr ([object [(''count'', Num (int (length (tables s ''applications''))))]], s)"

text \<open>
  \<^verbatim>\<open>parseInt(countResult.rows[0].count)\<close>: the count comes back as decimal text and is
  read back; it is kept as the number here.
\<close>

definition count_of :: "obj list \<Rightarrow> int" where
  "count_of rows = (case rows of [] \<Rightarrow> 0 | r # rs \<Rightarrow> (case r ''count'' of Num n \<Rightarrow> n | _ \<Rightarrow> 0))"

text \<open>
  The normalisation of the three document columns:
  \<^verbatim>\<open>if (app.c && typeof app.c === 'string') app.c = JSON.parse(app.c)\<close>.
  \<^verbatim>\<open>JSON.parse\<close> is a parameter: it gives the value read, or the message of the
  \<^verbatim>\<open>SyntaxError\<close> it throws.
\<close>

definition parse_column :: "(string \<Rightarrow> string + val) \<Rightarrow> string \<Rightarrow> obj \<Rightarrow> js_error + obj" where
  "parse_column JSON_parse c app =
     (if truthy (app c) \<and> typeof (app c) = ''string''
      then (case JSON_parse (to_string (app c)) of
              Inl msg \<Rightarrow> Inl (new_Error msg)
            | Inr v \<Rightarrow> Inr (app(c := v)))
      else Inr app)"

definition parse_jsonb_fields :: "(string \<Rightarrow> string + val) \<Rightarrow> obj \<Rightarrow> js_error + obj" where
  "parse_jsonb_fields JSON_parse app =
     (case parse_column JSON_parse ''selected_categories'' app of
        Inl e \<Rightarrow> Inl e
      | Inr app1 \<Rightarrow>
          (case parse_column JSON_parse ''written_test'' app1 of
             Inl e \<Rightarrow> Inl e
           | Inr app2 \<Rightarrow> parse_column JSON_parse ''practical_test'' app2))"

text \<open>\<^verbatim>\<open>rows.map(f)\<close> for an \<open>f\<close> that may throw: the first throw ends the map.\<close>

fun map_rows :: "(obj \<Rightarrow> js_error + obj) \<Rightarrow> obj list \<Rightarrow> js_error + obj list" where
  "map_rows f [] = Inr []"
| "map_rows f (r # rs) =
     (case f r of
        Inl e \<Rightarrow> Inl e
      | Inr r' \<Rightarrow> (case map_rows f rs of Inl e \<Rightarrow> Inl e | Inr rs' \<Rightarrow> Inr (r' # rs')))"

text \<open>
  The response. Of \<^verbatim>\<open>pagination\<close> only \<^verbatim>\<open>totalCount\<close> is kept: \<^verbatim>\<open>totalPages\<close>,
  \<^verbatim>\<open>hasNext\<close> and \<^verbatim>\<open>hasPrev\<close> come from a floating-point division and are outside
  the model.
\<close>

record listing =
  applications :: "obj list"
  totalCount :: int

text \<open>
  \<^verbatim>\<open>Promise.all\<close> of two queries: both run (here the page query first); it rejects
  when one of them does.
\<close>

definition both_queries ::
  "statement \<Rightarrow> string \<Rightarrow> statement \<Rightarrow> string \<Rightarrow> database
     \<Rightarrow> (js_error + (obj list \<times> obj list)) \<times> database" where
  "both_queries q1 l1 q2 l2 s =
     (let r1 = executeQuery q1 l1 s;
          r2 = executeQuery q2 l2 (snd r1)
      in case fst r1 of
           Inl e \<Rightarrow> (Inl e, snd r2)
         | Inr rows1 \<Rightarrow>
             (case fst r2 of
                Inl e \<Rightarrow> (Inl e, snd r2)
              | Inr rows2 \<Rightarrow> (Inr (rows1, rows2), snd r2)))"

text \<open>What follows the two queries, in the \<^verbatim>\<open>try\<close> block and in the \<^verbatim>\<open>catch\<close> block alike.\<close>

definition respond ::
  "(string \<Rightarrow> string + val) \<Rightarrow> (js_error + (obj list \<times> obj list)) \<times> database
     \<Rightarrow> (js_error + listing) \<times> database" where
  "respond JSON_parse r =
     (case fst r of
        Inl e \<Rightarrow> (Inl e, snd r)
      | Inr (applicationsResult, countResult) \<Rightarrow>
          (case map_rows (parse_jsonb_fields JSON_parse) applicationsResult of
             Inl e \<Rightarrow> (Inl e, snd r)
           | Inr apps \<Rightarrow>
               (Inr \<lparr>applications = apps, totalCount = count_of countResult\<rparr>, snd r)))"

text \<open>The inner \<^verbatim>\<open>try\<close> block: the filtered, sorted page and the matching count.\<close>

definition filtered_listing ::
  "(string \<Rightarrow> string + val) \<Rightarrow> int \<Rightarrow> int \<Rightarrow> string option \<Rightarrow> string option
     \<Rightarrow> string option \<Rightarrow> string option \<Rightarrow> database \<Rightarrow> (js_error + listing) \<times> database" where
  "filtered_listing JSON_parse page limit status search sortBy sortOrder s =
     (let offset = (page - 1) * limit;
          wh = (\<lambda>a. status_condition status a \<and> search_condition search a);
          sortBy' = (case sortBy of None \<Rightarrow> ''created_at'' | Some c \<Rightarrow> c);
          sortOrder' = (case sortOrder of None \<Rightarrow> ''DESC'' | Some d \<Rightarrow> d);
          sortColumn = (if sortBy' \<in> set validSortColumns then sortBy' else ''created_at'');
          descending = (map to_upper sortOrder' \<noteq> ''ASC'')
      in respond JSON_parse
           (both_queries
              (applications_page wh sortColumn descending limit offset) ''Get applications''
              (applications_count wh) ''Count applications'' s))"

text \<open>The \<^verbatim>\<open>catch (dbError)\<close> block: the unfiltered page and the unfiltered count.\<close>

definition simple_listing ::
  "(string \<Rightarrow> string + val) \<Rightarrow> int \<Rightarrow> int \<Rightarrow> database \<Rightarrow> (js_error + listing) \<times> database" where
  "simple_listing JSON_parse page limit s =
     (let offset = (page - 1) * limit in
      respond JSON_parse
        (both_queries
           (applications_simple_page limit offset) ''Get applications simple''
           applications_simple_count ''Count applications simple'' s))"

text \<open>
  The handler: an error of the \<^verbatim>\<open>try\<close> block is dropped and the \<^verbatim>\<open>catch\<close> block
  runs; an error of the \<^verbatim>\<open>catch\<close> block goes to \<^verbatim>\<open>next(error)\<close>, here the
  \<open>Inl\<close> result.
\<close>

definition get_applications ::
  "(string \<Rightarrow> string + val) \<Rightarrow> int \<Rightarrow> int \<Rightarrow> string option \<Rightarrow> string option
     \<Rightarrow> string option \<Rightarrow> string option \<Rightarrow> database \<Rightarrow> (js_error + listing) \<times> database" where
  "get_applications JSON_parse page limit status search sortBy sortOrder s =
     (let tried = filtered_listing JSON_parse page limit status search sortBy sortOrder s in
      case fst tried of
        Inr response \<Rightarrow> (Inr response, snd tried)
      | Inl dbError \<Rightarrow> simple_listing JSON_parse page limit (snd tried))"

text \<open>
  What the listing is measured against: the characters that \<^verbatim>\<open>LIKE\<close> does not take
  literally, and the property that a search term occurs, letter case aside, in one of the
  five columns searched.
\<close>

definition like_special :: "char set" where
  "like_special = {CHR ''%'', CHR ''_'', CHR 0x5C}"

definition search_columns :: "string list" where
  "search_columns = [''application_id'', ''medical_certificate_id'', ''sub'', ''full_name'', ''email'']"

definition contains_term :: "string \<Rightarrow> obj \<Rightarrow> bool" where
  "contains_term term a =
     list_ex (\<lambda>c. case a c of Str t \<Rightarrow> sublist (map to_lower term) (map to_lower t) | _ \<Rightarrow> False)
       search_columns"

text \<open>Descending order of creation time, on the keys by which \<^verbatim>\<open>ORDER BY\<close> compares.\<close>

definition newest_first :: "obj list \<Rightarrow> bool" where
  "newest_first rows =
     sorted_wrt (\<lambda>a b. sort_key_of (b ''created_at'') \<le> sort_key_of (a ''created_at'')) rows"

section \<open>Schema initialisation\<close>

text \<open>
  \<^verbatim>\<open>initTables\<close> talks to one pooled client directly. The statements it sends are
  recorded in the order sent; each multi-statement \<^verbatim>\<open>CREATE TABLE IF NOT EXISTS\<close> text
  (table, indexes and, for the sessions, the trigger) is one statement, named by its
  table. The pool says whether \<^verbatim>\<open>db.connect()\<close> fails, and which statement the server
  refuses, given those already sent on the connection.
\<close>

datatype sql =
    BEGIN
  | SELECT_1
  | CREATE_TABLE_IF_NOT_EXISTS string
  | UPSERT_LICENCE_CATEGORY "val list"
  | COMMIT
  | ROLLBACK

record pool =
  connect_fails :: "js_error option"
  refuses :: "sql list \<Rightarrow> sql \<Rightarrow> js_error option"

record client =
  sent :: "sql list"
  released :: bool

type_synonym step = "client \<Rightarrow> (js_error + unit) \<times> client"

definition client_query :: "pool \<Rightarrow> sql \<Rightarrow> step" where
  "client_query p q c =
     (case refuses p (sent c) q of
        Some e \<Rightarrow> (Inl e, c\<lparr>sent := sent c @ [q]\<rparr>)
      | None \<Rightarrow> (Inr (), c\<lparr>sent := sent c @ [q]\<rparr>))"

text \<open>A sequence of awaited calls: the first one that throws ends it.\<close>

fun run_steps :: "step list \<Rightarrow> step" where
  "run_steps [] c = (Inr (), c)"
| "run_steps (f # fs) c =
     (case f c of
        (Inl e, c') \<Rightarrow> (Inl e, c')
      | (Inr ok, c') \<Rightarrow> run_steps fs c')"

text \<open>The table-creating methods, called with a client as \<^verbatim>\<open>initTables\<close> calls them.\<close>

definition createTable :: "pool \<Rightarrow> step" where
  "createTable p = client_query p (CREATE_TABLE_IF_NOT_EXISTS ''users'')"

definition createLicenceCategoriesTable :: "pool \<Rightarrow> step" where
  "createLicenceCategoriesTable p = client_query p (CREATE_TABLE_IF_NOT_EXISTS ''licence_categories'')"

definition createSessionsTable :: "pool \<Rightarrow> step" where
  "createSessionsTable p = client_query p (CREATE_TABLE_IF_NOT_EXISTS ''user_sessions'')"

definition createApplicationsTable :: "pool \<Rightarrow> step" where
  "createApplicationsTable p = client_query p (CREATE_TABLE_IF_NOT_EXISTS ''applications'')"

definition createMedicalCertificatesTable :: "pool \<Rightarrow> step" where
  "createMedicalCertificatesTable p = client_query p (CREATE_TABLE_IF_NOT_EXISTS ''medical_certificates'')"

text \<open>
  \<^verbatim>\<open>seedLicenceCategories(client)\<close>: one
  \<^verbatim>\<open>INSERT ... ON CONFLICT (category_code) DO UPDATE\<close> for each of the eight categories,
  with the values code, label, description, fee, minimum age and vehicle type.
\<close>

definition categories :: "val list list" where
  "categories =
     [[Str ''A1'', Str ''A1'', Str ''Light Motor Cycle (up to 125cc)'', Num 1500, Num 18, Str ''Motorcycle''],
      [Str ''A'', Str ''A'', Str ''Motor Cycle (above 125cc)'', Num 1500, Num 18, Str ''Motorcycle''],
      [Str ''B1'', Str ''B1'', Str ''Motor Tricycle'', Num 2000, Num 18, Str ''Three-wheeler''],
      [Str ''B'', Str ''B'', Str ''Light Motor Car (up to 3500 kg)'', Num 2500, Num 18, Str ''Light Vehicle''],
      [Str ''C1'', Str ''C1'', Str ''Light Motor Lorry (3500 kg to 7500 kg)'', Num 3000, Num 21, Str ''Medium Vehicle''],
      [Str ''C'', Str ''C'', Str ''Heavy Motor Lorry (above 7500 kg)'', Num 3500, Num 25, Str ''Heavy Vehicle''],
      [Str ''D1'', Str ''D1'', Str ''Mini Bus (up to 16 passengers)'', Num 4000, Num 21, Str ''Passenger Vehicle''],
      [Str ''D'', Str ''D'', Str ''Heavy Bus (above 16 passengers)'', Num 4500, Num 25, Str ''Passenger Vehicle'']]"

definition seedLicenceCategories :: "pool \<Rightarrow> step" where
  "seedLicenceCategories p =
     run_steps (map (\<lambda>category. client_query p (UPSERT_LICENCE_CATEGORY category)) categories)"

text \<open>
  \<^verbatim>\<open>initTables\<close> also calls \<^verbatim>\<open>this.addAdminStatusField(client)\<close>, between the last
  table and the seeding. Class \<^verbatim>\<open>User\<close> declares no member of that name, and no file
  of the repository gives it one: the call of the undefined property throws a
  \<^verbatim>\<open>TypeError\<close>.
\<close>

definition undefined_method :: "string \<Rightarrow> step" where
  "undefined_method name c = (Inl (new_Error (''this.'' @ name @ '' is not a function'')), c)"

text \<open>
  The body of \<^verbatim>\<open>initTables\<close>, with the step that the call of
  \<^verbatim>\<open>this.addAdminStatusField\<close> makes as a parameter; \<open>initTables\<close> is the method as the
  source has it.
\<close>

definition initTables_steps :: "step \<Rightarrow> pool \<Rightarrow> step list" where
  "initTables_steps addAdminStatusField p =
     [client_query p BEGIN,
      client_query p SELECT_1,
      createTable p,
      createLicenceCategoriesTable p,
      createSessionsTable p,
      createApplicationsTable p,
      createMedicalCertificatesTable p,
      addAdminStatusField,
      seedLicenceCategories p,
      client_query p COMMIT]"

definition release :: "client \<Rightarrow> client" where
  "release c = c\<lparr>released := True\<rparr>"

definition initTables_calling :: "step \<Rightarrow> pool \<Rightarrow> (js_error + unit) \<times> client" where
  "initTables_calling addAdminStatusField p =
     (case connect_fails p of
        Some e \<Rightarrow> (Inl e, \<lparr>sent = [], released = False\<rparr>)
      | None \<Rightarrow>
          (case run_steps (initTables_steps addAdminStatusField p) \<lparr>sent = [], released = False\<rparr> of
             (Inr ok, c) \<Rightarrow> (Inr (), release c)
           | (Inl error, c) \<Rightarrow>
               (case client_query p ROLLBACK c of
                  (Inl e, c') \<Rightarrow> (Inl e, release c')
                | (Inr ok, c') \<Rightarrow>
                    (Inl (new_Error (''Failed to initialize database tables: '' @ message error)),
                     release c'))))"

definition initTables :: "pool \<Rightarrow> (js_error + unit) \<times> client" where
  "initTables p = initTables_calling (undefined_method ''addAdminStatusField'') p"

section \<open>Example data\<close>

text \<open>
  An empty database on which no call fails and whose clock shows one second per call; a
  user, and a date parser that accepts everything. They serve as concrete inputs.
\<close>

definition empty_db :: database where
  "empty_db =
     \<lparr>tables = (\<lambda>t. []), calls = 0, oplog = [], faults = (\<lambda>n. None),
      clock = (\<lambda>n. 1000000 * (1 + int n))\<rparr>"

definition any_date :: "val \<Rightarrow> bool" where
  "any_date v = True"

definition alice :: obj where
  "alice = object [(''sub'', Str ''sub-1''), (''name'', Str ''Alice''),
                   (''email'', Str ''alice@example.com'')]"

definition alice_renamed :: obj where
  "alice_renamed = object [(''sub'', Str ''sub-1''), (''name'', Str ''Alice B''),
                           (''phone'', Str ''555'')]"

definition healthy_pool :: pool where
  "healthy_pool = \<lparr>connect_fails = None, refuses = (\<lambda>history q. None)\<rparr>"

definition alice_row :: obj where
  "alice_row =
     object [(''sub'', Str ''sub-1''), (''name'', Str ''Alice''),
             (''email'', Str ''alice@example.com''), (''phone'', Null),
             (''date_of_birth'', Null), (''address'', Null),
             (''created_at'', Num 1000000), (''updated_at'', Num 1000000)]"

definition db_with_alice :: database where
  "db_with_alice =
     logOperation ''Save/update user'' True
       (set_table ''users'' [alice_row] (empty_db\<lparr>calls := 1\<rparr>))"

section \<open>The derived expiry of a session\<close>

text \<open>
  The invariant of \<open>user_sessions\<close>: \<open>expires_at\<close> is \<open>created_at\<close> plus \<open>expires_in\<close>
  seconds (NULL when \<open>expires_in\<close> is NULL, as the sum is in SQL).
\<close>

definition expiry_derived :: "obj \<Rightarrow> bool" where
  "expiry_derived r = (r ''expires_at'' = add_seconds (r ''created_at'') (r ''expires_in''))"

definition session_data :: obj where
  "session_data = object [(''session_id'', Str ''sess-1''), (''access_token'', Str ''tok-1''),
                          (''expires_in'', Num 3600)]"

text \<open>One row in each table, and an input for each save operation that has the row's key.\<close>

definition certificate_row :: obj where
  "certificate_row =
     object [(''sub'', Str ''sub-1''), (''certificate_id'', Str ''MED001''),
             (''issued_date'', Str ''2024-01-10''), (''expiry_date'', Str ''2025-01-10''),
             (''doctor_name'', Str ''Dr. Smith''), (''hospital'', Str ''City Hospital''),
             (''created_at'', Num 2000000), (''updated_at'', Num 2000000)]"

definition certificate_data :: obj where
  "certificate_data =
     object [(''certificate_id'', Str ''MED001''),
             (''issued_date'', Str ''2024-06-01''), (''expiry_date'', Str ''2025-06-01''),
             (''doctor_name'', Str ''Dr. Jones''), (''hospital'', Str ''General Hospital'')]"

definition session_row :: obj where
  "session_row =
     object [(''sub'', Str ''sub-1''), (''session_id'', Str ''sess-1''),
             (''access_token'', Str ''tok-0''), (''expires_in'', Num 60),
             (''created_at'', Num 3000000), (''expires_at'', Num 63000000)]"

definition category_row :: obj where
  "category_row =
     object [(''category_code'', Str ''B''), (''category_label'', Str ''B''),
             (''description'', Str ''Light Motor Car (up to 3500 kg)''), (''fee'', Num 2500),
             (''min_age'', Num 18), (''vehicle_type'', Str ''Light Vehicle''),
             (''is_active'', Bool True),
             (''created_at'', Num 4000000), (''updated_at'', Num 4000000)]"

definition category_B :: obj where
  "category_B =
     object [(''category_code'', Str ''B''), (''category_label'', Str ''B (cars)''),
             (''description'', Str ''Light Motor Car''), (''fee'', Num 2600)]"

definition application_row :: obj where
  "application_row =
     object [(''sub'', Str ''sub-1''), (''application_id'', Str ''APP001''),
             (''medical_certificate_id'', Str ''MED001''), (''full_name'', Str ''John Doe''),
             (''email'', Str ''john@example.com''), (''date_of_birth'', Str ''1990-01-01''),
             (''doctor_name'', Str ''Dr. Smith''), (''hospital'', Str ''City Hospital''),
             (''issued_date'', Str ''2024-01-10''), (''expiry_date'', Str ''2025-01-10''),
             (''selected_categories'', Arr [Str ''B'']), (''written_test'', Null),
             (''practical_test'', Null), (''status'', Str ''pending''),
             (''admin_status'', Str ''unverified''),
             (''created_at'', Num 5000000), (''updated_at'', Num 5000000)]"

definition application_data :: obj where
  "application_data =
     object [(''sub'', Str ''sub-1''), (''application_id'', Str ''APP001''),
             (''medical_certificate_id'', Str ''MED001''),
             (''selectCategories'', Arr [Str ''B'', Str ''A'']),
             (''fullName'', Str ''John Doe''), (''email'', Str ''john@example.com''),
             (''dob'', Str ''1990-01-01''), (''doctorName'', Str ''Dr. Smith''),
             (''hospital'', Str ''City Hospital''), (''issuedDate'', Str ''2024-01-10''),
             (''expiryDate'', Str ''2025-01-10'')]"

definition seeded_db :: database where
  "seeded_db =
     empty_db
       \<lparr>tables := (\<lambda>t. [])
           (''users'' := [alice_row],
            ''medical_certificates'' := [certificate_row],
            ''user_sessions'' := [session_row],
            ''licence_categories'' := [category_row],
            ''applications'' := [application_row]),
        calls := 5\<rparr>"

text \<open>
  A \<^verbatim>\<open>JSON.parse\<close> for the examples: the only text it is applied to there,
  \<^verbatim>\<open>passed\<close>, is not JSON.
\<close>

definition no_json :: "string \<Rightarrow> string + val" where
  "no_json text = Inl ''Unexpected token''"

text \<open>The \<open>seeded_db\<close> on which the sixth call, the filtered page query, times out.\<close>

definition slow_db :: database where
  "slow_db =
     seeded_db
       \<lparr>faults := (\<lambda>n. if n = 5
                        then Some (StatementError
                               (Error (Some ''57014'') ''canceling statement due to statement timeout''))
                        else None)\<rparr>"

text \<open>
  A second, newer application, and the \<open>slow_db\<close> holding both, the older one first in
  the table.
\<close>

definition newer_application_row :: obj where
  "newer_application_row =
     application_row(''application_id'' := Str ''APP002'', ''full_name'' := Str ''Jane Roe'',
                     ''created_at'' := Num 9000000, ''updated_at'' := Num 9000000)"

definition slow_db_two :: database where
  "slow_db_two =
     slow_db\<lparr>tables := (tables slow_db)
                 (''applications'' := [application_row, newer_application_row])\<rparr>"

text \<open>
  An application whose \<open>written_test\<close> document is a JSON string, which the driver hands
  over as a string, and a database holding it alone.
\<close>

definition text_document_row :: obj where
  "text_document_row = application_row(''written_test'' := Str ''passed'')"

definition text_document_db :: database where
  "text_document_db =
     seeded_db\<lparr>tables := (tables seeded_db)(''applications'' := [text_document_row])\<rparr>"

text \<open>The applications of a response; none when the handler ended in an error.\<close>

definition returned_page :: "(js_error + listing) \<times> database \<Rightarrow> obj list" where
  "returned_page r = (case fst r of Inl e \<Rightarrow> [] | Inr response \<Rightarrow> applications response)"

text \<open>The error an operation ended in, if it did.\<close>

definition thrown :: "(js_error + 'a) \<times> database \<Rightarrow> js_error option" where
  "thrown r = (case fst r of Inl e \<Rightarrow> Some e | Inr x \<Rightarrow> None)"

section \<open>The example data\<close>

lemma alice_fields:
  "alice ''sub'' = Str ''sub-1''" "alice ''name'' = Str ''Alice''"
  "alice ''email'' = Str ''alice@example.com''" "alice ''phone'' = Undefined"
  "alice ''date_of_birth'' = Undefined" "alice ''address'' = Undefined"
  by (simp_all add: alice_def object_def)

lemma alice_renamed_fields:
  "alice_renamed ''sub'' = Str ''sub-1''" "alice_renamed ''name'' = Str ''Alice B''"
  "alice_renamed ''email'' = Undefined" "alice_renamed ''phone'' = Str ''555''"
  "alice_renamed ''date_of_birth'' = Undefined" "alice_renamed ''address'' = Undefined"
  by (simp_all add: alice_renamed_def object_def)

lemma alice_row_fields:
  "alice_row ''sub'' = Str ''sub-1''" "alice_row ''created_at'' = Num 1000000"
  "alice_row ''updated_at'' = Num 1000000"
  by (simp_all add: alice_row_def object_def)

lemma session_data_fields:
  "session_data ''session_id'' = Str ''sess-1''" "session_data ''access_token'' = Str ''tok-1''"
  "session_data ''expires_in'' = Num 3600" "session_data ''token_type'' = Undefined"
  "session_data ''scope'' = Undefined"
  by (simp_all add: session_data_def object_def)

lemma seeded_db_fields:
  "faults seeded_db (calls seeded_db) = None" "clock seeded_db (calls seeded_db) = 6000000"
  "tables seeded_db ''users'' = [alice_row]"
  "tables seeded_db ''medical_certificates'' = [certificate_row]"
  "tables seeded_db ''user_sessions'' = [session_row]"
  "tables seeded_db ''licence_categories'' = [category_row]"
  "tables seeded_db ''applications'' = [application_row]"
  by (simp_all add: seeded_db_def empty_db_def)

lemma slow_db_fields:
  "faults slow_db (calls slow_db) = Some (StatementError
         (Error (Some ''57014'') ''canceling statement due to statement timeout''))"
  "faults slow_db (calls slow_db + 2) = None" "faults slow_db (calls slow_db + 3) = None"
  "tables slow_db ''applications'' = [application_row]"
  by (simp_all add: slow_db_def seeded_db_def empty_db_def)

lemma example_data_fields:
  "category_B ''category_code'' = Str ''B''" "category_B ''category_label'' = Str ''B (cars)''"
  "category_B ''description'' = Str ''Light Motor Car''" "category_B ''fee'' = Num 2600"
  "certificate_data ''certificate_id'' = Str ''MED001''"
  "certificate_data ''issued_date'' = Str ''2024-06-01''"
  "certificate_data ''expiry_date'' = Str ''2025-06-01''"
  "certificate_data ''doctor_name'' = Str ''Dr. Jones''"
  "certificate_data ''hospital'' = Str ''General Hospital''"
  "application_data ''sub'' = Str ''sub-1''" "application_data ''application_id'' = Str ''APP001''"
  "application_data ''selectCategories'' = Arr [Str ''B'', Str ''A'']"
  "application_data ''fullName'' = Str ''John Doe''"
  "application_data ''email'' = Str ''john@example.com''"
  "application_data ''dob'' = Str ''1990-01-01''"
  "application_data ''doctorName'' = Str ''Dr. Smith''"
  "application_data ''hospital'' = Str ''City Hospital''"
  "application_data ''issuedDate'' = Str ''2024-01-10''"
  "application_data ''expiryDate'' = Str ''2025-01-10''"
  by (simp_all add: category_B_def certificate_data_def application_data_def object_def)

section \<open>The numbers that strings denote\<close>

lemma squaring_power: "squaring b n = b ^ nat n"
proof (induction b n rule: squaring.induct)
  case (1 b n)
  show ?case
  proof (cases "n \<le> 0")
    case True
    then show ?thesis by (simp add: squaring.simps)
  next
    case False
    then have n: "nat n = 2 * nat (n div 2) + (if even n then 0 else 1)"
      by (auto elim!: evenE oddE simp: nat_mult_distrib nat_add_distrib)
    have "b ^ nat n = (if even n then (b * b) ^ nat (n div 2) else b * (b * b) ^ nat (n div 2))"
      by (subst n) (simp add: power_add power_mult power2_eq_square)
    with False 1 show ?thesis
      by (subst squaring.simps) simp
  qed
qed

lemma pow_power: "pow b e = (if 0 \<le> e then b ^ nat e else 1 / b ^ nat (- e))"
  by (simp add: pow_def squaring_power)

lemma pow_positive: "0 < b \<Longrightarrow> 0 < pow b e"
  by (simp add: pow_power)

lemma round_half_even_nonnegative: "0 \<le> y \<Longrightarrow> 0 \<le> round_half_even y"
  by (auto simp: round_half_even_def Let_def)

lemma to_double_nonpositive:
  assumes "x \<le> 0"
  shows "case to_double x of Finite y \<Rightarrow> y \<le> 0 | MinusInfinity \<Rightarrow> True | _ \<Rightarrow> False"
proof (cases "x = 0")
  case True
  then show ?thesis by (simp add: to_double_def)
next
  case False
  with assms have neg: "x < 0" by simp
  define u where "u = pow 2 (max (floor_log2 (- x)) (- 1022) - 52)"
  have "0 < u" by (simp add: u_def pow_positive)
  then have "0 \<le> - (x / u)" using neg by (simp add: divide_nonpos_pos)
  then have "0 \<le> rat_of_int (round_half_even (- (x / u))) * u"
    using \<open>0 < u\<close> round_half_even_nonnegative by simp
  then show ?thesis
    using neg by (simp add: to_double_def Let_def u_def)
qed

text \<open>
  Some readings, and the checks of \<open>addLicenceCategory\<close> and \<open>saveApplication\<close> on
  numbers given as text with a fraction or an exponent.
\<close>

lemma str_to_num_examples:
  "str_to_num ''-1.5'' = Finite (- 3 / 2)" "str_to_num ''15.5'' = Finite (31 / 2)"
  "str_to_num ''1e3'' = Finite 1000" "str_to_num '' 12 '' = Finite 12"
  "str_to_num ''0x1F'' = Finite 31" "str_to_num ''.5'' = Finite (1 / 2)"
  "str_to_num [] = Finite 0" "str_to_num ''abc'' = NotANumber"
  "str_to_num ''12px'' = NotANumber" "str_to_num ''-Infinity'' = MinusInfinity"
  "str_to_num ''9007199254740993'' = Finite 9007199254740992"
  by code_simp+

lemma checks_read_the_number_a_string_denotes:
  "addLicenceCategory_checks (category_B(''fee'' := Str ''-1.5''))
     = Inl (Error None ''Fee must be a positive number'')"
  "addLicenceCategory_checks (category_B(''min_age'' := Str ''15.5''))
     = Inl (Error None ''Minimum age must be between 16 and 100'')"
  "addLicenceCategory_checks (category_B(''min_age'' := Str ''1e3''))
     = Inl (Error None ''Minimum age must be between 16 and 100'')"
  "addLicenceCategory_checks (category_B(''fee'' := Str ''0.5'', ''min_age'' := Str ''16.5''))
     = Inr ()"
  "saveApplication_checks (application_data(''total_amount'' := Str ''-0.01''))
     = Inl (Error None ''Total amount must be a non-negative number'')"
  by code_simp+

section \<open>Properties of the query primitive\<close>

lemma translate_error_cases:
  "translate_error e =
     (if code e = Some ''23505'' then Error None ''Duplicate entry: Record already exists''
      else if code e = Some ''23503'' then Error None ''Referenced record does not exist''
      else if code e = Some ''23502'' then Error None ''Required field is missing''
      else e)"
  by (simp add: translate_error_def new_Error_def)

lemma executeQuery_failure:
  assumes "statement_failure query s = Some e"
  shows "fst (executeQuery query operationName s) = Inl (translate_error e)"
  using assms
  by (auto simp: statement_failure_def executeQuery_def Let_def
      split: option.splits fault.splits sum.splits prod.splits)

text \<open>
  Claim C4. When the statement that \<open>executeQuery\<close> runs fails with error \<open>e\<close>, the
  primitive throws: for SQLSTATE 23505 (uniqueness violation) an error with the message
  "Duplicate entry: Record already exists"; for 23503 (foreign-key violation) one with
  "Referenced record does not exist"; for 23502 (not-null violation) one with
  "Required field is missing"; and for every other failure the error \<open>e\<close> itself, so
  with its original message.
\<close>

theorem executeQuery_translates_constraint_violations:
  assumes "statement_failure query s = Some e"
  shows "(code e = Some ''23505'' \<longrightarrow>
            fst (executeQuery query operationName s)
              = Inl (Error None ''Duplicate entry: Record already exists''))
       \<and> (code e = Some ''23503'' \<longrightarrow>
            fst (executeQuery query operationName s)
              = Inl (Error None ''Referenced record does not exist''))
       \<and> (code e = Some ''23502'' \<longrightarrow>
            fst (executeQuery query operationName s)
              = Inl (Error None ''Required field is missing''))
       \<and> (code e \<notin> {Some ''23505'', Some ''23503'', Some ''23502''} \<longrightarrow>
            fst (executeQuery query operationName s) = Inl e
            \<and> (\<forall>e'. fst (executeQuery query operationName s) = Inl e' \<longrightarrow> message e' = message e))"
  using executeQuery_failure [OF assms, of operationName]
  by (simp add: translate_error_cases)

theorem executeQuery_translates_constraint_violations_witness:
  "statement_failure (\<lambda>now s. Inl (Error (Some ''23505'') ''duplicate key value'')) empty_db
     = Some (Error (Some ''23505'') ''duplicate key value'')
   \<and> fst (executeQuery (\<lambda>now s. Inl (Error (Some ''23505'') ''duplicate key value''))
            ''Add licence category'' empty_db)
     = Inl (Error None ''Duplicate entry: Record already exists'')
   \<and> statement_failure (\<lambda>now s. Inl (Error (Some ''23503'') ''violates foreign key'')) empty_db
     = Some (Error (Some ''23503'') ''violates foreign key'')
   \<and> fst (executeQuery (\<lambda>now s. Inl (Error (Some ''23503'') ''violates foreign key''))
            ''Save user session'' empty_db)
     = Inl (Error None ''Referenced record does not exist'')
   \<and> statement_failure (\<lambda>now s. Inl (Error (Some ''23502'') ''null value in column'')) empty_db
     = Some (Error (Some ''23502'') ''null value in column'')
   \<and> fst (executeQuery (\<lambda>now s. Inl (Error (Some ''23502'') ''null value in column''))
            ''Save application'' empty_db)
     = Inl (Error None ''Required field is missing'')
   \<and> statement_failure (applications_count (\<lambda>a. True)) slow_db
     = Some (Error (Some ''57014'') ''canceling statement due to statement timeout'')
   \<and> Some ''57014'' \<notin> {Some ''23505'', Some ''23503'', Some ''23502''}
   \<and> fst (executeQuery (applications_count (\<lambda>a. True)) ''Count applications'' slow_db)
     = Inl (Error (Some ''57014'') ''canceling statement due to statement timeout'')"
proof -
  have a: "statement_failure (\<lambda>now s. Inl (Error (Some ''23505'') ''duplicate key value'')) empty_db
     = Some (Error (Some ''23505'') ''duplicate key value'')"
    and b: "statement_failure (\<lambda>now s. Inl (Error (Some ''23503'') ''violates foreign key'')) empty_db
     = Some (Error (Some ''23503'') ''violates foreign key'')"
    and c: "statement_failure (\<lambda>now s. Inl (Error (Some ''23502'') ''null value in column'')) empty_db
     = Some (Error (Some ''23502'') ''null value in column'')"
    by (simp_all add: statement_failure_def empty_db_def)
  have d: "statement_failure (applications_count (\<lambda>a. True)) slow_db
     = Some (Error (Some ''57014'') ''canceling statement due to statement timeout'')"
    by (simp add: statement_failure_def slow_db_fields)
  show ?thesis
    using executeQuery_translates_constraint_violations [OF a, of "''Add licence category''"]
      executeQuery_translates_constraint_violations [OF b, of "''Save user session''"]
      executeQuery_translates_constraint_violations [OF c, of "''Save application''"]
      executeQuery_translates_constraint_violations [OF d, of "''Count applications''"]
      a b c d
    by simp
qed

section \<open>The required-field check\<close>

lemma falsy_not_truthy: "v \<in> {Str [], Num 0, Bool False, Null} \<Longrightarrow> \<not> truthy v"
  by auto

lemma missingFields_member:
  "f \<in> set req \<Longrightarrow> \<not> truthy (d f) \<Longrightarrow> f \<in> set (missingFields d req)"
  by (simp add: missingFields_def)

lemma validateRequiredFields_falsy:
  assumes "f \<in> set req" "\<not> truthy (d f)"
  shows "validateRequiredFields d req
         = Inl (Error None (''Missing required fields: '' @ join '', '' (missingFields d req)))"
proof -
  have "missingFields d req \<noteq> []"
    using missingFields_member [where f=f and d=d, OF assms] by auto
  then show ?thesis by (simp add: validateRequiredFields_def new_Error_def)
qed

lemma missingFields_omitted:
  assumes "\<not> truthy v"
  shows "missingFields (d(f := v)) req = missingFields (d(f := Undefined)) req"
  unfolding missingFields_def using assms by (intro filter_cong) auto

lemma validateRequiredFields_omitted:
  assumes "\<not> truthy v"
  shows "validateRequiredFields (d(f := v)) req = validateRequiredFields (d(f := Undefined)) req"
  by (simp add: validateRequiredFields_def missingFields_omitted [OF assms])

lemma rethrow_Inl: "rethrow p (Inl e, s) = (Inl (Error None (p @ message e)), s)"
  by (simp add: rethrow_def new_Error_def)

lemma saveUser_missing:
  assumes "f \<in> set [''sub'', ''name'']" "\<not> truthy (d f)"
  shows "saveUser vd d s =
           (Inl (Error None (''Failed to save user: '' @ ''Missing required fields: ''
                   @ join '', '' (missingFields d [''sub'', ''name'']))), s)"
  by (simp add: saveUser_def saveUser_body_def saveUser_checks_def
      validateRequiredFields_falsy [where f=f and d=d, OF assms] rethrow_Inl)

lemma saveMedicalCertificate_missing:
  assumes "f \<in> set [''certificate_id'', ''issued_date'', ''expiry_date'', ''doctor_name'', ''hospital'']"
    "\<not> truthy (d f)"
  shows "saveMedicalCertificate userId d s =
           (Inl (Error None (''Failed to save medical certificate: '' @ ''Missing required fields: ''
                   @ join '', '' (missingFields d [''certificate_id'', ''issued_date'', ''expiry_date'', ''doctor_name'', ''hospital'']))), s)"
  by (simp add: saveMedicalCertificate_def saveMedicalCertificate_body_def saveMedicalCertificate_checks_def
      validateRequiredFields_falsy [where f=f and d=d, OF assms] rethrow_Inl)

lemma addLicenceCategory_missing:
  assumes "f \<in> set [''category_code'', ''category_label'', ''description'', ''fee'']"
    "\<not> truthy (d f)"
  shows "addLicenceCategory d s =
           (Inl (Error None (''Failed to add licence category: '' @ ''Missing required fields: ''
                   @ join '', '' (missingFields d [''category_code'', ''category_label'', ''description'', ''fee'']))), s)"
  by (simp add: addLicenceCategory_def addLicenceCategory_body_def addLicenceCategory_checks_def
      validateRequiredFields_falsy [where f=f and d=d, OF assms] rethrow_Inl)

lemma saveUserSession_missing:
  assumes "f \<in> set [''session_id'', ''access_token'']" "\<not> truthy (d f)"
  shows "saveUserSession userId d s =
           (Inl (Error None (''Failed to save user session: '' @ ''Missing required fields: ''
                   @ join '', '' (missingFields d [''session_id'', ''access_token'']))), s)"
  by (simp add: saveUserSession_def saveUserSession_body_def saveUserSession_checks_def Let_def
      validateRequiredFields_falsy [where f=f and d=d, OF assms] rethrow_Inl)

lemma saveApplication_missing:
  assumes "f \<in> set saveApplication_required" "\<not> truthy (d f)"
  shows "saveApplication d s =
           (Inl (Error None (''Failed to save application: '' @ ''Missing required fields: ''
                   @ join '', '' (missingFields d saveApplication_required))), s)"
  by (simp add: saveApplication_def saveApplication_body_def saveApplication_checks_def Let_def
      validateRequiredFields_falsy [where f=f and d=d, OF assms] rethrow_Inl)

lemma saveUser_falsy:
  assumes "\<not> truthy v" "f \<in> set [''sub'', ''name'']"
  shows "saveUser valid_date (d(f := v)) s =
           (Inl (Error None (''Failed to save user: Missing required fields: ''
                   @ join '', '' (missingFields (d(f := v)) [''sub'', ''name'']))), s)
       \<and> f \<in> set (missingFields (d(f := v)) [''sub'', ''name''])
       \<and> saveUser valid_date (d(f := v)) s = saveUser valid_date (d(f := Undefined)) s"
proof -
  have a: "\<not> truthy ((d(f := v)) f)" and b: "\<not> truthy ((d(f := Undefined)) f)"
    using assms(1) by simp_all
  show ?thesis
    using saveUser_missing [where f=f and d="d(f := v)", OF assms(2) a]
      saveUser_missing [where f=f and d="d(f := Undefined)", OF assms(2) b]
      missingFields_member [where f=f and d="d(f := v)", OF assms(2) a]
      missingFields_omitted [OF assms(1), of d f]
    by simp
qed

lemma saveMedicalCertificate_falsy:
  assumes "\<not> truthy v" "f \<in> set [''certificate_id'', ''issued_date'', ''expiry_date'', ''doctor_name'', ''hospital'']"
  shows "saveMedicalCertificate userId (d(f := v)) s =
           (Inl (Error None (''Failed to save medical certificate: Missing required fields: ''
                   @ join '', '' (missingFields (d(f := v)) [''certificate_id'', ''issued_date'', ''expiry_date'', ''doctor_name'', ''hospital'']))), s)
       \<and> f \<in> set (missingFields (d(f := v)) [''certificate_id'', ''issued_date'', ''expiry_date'', ''doctor_name'', ''hospital''])
       \<and> saveMedicalCertificate userId (d(f := v)) s = saveMedicalCertificate userId (d(f := Undefined)) s"
proof -
  have a: "\<not> truthy ((d(f := v)) f)" and b: "\<not> truthy ((d(f := Undefined)) f)"
    using assms(1) by simp_all
  show ?thesis
    using saveMedicalCertificate_missing [where f=f and d="d(f := v)", OF assms(2) a]
      saveMedicalCertificate_missing [where f=f and d="d(f := Undefined)", OF assms(2) b]
      missingFields_member [where f=f and d="d(f := v)", OF assms(2) a]
      missingFields_omitted [OF assms(1), of d f]
    by simp
qed

lemma addLicenceCategory_falsy:
  assumes "\<not> truthy v" "f \<in> set [''category_code'', ''category_label'', ''description'', ''fee'']"
  shows "addLicenceCategory (d(f := v)) s =
           (Inl (Error None (''Failed to add licence category: Missing required fields: ''
                   @ join '', '' (missingFields (d(f := v)) [''category_code'', ''category_label'', ''description'', ''fee'']))), s)
       \<and> f \<in> set (missingFields (d(f := v)) [''category_code'', ''category_label'', ''description'', ''fee''])
       \<and> addLicenceCategory (d(f := v)) s = addLicenceCategory (d(f := Undefined)) s"
proof -
  have a: "\<not> truthy ((d(f := v)) f)" and b: "\<not> truthy ((d(f := Undefined)) f)"
    using assms(1) by simp_all
  show ?thesis
    using addLicenceCategory_missing [where f=f and d="d(f := v)", OF assms(2) a]
      addLicenceCategory_missing [where f=f and d="d(f := Undefined)", OF assms(2) b]
      missingFields_member [where f=f and d="d(f := v)", OF assms(2) a]
      missingFields_omitted [OF assms(1), of d f]
    by simp
qed

lemma saveUserSession_falsy:
  assumes "\<not> truthy v" "f \<in> set [''session_id'', ''access_token'']"
  shows "saveUserSession userId (d(f := v)) s =
           (Inl (Error None (''Failed to save user session: Missing required fields: ''
                   @ join '', '' (missingFields (d(f := v)) [''session_id'', ''access_token'']))), s)
       \<and> f \<in> set (missingFields (d(f := v)) [''session_id'', ''access_token''])
       \<and> saveUserSession userId (d(f := v)) s = saveUserSession userId (d(f := Undefined)) s"
proof -
  have a: "\<not> truthy ((d(f := v)) f)" and b: "\<not> truthy ((d(f := Undefined)) f)"
    using assms(1) by simp_all
  show ?thesis
    using saveUserSession_missing [where f=f and d="d(f := v)", OF assms(2) a]
      saveUserSession_missing [where f=f and d="d(f := Undefined)", OF assms(2) b]
      missingFields_member [where f=f and d="d(f := v)", OF assms(2) a]
      missingFields_omitted [OF assms(1), of d f]
    by simp
qed

lemma saveApplication_falsy:
  assumes "\<not> truthy v" "f \<in> set saveApplication_required"
  shows "saveApplication (d(f := v)) s =
           (Inl (Error None (''Failed to save application: Missing required fields: ''
                   @ join '', '' (missingFields (d(f := v)) saveApplication_required))), s)
       \<and> f \<in> set (missingFields (d(f := v)) saveApplication_required)
       \<and> saveApplication (d(f := v)) s = saveApplication (d(f := Undefined)) s"
proof -
  have a: "\<not> truthy ((d(f := v)) f)" and b: "\<not> truthy ((d(f := Undefined)) f)"
    using assms(1) by simp_all
  show ?thesis
    using saveApplication_missing [where f=f and d="d(f := v)", OF assms(2) a]
      saveApplication_missing [where f=f and d="d(f := Undefined)", OF assms(2) b]
      missingFields_member [where f=f and d="d(f := v)", OF assms(2) a]
      missingFields_omitted [OF assms(1), of d f]
    by simp
qed

text \<open>
  Claim C10. In each of the five save operations (\<open>saveUser\<close>,
  \<open>saveMedicalCertificate\<close>, \<open>addLicenceCategory\<close>, \<open>saveUserSession\<close>,
  \<open>saveApplication\<close>), a required field \<open>f\<close> supplied as the empty string, 0,
  \<open>false\<close> or \<open>null\<close> makes the operation throw the one "Missing required fields"
  error, whose list of missing fields holds \<open>f\<close>; the result is the very result of the call
  with \<open>f\<close> omitted; and the database comes back as it was: no statement was executed (no
  call counted, nothing logged, no table touched).
\<close>

theorem falsy_required_field_reported_as_missing:
  assumes "v \<in> {Str [], Num 0, Bool False, Null}"
  shows "(f \<in> set [''sub'', ''name''] \<longrightarrow>
          saveUser valid_date (d(f := v)) s =
            (Inl (Error None (''Failed to save user: Missing required fields: ''
                    @ join '', '' (missingFields (d(f := v)) [''sub'', ''name'']))), s)
        \<and> f \<in> set (missingFields (d(f := v)) [''sub'', ''name''])
        \<and> saveUser valid_date (d(f := v)) s = saveUser valid_date (d(f := Undefined)) s)
       \<and> (f \<in> set [''certificate_id'', ''issued_date'', ''expiry_date'', ''doctor_name'', ''hospital''] \<longrightarrow>
          saveMedicalCertificate userId (d(f := v)) s =
            (Inl (Error None (''Failed to save medical certificate: Missing required fields: ''
                    @ join '', '' (missingFields (d(f := v)) [''certificate_id'', ''issued_date'', ''expiry_date'', ''doctor_name'', ''hospital'']))), s)
        \<and> f \<in> set (missingFields (d(f := v)) [''certificate_id'', ''issued_date'', ''expiry_date'', ''doctor_name'', ''hospital''])
        \<and> saveMedicalCertificate userId (d(f := v)) s = saveMedicalCertificate userId (d(f := Undefined)) s)
       \<and> (f \<in> set [''category_code'', ''category_label'', ''description'', ''fee''] \<longrightarrow>
          addLicenceCategory (d(f := v)) s =
            (Inl (Error None (''Failed to add licence category: Missing required fields: ''
                    @ join '', '' (missingFields (d(f := v)) [''category_code'', ''category_label'', ''description'', ''fee'']))), s)
        \<and> f \<in> set (missingFields (d(f := v)) [''category_code'', ''category_label'', ''description'', ''fee''])
        \<and> addLicenceCategory (d(f := v)) s = addLicenceCategory (d(f := Undefined)) s)
       \<and> (f \<in> set [''session_id'', ''access_token''] \<longrightarrow>
          saveUserSession userId (d(f := v)) s =
            (Inl (Error None (''Failed to save user session: Missing required fields: ''
                    @ join '', '' (missingFields (d(f := v)) [''session_id'', ''access_token'']))), s)
        \<and> f \<in> set (missingFields (d(f := v)) [''session_id'', ''access_token''])
        \<and> saveUserSession userId (d(f := v)) s = saveUserSession userId (d(f := Undefined)) s)
       \<and> (f \<in> set saveApplication_required \<longrightarrow>
          saveApplication (d(f := v)) s =
            (Inl (Error None (''Failed to save application: Missing required fields: ''
                    @ join '', '' (missingFields (d(f := v)) saveApplication_required))), s)
        \<and> f \<in> set (missingFields (d(f := v)) saveApplication_required)
        \<and> saveApplication (d(f := v)) s = saveApplication (d(f := Undefined)) s)"
proof -
  have falsy: "\<not> truthy v"
    using assms by (rule falsy_not_truthy)
  show ?thesis
    using saveUser_falsy [OF falsy] saveMedicalCertificate_falsy [OF falsy]
      addLicenceCategory_falsy [OF falsy] saveUserSession_falsy [OF falsy]
      saveApplication_falsy [OF falsy]
    by blast
qed

theorem falsy_required_field_reported_as_missing_witness:
  "Num 0 \<in> {Str [], Num 0, Bool False, Null}
   \<and> ''fee'' \<in> set [''category_code'', ''category_label'', ''description'', ''fee'']
   \<and> addLicenceCategory (category_B(''fee'' := Num 0)) seeded_db
       = (Inl (Error None ''Failed to add licence category: Missing required fields: fee''), seeded_db)
   \<and> Str [] \<in> {Str [], Num 0, Bool False, Null}
   \<and> ''name'' \<in> set [''sub'', ''name'']
   \<and> saveUser any_date (alice(''name'' := Str [])) seeded_db
       = (Inl (Error None ''Failed to save user: Missing required fields: name''), seeded_db)
   \<and> Bool False \<in> {Str [], Num 0, Bool False, Null}
   \<and> ''hospital'' \<in> set [''certificate_id'', ''issued_date'', ''expiry_date'', ''doctor_name'', ''hospital'']
   \<and> saveMedicalCertificate (Str ''sub-1'') (certificate_data(''hospital'' := Bool False)) seeded_db
       = (Inl (Error None ''Failed to save medical certificate: Missing required fields: hospital''),
          seeded_db)
   \<and> Null \<in> {Str [], Num 0, Bool False, Null}
   \<and> ''access_token'' \<in> set [''session_id'', ''access_token'']
   \<and> saveUserSession (Str ''sub-1'') (session_data(''access_token'' := Null)) seeded_db
       = (Inl (Error None ''Failed to save user session: Missing required fields: access_token''),
          seeded_db)
   \<and> ''email'' \<in> set saveApplication_required
   \<and> saveApplication (application_data(''email'' := Null)) seeded_db
       = (Inl (Error None ''Failed to save application: Missing required fields: email''), seeded_db)
   \<and> saveApplication (application_data(''email'' := Null)) seeded_db
       = saveApplication (application_data(''email'' := Undefined)) seeded_db"
proof -
  note fields = missingFields_def saveApplication_required_def alice_fields session_data_fields
    example_data_fields
  have c: "addLicenceCategory (category_B(''fee'' := Num 0)) seeded_db
       = (Inl (Error None ''Failed to add licence category: Missing required fields: fee''), seeded_db)"
    using falsy_required_field_reported_as_missing
      [where v = "Num 0" and f = "''fee''" and d = category_B and s = seeded_db]
    by (simp add: fields)
  have u: "saveUser any_date (alice(''name'' := Str [])) seeded_db
       = (Inl (Error None ''Failed to save user: Missing required fields: name''), seeded_db)"
    using falsy_required_field_reported_as_missing
      [where v = "Str []" and f = "''name''" and d = alice and s = seeded_db
         and valid_date = any_date]
    by (simp add: fields)
  have m: "saveMedicalCertificate (Str ''sub-1'') (certificate_data(''hospital'' := Bool False)) seeded_db
       = (Inl (Error None ''Failed to save medical certificate: Missing required fields: hospital''),
          seeded_db)"
    using falsy_required_field_reported_as_missing
      [where v = "Bool False" and f = "''hospital''" and d = certificate_data and s = seeded_db
         and userId = "Str ''sub-1''"]
    by (simp add: fields)
  have d: "saveUserSession (Str ''sub-1'') (session_data(''access_token'' := Null)) seeded_db
       = (Inl (Error None ''Failed to save user session: Missing required fields: access_token''),
          seeded_db)"
    using falsy_required_field_reported_as_missing
      [where v = Null and f = "''access_token''" and d = session_data and s = seeded_db
         and userId = "Str ''sub-1''"]
    by (simp add: fields)
  have a: "saveApplication (application_data(''email'' := Null)) seeded_db
       = (Inl (Error None ''Failed to save application: Missing required fields: email''), seeded_db)"
    "saveApplication (application_data(''email'' := Null)) seeded_db
       = saveApplication (application_data(''email'' := Undefined)) seeded_db"
    using falsy_required_field_reported_as_missing
      [where v = Null and f = "''email''" and d = application_data and s = seeded_db]
    by (auto simp add: fields)
  show ?thesis
    using c u m d a by (simp add: saveApplication_required_def)
qed

section \<open>Status updates\<close>

lemma rethrow_throw: "rethrow p (throw msg s) = (Inl (Error None (p @ msg)), s)"
  by (simp add: rethrow_def throw_def new_Error_def)

text \<open>
  Claim C8. \<open>updateApplicationStatus\<close> called with a status that is none of pending,
  submitted, approved, rejected, cancelled throws a validation error (that the arguments
  are required when one of them is falsy, that the status is invalid otherwise) and gives
  the database back as it was: no statement was executed and no row of any table changed.
\<close>

theorem updateApplicationStatus_rejects_invalid_status:
  assumes "status \<notin> {Str ''pending'', Str ''submitted'', Str ''approved'', Str ''rejected'', Str ''cancelled''}"
  shows "updateApplicationStatus applicationId status s =
           (Inl (Error None
              (if \<not> truthy applicationId \<or> \<not> truthy status
               then ''Failed to update application status: applicationId and status are required''
               else ''Failed to update application status: Invalid status. Must be one of: pending, submitted, approved, rejected, cancelled'')),
            s)"
  using assms
  by (simp add: updateApplicationStatus_def updateApplicationStatus_body_def validStatuses_def
      rethrow_throw)

theorem updateApplicationStatus_rejects_invalid_status_witness:
  "Str ''archived'' \<notin> {Str ''pending'', Str ''submitted'', Str ''approved'', Str ''rejected'', Str ''cancelled''}
   \<and> updateApplicationStatus (Str ''APP001'') (Str ''archived'') empty_db =
       (Inl (Error None ''Failed to update application status: Invalid status. Must be one of: pending, submitted, approved, rejected, cancelled''),
        empty_db)"
  using updateApplicationStatus_rejects_invalid_status [of "Str ''archived''" "Str ''APP001''" empty_db]
  by simp


section \<open>Lookups by key\<close>

lemma executeQuery_select:
  assumes "faults s (calls s) = None"
    and "query (clock s (calls s)) (s\<lparr>calls := Suc (calls s)\<rparr>) = Inr (rows, s2)"
  shows "executeQuery query l s = (Inr rows, logOperation l True s2)"
  using assms by (simp add: executeQuery_def Let_def)

lemma findBySub_no_row:
  assumes "truthy sub" "faults s (calls s) = None"
    and "filter (\<lambda>r. sql_eq (r ''sub'') sub) (tables s ''users'') = []"
  shows "findBySub sub s =
           (Inr None, logOperation ''Find user by sub'' True (s\<lparr>calls := Suc (calls s)\<rparr>))"
proof -
  have b: "bind sub = sub" using assms(1) by (auto simp: bind_def)
  have "users_select_by_sub sub (clock s (calls s)) (s\<lparr>calls := Suc (calls s)\<rparr>)
        = Inr ([], s\<lparr>calls := Suc (calls s)\<rparr>)"
    using assms(3) by (simp add: users_select_by_sub_def select_from_def b)
  from executeQuery_select [where query="users_select_by_sub sub", OF assms(2) this]
  show ?thesis
    using assms(1) by (simp add: findBySub_def findBySub_body_def return_first_def rethrow_def)
qed

lemma getLicenceCategoryByCode_no_row:
  assumes "truthy categoryCode" "faults s (calls s) = None"
    and "filter (\<lambda>r. sql_eq (r ''category_code'') categoryCode) (tables s ''licence_categories'') = []"
  shows "getLicenceCategoryByCode categoryCode s =
           (Inl (Error None (''Failed to get licence category: Licence category ''
                             @ [CHR 0x27] @ to_string categoryCode @ [CHR 0x27] @ '' not found'')),
            logOperation ''Get licence category by code'' True (s\<lparr>calls := Suc (calls s)\<rparr>))"
proof -
  have b: "bind categoryCode = categoryCode" using assms(1) by (auto simp: bind_def)
  have "licence_categories_select_by_code categoryCode (clock s (calls s)) (s\<lparr>calls := Suc (calls s)\<rparr>)
        = Inr ([], s\<lparr>calls := Suc (calls s)\<rparr>)"
    using assms(3) by (simp add: licence_categories_select_by_code_def select_from_def b)
  from executeQuery_select [where query="licence_categories_select_by_code categoryCode", OF assms(2) this]
  show ?thesis
    using assms(1)
    by (simp add: getLicenceCategoryByCode_def getLicenceCategoryByCode_body_def rethrow_throw)
qed

lemma findApplicationById_no_row:
  assumes "truthy applicationId" "faults s (calls s) = None"
    and "filter (\<lambda>a. sql_eq (a ''application_id'') applicationId) (tables s ''applications'') = []"
  shows "findApplicationById applicationId s =
           (Inl (Error None (''Failed to find application: Application ''
                             @ [CHR 0x27] @ to_string applicationId @ [CHR 0x27] @ '' not found'')),
            logOperation ''Find application by ID'' True (s\<lparr>calls := Suc (calls s)\<rparr>))"
proof -
  have b: "bind applicationId = applicationId" using assms(1) by (auto simp: bind_def)
  have "applications_join_users_by_id applicationId (clock s (calls s)) (s\<lparr>calls := Suc (calls s)\<rparr>)
        = Inr ([], s\<lparr>calls := Suc (calls s)\<rparr>)"
    using assms(3) by (simp add: applications_join_users_by_id_def b)
  from executeQuery_select [where query="applications_join_users_by_id applicationId", OF assms(2) this]
  show ?thesis
    using assms(1)
    by (simp add: findApplicationById_def findApplicationById_body_def rethrow_throw)
qed

text \<open>
  Claim C2 says that each lookup by key throws a not-found error when its query returns
  no row. \<open>getLicenceCategoryByCode\<close> and \<open>findApplicationById\<close> do
  (\<open>getLicenceCategoryByCode_no_row\<close>, \<open>findApplicationById_no_row\<close>); \<open>findBySub\<close>
  has no such test and returns \<^verbatim>\<open>result.rows[0]\<close>. The theorem runs it for a
  \<open>sub\<close> that no user has: the query succeeds with no row, and the operation returns
  \<^verbatim>\<open>undefined\<close> (\<open>Inr None\<close>) where the claim has it throw.
\<close>

theorem findBySub_absent_user_returns_undefined:
  "findBySub (Str ''sub-404'') empty_db =
     (Inr None, empty_db\<lparr>calls := 1, oplog := [(''Find user by sub'', True)]\<rparr>)"
  using findBySub_no_row [of "Str ''sub-404''" empty_db]
  by (simp add: empty_db_def logOperation_def)


section \<open>Schema initialisation runs into an undefined method\<close>

lemmas initTables_defs =
  initTables_def initTables_calling_def initTables_steps_def client_query_def
  createTable_def createLicenceCategoriesTable_def createSessionsTable_def
  createApplicationsTable_def createMedicalCertificatesTable_def
  undefined_method_def release_def new_Error_def


text \<open>
  Claim C1 says that \<open>initTables\<close> probes the connection, creates the five tables, seeds
  the eight categories and commits. The theorem runs the method against a database that
  accepts every statement: after the fifth \<^verbatim>\<open>CREATE TABLE\<close> the call of the undefined
  \<^verbatim>\<open>this.addAdminStatusField\<close> throws, the \<^verbatim>\<open>catch\<close> block sends \<^verbatim>\<open>ROLLBACK\<close>,
  and the method throws "Failed to initialize database tables: ...". No category is
  seeded and nothing is committed.
\<close>

theorem initTables_rolls_back_on_healthy_database:
  "initTables healthy_pool =
     (Inl (Error None ''Failed to initialize database tables: this.addAdminStatusField is not a function''),
      \<lparr>sent = [BEGIN, SELECT_1,
               CREATE_TABLE_IF_NOT_EXISTS ''users'',
               CREATE_TABLE_IF_NOT_EXISTS ''licence_categories'',
               CREATE_TABLE_IF_NOT_EXISTS ''user_sessions'',
               CREATE_TABLE_IF_NOT_EXISTS ''applications'',
               CREATE_TABLE_IF_NOT_EXISTS ''medical_certificates'',
               ROLLBACK],
        released = True\<rparr>)"
  by (simp add: initTables_defs healthy_pool_def)


text \<open>
  The same holds against every database (\<open>initTables_never_commits\<close>). With a step in
  place of the undefined method that succeeds, the statements are those of the claim, in
  its order (\<open>initTables_with_the_missing_step\<close>).
\<close>

lemma run_steps_stops_at_undefined_method:
  "\<exists>e. run_steps (fs @ undefined_method name # gs) c = (Inl e, snd (run_steps fs c))"
proof (induction fs arbitrary: c)
  case Nil
  show ?case by (simp add: undefined_method_def)
next
  case (Cons f fs)
  show ?case
  proof (cases "f c")
    case (Pair r c')
    then show ?thesis using Cons.IH [of c'] by (cases r) auto
  qed
qed

lemma sent_client_query: "sent (snd (client_query p q c)) = sent c @ [q]"
  by (simp add: client_query_def split: option.splits)

lemma sent_run_steps:
  assumes "\<And>f c. f \<in> set fs \<Longrightarrow> set (sent (snd (f c))) \<subseteq> set (sent c) \<union> S"
  shows "set (sent (snd (run_steps fs c))) \<subseteq> set (sent c) \<union> S"
  using assms
proof (induction fs arbitrary: c)
  case Nil
  show ?case by simp
next
  case (Cons f fs)
  have step: "set (sent (snd (f c))) \<subseteq> set (sent c) \<union> S"
    using Cons.prems [of f c] by simp
  show ?case
  proof (cases "f c")
    case (Pair r c')
    have rest: "set (sent (snd (run_steps fs c'))) \<subseteq> set (sent c') \<union> S"
      using Cons.IH [of c'] Cons.prems by simp
    show ?thesis using Pair step rest by (cases r) auto
  qed
qed

lemma initTables_never_commits:
  "COMMIT \<notin> set (sent (snd (initTables p))) \<and> isl (fst (initTables p))
   \<and> UPSERT_LICENCE_CATEGORY category \<notin> set (sent (snd (initTables p)))"
proof (cases "connect_fails p")
  case (Some e)
  then show ?thesis by (simp add: initTables_def initTables_calling_def)
next
  case None
  define before where "before =
    [client_query p BEGIN, client_query p SELECT_1, createTable p,
     createLicenceCategoriesTable p, createSessionsTable p, createApplicationsTable p,
     createMedicalCertificatesTable p]"
  define S where "S = {BEGIN, SELECT_1} \<union> range CREATE_TABLE_IF_NOT_EXISTS"
  define c0 where "c0 = \<lparr>sent = [], released = False\<rparr>"
  define c1 where "c1 = snd (run_steps before c0)"
  have steps: "initTables_steps (undefined_method ''addAdminStatusField'') p
      = before @ undefined_method ''addAdminStatusField'' # [seedLicenceCategories p, client_query p COMMIT]"
    by (simp add: initTables_steps_def before_def)
  obtain e where stop:
    "run_steps (initTables_steps (undefined_method ''addAdminStatusField'') p) c0 = (Inl e, c1)"
    unfolding steps c1_def using run_steps_stops_at_undefined_method by blast
  have "set (sent c1) \<subseteq> set (sent c0) \<union> S"
    unfolding c1_def
    by (rule sent_run_steps)
       (auto simp: before_def S_def sent_client_query createTable_def
          createLicenceCategoriesTable_def createSessionsTable_def
          createApplicationsTable_def createMedicalCertificatesTable_def)
  then have c1: "set (sent c1) \<subseteq> S" by (simp add: c0_def)
  have rb: "sent (snd (client_query p ROLLBACK c1)) = sent c1 @ [ROLLBACK]"
    by (rule sent_client_query)
  have res: "initTables p =
      (case client_query p ROLLBACK c1 of
         (Inl e', c') \<Rightarrow> (Inl e', release c')
       | (Inr ok, c') \<Rightarrow>
           (Inl (new_Error (''Failed to initialize database tables: '' @ message e)), release c'))"
    using None stop by (simp add: initTables_def initTables_calling_def c0_def)
  obtain r c2 where q: "client_query p ROLLBACK c1 = (r, c2)" by (cases "client_query p ROLLBACK c1")
  have c2: "sent c2 = sent c1 @ [ROLLBACK]" using rb q by simp
  have "sent (snd (initTables p)) = sent c1 @ [ROLLBACK]" and "isl (fst (initTables p))"
    using res q c2 by (cases r; simp add: release_def)+
  then show ?thesis using c1 by (auto simp: S_def)
qed

lemma initTables_with_the_missing_step:
  "initTables_calling (\<lambda>c. (Inr (), c)) healthy_pool =
     (Inr (),
      \<lparr>sent = [BEGIN, SELECT_1,
               CREATE_TABLE_IF_NOT_EXISTS ''users'',
               CREATE_TABLE_IF_NOT_EXISTS ''licence_categories'',
               CREATE_TABLE_IF_NOT_EXISTS ''user_sessions'',
               CREATE_TABLE_IF_NOT_EXISTS ''applications'',
               CREATE_TABLE_IF_NOT_EXISTS ''medical_certificates'']
              @ map UPSERT_LICENCE_CATEGORY categories @ [COMMIT],
        released = True\<rparr>)"
  by (simp add: initTables_defs healthy_pool_def seedLicenceCategories_def categories_def)

section \<open>Saving a user\<close>

lemma executeQuery_statement_fails:
  assumes "faults s (calls s) = None"
    and "query (clock s (calls s)) (s\<lparr>calls := Suc (calls s)\<rparr>) = Inl e"
  shows "executeQuery query l s
         = (Inl (translate_error e), logOperation l False (s\<lparr>calls := Suc (calls s)\<rparr>))"
  using assms by (simp add: executeQuery_def Let_def)

lemma validateRequiredFields_ok:
  "validateRequiredFields d req = Inr () \<longleftrightarrow> list_all (\<lambda>f. truthy (d f)) req"
  by (auto simp: validateRequiredFields_def missingFields_def filter_empty_conv list_all_iff)

lemma truthy_bind: "truthy v \<Longrightarrow> bind v = v \<and> v \<noteq> Null \<and> v \<noteq> Undefined"
  by (cases v) (auto simp: bind_def)

lemma bind_not_Undefined: "bind v \<noteq> Undefined"
  by (simp add: bind_def)

lemma insert_into_conflict_update:
  assumes "find (\<lambda>c. before_row sch new c = Null) (not_null sch) = None"
    and "check_ok sch (before_row sch new)"
    and "find (\<lambda>r. sql_eq (r (unique_key sch)) (before_row sch new (unique_key sch)))
           (tables s (relation sch)) = Some existing"
  shows "insert_into sch (Some do_update) new s =
           Inr ([before_row sch (do_update existing (before_row sch new))],
                set_table (relation sch)
                  (map (\<lambda>r. if sql_eq (r (unique_key sch)) (before_row sch new (unique_key sch))
                             then before_row sch (do_update existing (before_row sch new)) else r)
                       (tables s (relation sch))) s)"
  using assms by (simp add: insert_into_def Let_def)

lemma insert_into_conflict_error:
  assumes "find (\<lambda>c. before_row sch new c = Null) (not_null sch) = None"
    and "check_ok sch (before_row sch new)"
    and "find (\<lambda>r. sql_eq (r (unique_key sch)) (before_row sch new (unique_key sch)))
           (tables s (relation sch)) = Some existing"
  shows "insert_into sch None new s =
           Inl (pg_error ''23505'' (''duplicate key value violates unique constraint on '' @ unique_key sch))"
  using assms by (simp add: insert_into_def Let_def)

lemma saveUser_checks_ok:
  assumes "saveUser_checks valid_date userData = Inr ()"
  shows "truthy (userData ''sub'')" "truthy (userData ''name'')"
  using assms
  by (auto simp: saveUser_checks_def validateRequiredFields_ok split: sum.splits if_splits)

lemma users_upsert_existing:
  assumes "truthy sub" "truthy name"
    and "find (\<lambda>r. sql_eq (r ''sub'') sub) (tables s ''users'') = Some old"
  shows "users_upsert sub name email phone date_of_birth address now s =
           Inr ([old(''name'' := name, ''email'' := bind email, ''phone'' := bind phone,
                     ''date_of_birth'' := bind date_of_birth, ''address'' := bind address,
                     ''updated_at'' := Num now)],
                set_table ''users''
                  (map (\<lambda>r. if sql_eq (r ''sub'') sub
                             then old(''name'' := name, ''email'' := bind email, ''phone'' := bind phone,
                                      ''date_of_birth'' := bind date_of_birth, ''address'' := bind address,
                                      ''updated_at'' := Num now)
                             else r)
                       (tables s ''users'')) s)"
proof -
  let ?new = "object
          [(''sub'', bind sub), (''name'', bind name), (''email'', bind email),
           (''phone'', bind phone), (''date_of_birth'', bind date_of_birth),
           (''address'', bind address),
           (''created_at'', Num now), (''updated_at'', Num now)]"
  have vals: "?new ''sub'' = sub" "?new ''name'' = name" "?new ''email'' = bind email"
    "?new ''phone'' = bind phone" "?new ''date_of_birth'' = bind date_of_birth"
    "?new ''address'' = bind address"
    using truthy_bind [OF assms(1)] truthy_bind [OF assms(2)] by (simp_all add: object_def)
  have nn: "find (\<lambda>c. before_row users_schema ?new c = Null) (not_null users_schema) = None"
    using vals truthy_bind [OF assms(1)] truthy_bind [OF assms(2)]
    by (simp add: users_schema_def)
  have ck: "check_ok users_schema (before_row users_schema ?new)"
    by (simp add: users_schema_def)
  have ex: "find (\<lambda>r. sql_eq (r (unique_key users_schema)) (before_row users_schema ?new (unique_key users_schema)))
           (tables s (relation users_schema)) = Some old"
    using assms(3) vals by (simp add: users_schema_def)
  show ?thesis
    unfolding users_upsert_def
    using insert_into_conflict_update [OF nn ck ex] vals
    by (simp add: users_schema_def cong: if_cong)
qed


lemma tables_logOperation [simp]: "tables (logOperation l b s) = tables s"
  by (simp add: logOperation_def)

lemma tables_set_table [simp]: "tables (set_table t rows s) = (tables s)(t := rows)"
  by (simp add: set_table_def)

lemma find_sql_eq_Some:
  assumes "find (\<lambda>r. sql_eq (r k) v) rows = Some old"
  shows "old k = v" "v \<noteq> Null" "old \<in> set rows"
  using assms by (auto simp: find_Some_iff sql_eq_def in_set_conv_nth)

lemma saveUser_existing_key:
  assumes checks: "saveUser_checks valid_date userData = Inr ()"
    and existing: "find (\<lambda>r. sql_eq (r ''sub'') (userData ''sub'')) (tables s ''users'') = Some old"
    and no_fault: "faults s (calls s) = None"
  shows "saveUser valid_date userData s =
     (Inr (Some (old(''name'' := userData ''name'', ''email'' := bind (userData ''email''),
                     ''phone'' := bind (userData ''phone''),
                     ''date_of_birth'' := bind (userData ''date_of_birth''),
                     ''address'' := bind (userData ''address''),
                     ''updated_at'' := Num (clock s (calls s))))),
      logOperation ''Save/update user'' True
        (set_table ''users''
           (map (\<lambda>r. if sql_eq (r ''sub'') (userData ''sub'')
                      then old(''name'' := userData ''name'', ''email'' := bind (userData ''email''),
                               ''phone'' := bind (userData ''phone''),
                               ''date_of_birth'' := bind (userData ''date_of_birth''),
                               ''address'' := bind (userData ''address''),
                               ''updated_at'' := Num (clock s (calls s)))
                      else r)
                (tables s ''users''))
           (s\<lparr>calls := Suc (calls s)\<rparr>)))"
proof -
  have ex: "find (\<lambda>r. sql_eq (r ''sub'') (userData ''sub''))
              (tables (s\<lparr>calls := Suc (calls s)\<rparr>) ''users'') = Some old"
    using existing by simp
  note stmt = users_upsert_existing [OF saveUser_checks_ok [OF checks] ex,
      of "userData ''email''" "userData ''phone''" "userData ''date_of_birth''"
         "userData ''address''" "clock s (calls s)"]
  note run = executeQuery_select
      [where query = "users_upsert (userData ''sub'') (userData ''name'') (userData ''email'')
                        (userData ''phone'') (userData ''date_of_birth'') (userData ''address'')"
         and l = "''Save/update user''", OF no_fault stmt]
  show ?thesis
    by (simp add: saveUser_def saveUser_body_def checks run return_first_def rethrow_def)
qed

lemma isValidEmail_alice: "isValidEmail (Str ''alice@example.com'')"
  by (simp add: isValidEmail_def emailRegex_test_def plain_def is_space_def)

lemma isValidEmail_absent: "isValidEmail Undefined"
  by (simp add: isValidEmail_def)

lemma saveUser_checks_alice:
  "saveUser_checks any_date alice = Inr ()" "saveUser_checks any_date alice_renamed = Inr ()"
proof -
  have "validateRequiredFields alice [''sub'', ''name''] = Inr ()"
    "validateRequiredFields alice_renamed [''sub'', ''name''] = Inr ()"
    by (simp_all add: validateRequiredFields_ok alice_fields alice_renamed_fields)
  then show "saveUser_checks any_date alice = Inr ()"
    "saveUser_checks any_date alice_renamed = Inr ()"
    by (simp_all add: saveUser_checks_def alice_fields alice_renamed_fields
        isValidEmail_alice isValidEmail_absent)
qed

lemma first_saveUser_inserts:
  "saveUser any_date alice empty_db = (Inr (Some alice_row), db_with_alice)"
  by (simp add: saveUser_def saveUser_body_def saveUser_checks_alice alice_fields
      executeQuery_def users_upsert_def insert_into_def users_schema_def bind_def
      return_first_def rethrow_def db_with_alice_def alice_row_def empty_db_def
      set_table_def logOperation_def object_def sql_eq_def Let_def)

text \<open>
  Claim C7. When \<open>saveUser\<close> is called with a \<open>sub\<close> that a row \<open>old\<close> of \<open>users\<close>
  already has (the input passing the method's checks, the statement not failing for a
  reason outside the tables), the call succeeds and replaces that row in place: name, email,
  phone, date_of_birth and address are the values just supplied (\<^verbatim>\<open>undefined\<close> stored as
  NULL), \<open>created_at\<close> is that of \<open>old\<close>, and \<open>updated_at\<close> is the time of this call,
  later than the old one when the clock has moved on since.
\<close>

theorem saveUser_again_updates_fields_keeps_created_at:
  assumes "saveUser_checks valid_date userData = Inr ()"
    and "find (\<lambda>r. sql_eq (r ''sub'') (userData ''sub'')) (tables s ''users'') = Some old"
    and "faults s (calls s) = None"
    and "old ''updated_at'' = Num t0" and "t0 < clock s (calls s)"
  shows "\<exists>new s' t1.
           saveUser valid_date userData s = (Inr (Some new), s')
         \<and> tables s' ''users''
             = map (\<lambda>r. if sql_eq (r ''sub'') (userData ''sub'') then new else r) (tables s ''users'')
         \<and> new ''sub'' = userData ''sub''
         \<and> new ''name'' = bind (userData ''name'')
         \<and> new ''email'' = bind (userData ''email'')
         \<and> new ''phone'' = bind (userData ''phone'')
         \<and> new ''date_of_birth'' = bind (userData ''date_of_birth'')
         \<and> new ''address'' = bind (userData ''address'')
         \<and> new ''created_at'' = old ''created_at''
         \<and> new ''updated_at'' = Num t1 \<and> t0 < t1"
proof -
  have name: "bind (userData ''name'') = userData ''name''"
    using truthy_bind [OF saveUser_checks_ok(2) [OF assms(1)]] by simp
  have sub: "old ''sub'' = userData ''sub''"
    using find_sql_eq_Some(1) [OF assms(2)] .
  show ?thesis
    using saveUser_existing_key [OF assms(1,2,3)] name sub assms(5)
    by simp
qed


theorem saveUser_again_updates_fields_keeps_created_at_witness:
  "saveUser_checks any_date alice_renamed = Inr ()
   \<and> find (\<lambda>r. sql_eq (r ''sub'') (alice_renamed ''sub'')) (tables db_with_alice ''users'')
       = Some alice_row
   \<and> faults db_with_alice (calls db_with_alice) = None
   \<and> alice_row ''updated_at'' = Num 1000000
   \<and> 1000000 < clock db_with_alice (calls db_with_alice)
   \<and> (\<exists>new s' t1.
         saveUser any_date alice_renamed db_with_alice = (Inr (Some new), s')
       \<and> tables s' ''users'' = [new]
       \<and> new ''sub'' = Str ''sub-1''
       \<and> new ''name'' = Str ''Alice B''
       \<and> new ''email'' = Null
       \<and> new ''phone'' = Str ''555''
       \<and> new ''created_at'' = Num 1000000
       \<and> new ''updated_at'' = Num t1 \<and> 1000000 < t1)"
proof -
  have h: "find (\<lambda>r. sql_eq (r ''sub'') (alice_renamed ''sub'')) (tables db_with_alice ''users'')
       = Some alice_row"
    "faults db_with_alice (calls db_with_alice) = None"
    "1000000 < clock db_with_alice (calls db_with_alice)"
    by (simp_all add: db_with_alice_def empty_db_def alice_renamed_fields alice_row_fields
        sql_eq_def logOperation_def set_table_def)
  have t: "tables db_with_alice ''users'' = [alice_row]"
    by (simp add: db_with_alice_def)
  show ?thesis
    using saveUser_again_updates_fields_keeps_created_at
      [OF saveUser_checks_alice(2) h(1) h(2) alice_row_fields(3) h(3)]
    by (simp add: saveUser_checks_alice h alice_row_fields alice_renamed_fields t bind_def sql_eq_def)
      blast
qed

section \<open>Saving a medical certificate\<close>

lemma saveMedicalCertificate_checks_ok:
  assumes "saveMedicalCertificate_checks d = Inr ()"
  shows "truthy (d ''certificate_id'')" "truthy (d ''issued_date'')" "truthy (d ''expiry_date'')"
    "truthy (d ''doctor_name'')" "truthy (d ''hospital'')"
  using assms by (simp_all add: saveMedicalCertificate_checks_def validateRequiredFields_ok)

lemma medical_certificates_upsert_existing:
  assumes "truthy certificate_id" "truthy issued_date" "truthy expiry_date"
    "truthy doctor_name" "truthy hospital"
    and "find (\<lambda>r. sql_eq (r ''certificate_id'') certificate_id)
           (tables s ''medical_certificates'') = Some old"
  shows "medical_certificates_upsert
           [userId, certificate_id, issued_date, expiry_date, doctor_name, hospital,
            blood_group, is_fit_to_drive, vision_status, hearing_status, remarks] now s =
         Inr ([old(''issued_date'' := issued_date, ''expiry_date'' := expiry_date,
                   ''doctor_name'' := doctor_name, ''hospital'' := hospital,
                   ''blood_group'' := bind blood_group,
                   ''is_fit_to_drive'' := bind is_fit_to_drive,
                   ''vision_status'' := bind vision_status,
                   ''hearing_status'' := bind hearing_status,
                   ''remarks'' := bind remarks, ''updated_at'' := Num now)],
              set_table ''medical_certificates''
                (map (\<lambda>r. if sql_eq (r ''certificate_id'') certificate_id
                           then old(''issued_date'' := issued_date, ''expiry_date'' := expiry_date,
                                    ''doctor_name'' := doctor_name, ''hospital'' := hospital,
                                    ''blood_group'' := bind blood_group,
                                    ''is_fit_to_drive'' := bind is_fit_to_drive,
                                    ''vision_status'' := bind vision_status,
                                    ''hearing_status'' := bind hearing_status,
                                    ''remarks'' := bind remarks, ''updated_at'' := Num now)
                           else r)
                     (tables s ''medical_certificates'')) s)"
proof -
  let ?new = "object
          (zip [''sub'', ''certificate_id'', ''issued_date'', ''expiry_date'', ''doctor_name'',
                ''hospital'', ''blood_group'', ''is_fit_to_drive'', ''vision_status'',
                ''hearing_status'', ''remarks'']
               (map bind [userId, certificate_id, issued_date, expiry_date, doctor_name, hospital,
            blood_group, is_fit_to_drive, vision_status, hearing_status, remarks])
           @ [(''created_at'', Num now), (''updated_at'', Num now)])"
  note t = truthy_bind [OF assms(1)] truthy_bind [OF assms(2)] truthy_bind [OF assms(3)]
    truthy_bind [OF assms(4)] truthy_bind [OF assms(5)]
  have vals: "?new ''certificate_id'' = certificate_id" "?new ''issued_date'' = issued_date"
    "?new ''expiry_date'' = expiry_date" "?new ''doctor_name'' = doctor_name"
    "?new ''hospital'' = hospital" "?new ''blood_group'' = bind blood_group"
    "?new ''is_fit_to_drive'' = bind is_fit_to_drive" "?new ''vision_status'' = bind vision_status"
    "?new ''hearing_status'' = bind hearing_status" "?new ''remarks'' = bind remarks"
    using t by (simp_all add: object_def)
  have nn: "find (\<lambda>c. before_row medical_certificates_schema ?new c = Null)
              (not_null medical_certificates_schema) = None"
    using vals t by (simp add: medical_certificates_schema_def)
  have ck: "check_ok medical_certificates_schema (before_row medical_certificates_schema ?new)"
    by (simp add: medical_certificates_schema_def)
  have ex: "find (\<lambda>r. sql_eq (r (unique_key medical_certificates_schema))
                    (before_row medical_certificates_schema ?new (unique_key medical_certificates_schema)))
           (tables s (relation medical_certificates_schema)) = Some old"
    using assms(6) vals by (simp add: medical_certificates_schema_def)
  show ?thesis
    unfolding medical_certificates_upsert_def
    using insert_into_conflict_update [OF nn ck ex] vals
    by (simp add: medical_certificates_schema_def cong: if_cong)
qed

lemma saveMedicalCertificate_existing_key:
  assumes checks: "saveMedicalCertificate_checks d = Inr ()"
    and existing: "find (\<lambda>r. sql_eq (r ''certificate_id'') (d ''certificate_id''))
                     (tables s ''medical_certificates'') = Some old"
    and no_fault: "faults s (calls s) = None"
  shows "saveMedicalCertificate userId d s =
     (Inr (Some (old(''issued_date'' := d ''issued_date'', ''expiry_date'' := d ''expiry_date'',
                   ''doctor_name'' := d ''doctor_name'', ''hospital'' := d ''hospital'',
                   ''blood_group'' := bind (d ''blood_group''),
                   ''is_fit_to_drive'' := bind (d ''is_fit_to_drive''),
                   ''vision_status'' := bind (d ''vision_status''),
                   ''hearing_status'' := bind (d ''hearing_status''),
                   ''remarks'' := bind (d ''remarks''),
                   ''updated_at'' := Num (clock s (calls s))))),
      logOperation ''Save medical certificate'' True
        (set_table ''medical_certificates''
           (map (\<lambda>r. if sql_eq (r ''certificate_id'') (d ''certificate_id'')
                      then old(''issued_date'' := d ''issued_date'', ''expiry_date'' := d ''expiry_date'',
                   ''doctor_name'' := d ''doctor_name'', ''hospital'' := d ''hospital'',
                   ''blood_group'' := bind (d ''blood_group''),
                   ''is_fit_to_drive'' := bind (d ''is_fit_to_drive''),
                   ''vision_status'' := bind (d ''vision_status''),
                   ''hearing_status'' := bind (d ''hearing_status''),
                   ''remarks'' := bind (d ''remarks''),
                   ''updated_at'' := Num (clock s (calls s)))
                      else r)
                (tables s ''medical_certificates''))
           (s\<lparr>calls := Suc (calls s)\<rparr>)))"
proof -
  have ex: "find (\<lambda>r. sql_eq (r ''certificate_id'') (d ''certificate_id''))
              (tables (s\<lparr>calls := Suc (calls s)\<rparr>) ''medical_certificates'') = Some old"
    using existing by simp
  note stmt = medical_certificates_upsert_existing
      [OF saveMedicalCertificate_checks_ok [OF checks] ex,
       of userId "d ''blood_group''" "d ''is_fit_to_drive''" "d ''vision_status''"
          "d ''hearing_status''" "d ''remarks''" "clock s (calls s)"]
  note run = executeQuery_select
      [where query = "medical_certificates_upsert
                  [userId, d ''certificate_id'', d ''issued_date'',
                   d ''expiry_date'', d ''doctor_name'',
                   d ''hospital'', d ''blood_group'',
                   d ''is_fit_to_drive'', d ''vision_status'',
                   d ''hearing_status'', d ''remarks'']"
         and l = "''Save medical certificate''", OF no_fault stmt]
  show ?thesis
    by (simp add: saveMedicalCertificate_def saveMedicalCertificate_body_def checks run
        return_first_def rethrow_def)
qed

section \<open>Sessions and their expiry\<close>

lemma expiry_derived_calculate: "expiry_derived (calculate_expires_at r)"
  by (simp add: expiry_derived_def calculate_expires_at_def)

lemma insert_into_user_sessions_derives_expiry:
  assumes "list_all expiry_derived (tables s ''user_sessions'')"
    and "insert_into user_sessions_schema on_conflict new s = Inr (rows, s')"
  shows "list_all expiry_derived rows \<and> list_all expiry_derived (tables s' ''user_sessions'')"
  using assms
  by (auto simp: insert_into_def user_sessions_schema_def Let_def list_all_iff
      expiry_derived_calculate
      split: option.splits if_splits)

lemma update_where_user_sessions_derives_expiry:
  assumes "list_all expiry_derived (tables s ''user_sessions'')"
    and "update_where user_sessions_schema wh assign s = Inr (rows, s')"
  shows "list_all expiry_derived rows \<and> list_all expiry_derived (tables s' ''user_sessions'')"
  using assms
  by (auto simp: update_where_def user_sessions_schema_def Let_def list_all_iff
      expiry_derived_calculate
      split: if_splits)

lemma executeQuery_outcomes:
  "(tables (snd (executeQuery q l s)) = tables s \<and> isl (fst (executeQuery q l s)))
   \<or> (\<exists>rows s2. q (clock s (calls s)) (s\<lparr>calls := Suc (calls s)\<rparr>) = Inr (rows, s2)
        \<and> executeQuery q l s = (Inr rows, logOperation l True s2))"
  by (auto simp: executeQuery_def Let_def split: option.splits fault.splits sum.splits)


lemma map_replace_member:
  assumes "find P rows = Some x"
  shows "y \<in> set (map (\<lambda>r. if P r then y else r) rows)"
proof -
  from assms have "x \<in> set rows" "P x"
    by (auto simp: find_Some_iff in_set_conv_nth)
  then show ?thesis by force
qed

lemma insert_into_shape:
  assumes "insert_into sch on_conflict new s = Inr (rows, s')"
  shows "(rows = [before_row sch new]
          \<and> s' = set_table (relation sch) (tables s (relation sch) @ [before_row sch new]) s)
       \<or> (\<exists>existing do_update.
            on_conflict = Some do_update
          \<and> find (\<lambda>r. sql_eq (r (unique_key sch)) (before_row sch new (unique_key sch)))
                (tables s (relation sch)) = Some existing
          \<and> rows = [before_row sch (do_update existing (before_row sch new))]
          \<and> s' = set_table (relation sch)
                 (map (\<lambda>r. if sql_eq (r (unique_key sch)) (before_row sch new (unique_key sch))
                            then before_row sch (do_update existing (before_row sch new)) else r)
                      (tables s (relation sch))) s)"
  using assms
  by (auto simp: insert_into_def Let_def split: option.splits if_splits)

lemma user_sessions_upsert_row:
  assumes "user_sessions_upsert sub session_id access_token token_type expires_in scope now s
           = Inr (rows, s')"
  shows "\<exists>seconds r. int4_in expires_in = Inr seconds \<and> rows = [r]
           \<and> r ''created_at'' = Num now \<and> r ''expires_in'' = seconds
           \<and> r ''expires_at'' = add_seconds (Num now) seconds
           \<and> r \<in> set (tables s' ''user_sessions'')"
proof (cases "int4_in expires_in")
  case (Inl e)
  then show ?thesis using assms by (simp add: user_sessions_upsert_def)
next
  case (Inr seconds)
  let ?new = "object
               [(''sub'', bind sub), (''session_id'', bind session_id),
                (''access_token'', bind access_token), (''token_type'', bind token_type),
                (''expires_in'', seconds), (''scope'', bind scope),
                (''created_at'', Num now), (''expires_at'', Null)]"
  let ?upd = "\<lambda>existing EXCLUDED. existing
                (''access_token'' := EXCLUDED ''access_token'',
                 ''token_type'' := EXCLUDED ''token_type'',
                 ''expires_in'' := EXCLUDED ''expires_in'',
                 ''scope'' := EXCLUDED ''scope'',
                 ''created_at'' := Num now)"
  have ins: "insert_into user_sessions_schema (Some ?upd) ?new s = Inr (rows, s')"
    using assms Inr by (simp add: user_sessions_upsert_def)
  have new: "?new ''created_at'' = Num now" "?new ''expires_in'' = seconds"
    by (simp_all add: object_def)
  have sch: "before_row user_sessions_schema = calculate_expires_at"
    "relation user_sessions_schema = ''user_sessions''"
    by (simp_all add: user_sessions_schema_def)
  from insert_into_shape [OF ins]
  show ?thesis
  proof (elim disjE exE conjE)
    assume a: "rows = [before_row user_sessions_schema ?new]"
      "s' = set_table (relation user_sessions_schema)
              (tables s (relation user_sessions_schema) @ [before_row user_sessions_schema ?new]) s"
    show ?thesis
      using Inr new unfolding a sch
      by (simp add: calculate_expires_at_def)
  next
    fix existing do_update
    assume b: "Some ?upd = Some do_update"
      "find (\<lambda>r. sql_eq (r (unique_key user_sessions_schema))
                   (before_row user_sessions_schema ?new (unique_key user_sessions_schema)))
         (tables s (relation user_sessions_schema)) = Some existing"
      "rows = [before_row user_sessions_schema
                 (do_update existing (before_row user_sessions_schema ?new))]"
      "s' = set_table (relation user_sessions_schema)
              (map (\<lambda>r. if sql_eq (r (unique_key user_sessions_schema))
                               (before_row user_sessions_schema ?new (unique_key user_sessions_schema))
                         then before_row user_sessions_schema
                                (do_update existing (before_row user_sessions_schema ?new))
                         else r)
                   (tables s (relation user_sessions_schema))) s"
    have du: "do_update = ?upd" using b(1) by simp
    have mem: "before_row user_sessions_schema (do_update existing (before_row user_sessions_schema ?new))
                 \<in> set (tables s' ''user_sessions'')"
      unfolding b(4) using map_replace_member [OF b(2)] by (simp add: sch)
    have fields: "calculate_expires_at (?upd existing (calculate_expires_at ?new)) ''created_at'' = Num now"
      "calculate_expires_at (?upd existing (calculate_expires_at ?new)) ''expires_in'' = seconds"
      "calculate_expires_at (?upd existing (calculate_expires_at ?new)) ''expires_at''
         = add_seconds (Num now) seconds"
      using new by (simp_all add: calculate_expires_at_def)
    show ?thesis
      using Inr mem fields unfolding b(3) du sch by simp
  qed
qed

lemma saveUserSession_outcomes:
  "(tables (snd (saveUserSession userId d s)) = tables s \<and> isl (fst (saveUserSession userId d s)))
   \<or> (\<exists>rows s2.
        user_sessions_upsert userId (d ''session_id'') (d ''access_token'') (d ''token_type'')
            (default_to (Num 3600) (d ''expires_in'')) (d ''scope'')
            (clock s (calls s)) (s\<lparr>calls := Suc (calls s)\<rparr>) = Inr (rows, s2)
        \<and> saveUserSession userId d s
            = (Inr (first_row rows), logOperation ''Save user session'' True s2))"
proof (cases "saveUserSession_checks d")
  case (Inl e)
  then show ?thesis
    by (simp add: saveUserSession_def saveUserSession_body_def Let_def rethrow_def)
next
  case (Inr u)
  let ?q = "user_sessions_upsert userId (d ''session_id'') (d ''access_token'') (d ''token_type'')
            (default_to (Num 3600) (d ''expires_in'')) (d ''scope'')"
  have eq: "saveUserSession userId d s
      = rethrow ''Failed to save user session: ''
          (return_first (executeQuery ?q ''Save user session'' s))"
    by (simp add: saveUserSession_def saveUserSession_body_def Let_def Inr)
  from executeQuery_outcomes [of ?q "''Save user session''" s]
  show ?thesis
  proof (elim disjE exE conjE)
    assume "tables (snd (executeQuery ?q ''Save user session'' s)) = tables s"
      "isl (fst (executeQuery ?q ''Save user session'' s))"
    then have "tables (snd (saveUserSession userId d s)) = tables s
         \<and> isl (fst (saveUserSession userId d s))"
      unfolding eq by (cases "executeQuery ?q ''Save user session'' s")
        (auto simp: rethrow_def return_first_def isl_def)
    then show ?thesis by (rule disjI1)
  next
    fix rows s2
    assume "?q (clock s (calls s)) (s\<lparr>calls := Suc (calls s)\<rparr>) = Inr (rows, s2)"
      "executeQuery ?q ''Save user session'' s = (Inr rows, logOperation ''Save user session'' True s2)"
    then show ?thesis
      unfolding eq by (intro disjI2 exI [of _ rows] exI [of _ s2])
        (simp add: rethrow_def return_first_def)
  qed
qed

lemma int4_in_default_3600:
  assumes "v \<in> {Undefined, Num 3600}"
  shows "int4_in (default_to (Num 3600) v) = Inr (Num 3600)"
  using assms by (auto simp: default_to_def int4_in_def)

lemma user_sessions_upsert_derives_expiry:
  assumes "list_all expiry_derived (tables s ''user_sessions'')"
    and "user_sessions_upsert sub session_id access_token token_type expires_in scope now s
           = Inr (rows, s')"
  shows "list_all expiry_derived (tables s' ''user_sessions'')"
proof (cases "int4_in expires_in")
  case (Inl e)
  then show ?thesis using assms(2) by (simp add: user_sessions_upsert_def)
next
  case (Inr seconds)
  from assms(2) have "\<exists>on_conflict new.
      insert_into user_sessions_schema on_conflict new s = Inr (rows, s')"
    unfolding user_sessions_upsert_def Inr by (simp only: sum.case) blast
  then obtain on_conflict new where
    "insert_into user_sessions_schema on_conflict new s = Inr (rows, s')" by blast
  from insert_into_user_sessions_derives_expiry [OF assms(1) this]
  show ?thesis by simp
qed

lemma saveUserSession_checks_session_data: "saveUserSession_checks session_data = Inr ()"
  by (simp add: saveUserSession_checks_def validateRequiredFields_ok session_data_fields)

lemma first_saveUserSession_succeeds:
  "\<exists>row. fst (saveUserSession (Str ''sub-1'') session_data db_with_alice) = Inr (Some row)"
  by (simp add: saveUserSession_def saveUserSession_body_def saveUserSession_checks_session_data
      session_data_fields default_to_def
      executeQuery_def user_sessions_upsert_def int4_in_def insert_into_def
      user_sessions_schema_def calculate_expires_at_def bind_def sql_eq_def
      return_first_def rethrow_def db_with_alice_def alice_row_def empty_db_def
      set_table_def logOperation_def object_def Let_def)

text \<open>
  Claim C6. The rows of \<open>user_sessions\<close> keep the invariant that \<open>expires_at\<close> is
  \<open>created_at\<close> plus \<open>expires_in\<close> seconds: \<open>saveUserSession\<close> preserves it whatever its
  outcome; the row it returns (from the insert as from the \<^verbatim>\<open>ON CONFLICT\<close> update) has it,
  is a row of the table, and carries the time of the call as \<open>created_at\<close>, so that with
  \<open>expires_in\<close> 3600 (given, or by default) \<open>expires_at\<close> is one hour, 3600 * 10^6
  microseconds, after \<open>created_at\<close>. The value comes from the trigger alone: an
  \<open>expires_at\<close> in the caller's data changes nothing, and every insert and every update
  of the table, whatever the statement, leaves rows for which it holds.
\<close>

theorem session_expiry_is_derived_by_the_trigger:
  assumes "list_all expiry_derived (tables s ''user_sessions'')"
  shows "list_all expiry_derived (tables (snd (saveUserSession userId sessionData s)) ''user_sessions'')
       \<and> (\<forall>row. fst (saveUserSession userId sessionData s) = Inr (Some row) \<longrightarrow>
              expiry_derived row
            \<and> row \<in> set (tables (snd (saveUserSession userId sessionData s)) ''user_sessions'')
            \<and> row ''created_at'' = Num (clock s (calls s))
            \<and> (sessionData ''expires_in'' \<in> {Undefined, Num 3600} \<longrightarrow>
                 row ''expires_at'' = Num (clock s (calls s) + 3600 * 1000000)))
       \<and> saveUserSession userId (sessionData(''expires_at'' := v)) s
           = saveUserSession userId sessionData s
       \<and> (\<forall>on_conflict new rows s'.
             insert_into user_sessions_schema on_conflict new s = Inr (rows, s') \<longrightarrow>
               list_all expiry_derived rows \<and> list_all expiry_derived (tables s' ''user_sessions''))
       \<and> (\<forall>wh assign rows s'.
             update_where user_sessions_schema wh assign s = Inr (rows, s') \<longrightarrow>
               list_all expiry_derived rows \<and> list_all expiry_derived (tables s' ''user_sessions''))"
proof -
  let ?q = "user_sessions_upsert userId (sessionData ''session_id'') (sessionData ''access_token'')
              (sessionData ''token_type'') (default_to (Num 3600) (sessionData ''expires_in''))
              (sessionData ''scope'')"
  let ?s1 = "s\<lparr>calls := Suc (calls s)\<rparr>"
  let ?now = "clock s (calls s)"
  have inv1: "list_all expiry_derived (tables ?s1 ''user_sessions'')"
    using assms by simp
  have table: "list_all expiry_derived (tables (snd (saveUserSession userId sessionData s)) ''user_sessions'')"
  proof -
    from saveUserSession_outcomes [of userId sessionData s]
    consider (unchanged) "tables (snd (saveUserSession userId sessionData s)) = tables s"
      | (ran) rows s2 where "?q ?now ?s1 = Inr (rows, s2)"
          "saveUserSession userId sessionData s
             = (Inr (first_row rows), logOperation ''Save user session'' True s2)"
      by blast
    then show ?thesis
    proof cases
      case unchanged
      then show ?thesis using assms by simp
    next
      case ran
      have "list_all expiry_derived (tables s2 ''user_sessions'')"
        by (rule user_sessions_upsert_derives_expiry [OF inv1 ran(1)])
      then show ?thesis using ran(2) by simp
    qed
  qed
  have row: "expiry_derived row
            \<and> row \<in> set (tables (snd (saveUserSession userId sessionData s)) ''user_sessions'')
            \<and> row ''created_at'' = Num ?now
            \<and> (sessionData ''expires_in'' \<in> {Undefined, Num 3600} \<longrightarrow>
                 row ''expires_at'' = Num (?now + 3600 * 1000000))"
    if ok: "fst (saveUserSession userId sessionData s) = Inr (Some row)" for row
  proof -
    have "\<not> isl (fst (saveUserSession userId sessionData s))"
      using ok by simp
    with saveUserSession_outcomes [of userId sessionData s]
    obtain rows s2 where ran: "?q ?now ?s1 = Inr (rows, s2)"
      "saveUserSession userId sessionData s
         = (Inr (first_row rows), logOperation ''Save user session'' True s2)"
      by blast
    from user_sessions_upsert_row [OF ran(1)]
    obtain seconds r where r: "int4_in (default_to (Num 3600) (sessionData ''expires_in'')) = Inr seconds"
      "rows = [r]" "r ''created_at'' = Num ?now" "r ''expires_in'' = seconds"
      "r ''expires_at'' = add_seconds (Num ?now) seconds" "r \<in> set (tables s2 ''user_sessions'')"
      by blast
    have "row = r" using ok ran(2) r(2) by simp
    moreover have "expiry_derived r" using r(3,4,5) by (simp add: expiry_derived_def)
    moreover have "r ''expires_at'' = Num (?now + 3600 * 1000000)"
      if "sessionData ''expires_in'' \<in> {Undefined, Num 3600}"
      using int4_in_default_3600 [OF that] r(1,5) by simp
    ultimately show ?thesis using r(3,6) ran(2) by simp
  qed
  have ignored: "saveUserSession userId (sessionData(''expires_at'' := v)) s
           = saveUserSession userId sessionData s"
    by (simp add: saveUserSession_def saveUserSession_body_def saveUserSession_checks_def
        validateRequiredFields_def missingFields_def)
  have ins: "\<forall>on_conflict new rows s'.
             insert_into user_sessions_schema on_conflict new s = Inr (rows, s') \<longrightarrow>
               list_all expiry_derived rows \<and> list_all expiry_derived (tables s' ''user_sessions'')"
    using insert_into_user_sessions_derives_expiry [OF assms] by (intro allI impI)
  have upd: "\<forall>wh assign rows s'.
             update_where user_sessions_schema wh assign s = Inr (rows, s') \<longrightarrow>
               list_all expiry_derived rows \<and> list_all expiry_derived (tables s' ''user_sessions'')"
    using update_where_user_sessions_derives_expiry [OF assms] by (intro allI impI)
  have rows: "\<forall>row. fst (saveUserSession userId sessionData s) = Inr (Some row) \<longrightarrow>
              expiry_derived row
            \<and> row \<in> set (tables (snd (saveUserSession userId sessionData s)) ''user_sessions'')
            \<and> row ''created_at'' = Num (clock s (calls s))
            \<and> (sessionData ''expires_in'' \<in> {Undefined, Num 3600} \<longrightarrow>
                 row ''expires_at'' = Num (clock s (calls s) + 3600 * 1000000))"
    using row by (intro allI impI)
  show ?thesis
    by (intro conjI table rows ignored ins upd)
qed


theorem session_expiry_is_derived_by_the_trigger_witness:
  "list_all expiry_derived (tables db_with_alice ''user_sessions'')
   \<and> session_data ''expires_in'' \<in> {Undefined, Num 3600}
   \<and> (\<exists>row. fst (saveUserSession (Str ''sub-1'') session_data db_with_alice) = Inr (Some row)
          \<and> row ''created_at'' = Num 2000000
          \<and> row ''expires_at'' = Num 3602000000
          \<and> expiry_derived row)
   \<and> list_all expiry_derived
        (tables (snd (saveUserSession (Str ''sub-1'') session_data db_with_alice)) ''user_sessions'')
   \<and> list_all expiry_derived (tables seeded_db ''user_sessions'')
   \<and> (\<exists>row. fst (saveUserSession (Str ''sub-1'') session_data seeded_db) = Inr (Some row)
          \<and> row ''created_at'' = Num 6000000
          \<and> row ''expires_at'' = Num 3606000000
          \<and> expiry_derived row)
   \<and> list_all expiry_derived
        (tables (snd (saveUserSession (Str ''sub-1'') session_data seeded_db)) ''user_sessions'')
   \<and> (\<exists>row s'. insert_into user_sessions_schema None
                   (object [(''sub'', Str ''sub-1''), (''session_id'', Str ''sess-9''),
                            (''created_at'', Num 7000000), (''expires_in'', Num 10),
                            (''expires_at'', Num 0)]) seeded_db = Inr ([row], s')
          \<and> row ''expires_at'' = Num 17000000
          \<and> list_all expiry_derived (tables s' ''user_sessions''))
   \<and> (\<exists>row s'. update_where user_sessions_schema (\<lambda>r. True) (\<lambda>r. r(''expires_in'' := Num 120))
                   seeded_db = Inr ([row], s')
          \<and> row ''expires_at'' = Num 123000000
          \<and> list_all expiry_derived (tables s' ''user_sessions''))"
proof -
  let ?new = "object [(''sub'', Str ''sub-1''), (''session_id'', Str ''sess-9''),
                      (''created_at'', Num 7000000), (''expires_in'', Num 10),
                      (''expires_at'', Num 0)]"
  have inv0: "list_all expiry_derived (tables db_with_alice ''user_sessions'')"
    by (simp add: db_with_alice_def empty_db_def)
  have now0: "clock db_with_alice (calls db_with_alice) = 2000000"
    by (simp add: db_with_alice_def empty_db_def logOperation_def set_table_def)
  note inst0 = session_expiry_is_derived_by_the_trigger
    [OF inv0, where userId = "Str ''sub-1''" and sessionData = session_data]
  from first_saveUserSession_succeeds obtain row0 where
    row0: "fst (saveUserSession (Str ''sub-1'') session_data db_with_alice) = Inr (Some row0)"
    by blast
  from inst0 row0 have r0: "expiry_derived row0" "row0 ''created_at'' = Num 2000000"
    "row0 ''expires_at'' = Num 3602000000"
    by (simp_all add: now0 session_data_fields)
  from inst0 have t0: "list_all expiry_derived
        (tables (snd (saveUserSession (Str ''sub-1'') session_data db_with_alice)) ''user_sessions'')"
    by blast
  have inv: "list_all expiry_derived (tables seeded_db ''user_sessions'')"
    by (simp add: seeded_db_fields session_row_def object_def expiry_derived_def)
  note inst = session_expiry_is_derived_by_the_trigger
    [OF inv, where userId = "Str ''sub-1''" and sessionData = session_data]
  have "\<exists>row. fst (saveUserSession (Str ''sub-1'') session_data seeded_db) = Inr (Some row)"
    by (simp add: saveUserSession_def saveUserSession_body_def saveUserSession_checks_session_data
      session_data_fields default_to_def seeded_db_fields
      executeQuery_def user_sessions_upsert_def int4_in_def insert_into_def
      user_sessions_schema_def calculate_expires_at_def bind_def sql_eq_def
      return_first_def rethrow_def session_row_def alice_row_def
      set_table_def logOperation_def object_def Let_def)
  then obtain row where
    row: "fst (saveUserSession (Str ''sub-1'') session_data seeded_db) = Inr (Some row)"
    by blast
  from inst row have r: "expiry_derived row" "row ''created_at'' = Num 6000000"
    "row ''expires_at'' = Num 3606000000"
    by (simp_all add: seeded_db_fields session_data_fields)
  have "\<exists>row s'. insert_into user_sessions_schema None ?new seeded_db = Inr ([row], s')
          \<and> row ''expires_at'' = Num 17000000"
    by (simp add: insert_into_def user_sessions_schema_def calculate_expires_at_def
        sql_eq_def seeded_db_fields session_row_def alice_row_def object_def Let_def)
  then obtain irow s1 where
    i: "insert_into user_sessions_schema None ?new seeded_db = Inr ([irow], s1)"
       "irow ''expires_at'' = Num 17000000"
    by blast
  have "\<exists>row s'. update_where user_sessions_schema (\<lambda>r. True) (\<lambda>r. r(''expires_in'' := Num 120))
                   seeded_db = Inr ([row], s')
          \<and> row ''expires_at'' = Num 123000000"
    by (simp add: update_where_def user_sessions_schema_def calculate_expires_at_def
        seeded_db_fields session_row_def object_def Let_def)
  then obtain urow s2 where
    u: "update_where user_sessions_schema (\<lambda>r. True) (\<lambda>r. r(''expires_in'' := Num 120))
          seeded_db = Inr ([urow], s2)"
       "urow ''expires_at'' = Num 123000000"
    by blast
  from inst i(1) have i': "list_all expiry_derived (tables s1 ''user_sessions'')"
    by blast
  from inst u(1) have u': "list_all expiry_derived (tables s2 ''user_sessions'')"
    by blast
  from inst have t: "list_all expiry_derived
        (tables (snd (saveUserSession (Str ''sub-1'') session_data seeded_db)) ''user_sessions'')"
    by blast
  show ?thesis
    using inv0 row0 r0 t0 inv row r t i i' u u' by (auto simp add: session_data_fields)
qed

section \<open>Creating a row whose key exists\<close>

lemma translate_unique_violation:
  "translate_error (pg_error ''23505'' msg) = Error None ''Duplicate entry: Record already exists''"
  by (simp add: translate_error_def pg_error_def new_Error_def)

lemma addLicenceCategory_checks_ok:
  assumes "addLicenceCategory_checks d = Inr ()"
  shows "truthy (d ''category_code'')" "truthy (d ''category_label'')"
    "truthy (d ''description'')" "truthy (d ''fee'')"
  using assms
  by (auto simp: addLicenceCategory_checks_def validateRequiredFields_ok
      split: sum.splits if_splits)

lemma licence_categories_insert_existing:
  assumes "truthy category_code" "truthy category_label" "truthy description" "truthy fee"
    and "find (\<lambda>r. sql_eq (r ''category_code'') category_code)
           (tables s ''licence_categories'') = Some old"
  shows "licence_categories_insert
           [category_code, category_label, description, fee, min_age, vehicle_type] now s =
         Inl (pg_error ''23505'' ''duplicate key value violates unique constraint on category_code'')"
proof -
  let ?new = "object
          (zip [''category_code'', ''category_label'', ''description'', ''fee'', ''min_age'',
                ''vehicle_type'']
               (map bind [category_code, category_label, description, fee, min_age, vehicle_type])
           @ [(''is_active'', Bool True),
              (''created_at'', Num now), (''updated_at'', Num now)])"
  note t = truthy_bind [OF assms(1)] truthy_bind [OF assms(2)] truthy_bind [OF assms(3)]
    truthy_bind [OF assms(4)]
  have vals: "?new ''category_code'' = category_code" "?new ''category_label'' = category_label"
    "?new ''description'' = description" "?new ''fee'' = fee"
    using t by (simp_all add: object_def)
  have nn: "find (\<lambda>c. before_row licence_categories_schema ?new c = Null)
              (not_null licence_categories_schema) = None"
    using vals t by (simp add: licence_categories_schema_def)
  have ck: "check_ok licence_categories_schema (before_row licence_categories_schema ?new)"
    by (simp add: licence_categories_schema_def)
  have ex: "find (\<lambda>r. sql_eq (r (unique_key licence_categories_schema))
                    (before_row licence_categories_schema ?new (unique_key licence_categories_schema)))
           (tables s (relation licence_categories_schema)) = Some old"
    using assms(5) vals by (simp add: licence_categories_schema_def)
  show ?thesis
    unfolding licence_categories_insert_def
    using insert_into_conflict_error [OF nn ck ex]
    by (simp add: licence_categories_schema_def)
qed

lemma addLicenceCategory_existing_key:
  assumes checks: "addLicenceCategory_checks d = Inr ()"
    and existing: "find (\<lambda>r. sql_eq (r ''category_code'') (d ''category_code''))
                     (tables s ''licence_categories'') = Some old"
    and no_fault: "faults s (calls s) = None"
  shows "addLicenceCategory d s =
     (Inl (Error None ''Failed to add licence category: Duplicate entry: Record already exists''),
      logOperation ''Add licence category'' False (s\<lparr>calls := Suc (calls s)\<rparr>))"
proof -
  have ex: "find (\<lambda>r. sql_eq (r ''category_code'') (d ''category_code''))
              (tables (s\<lparr>calls := Suc (calls s)\<rparr>) ''licence_categories'') = Some old"
    using existing by simp
  note stmt = licence_categories_insert_existing
      [OF addLicenceCategory_checks_ok [OF checks] ex,
       of "d ''min_age''" "d ''vehicle_type''" "clock s (calls s)"]
  note run = executeQuery_statement_fails
      [where query = "licence_categories_insert
                  [d ''category_code'', d ''category_label'', d ''description'', d ''fee'',
                   d ''min_age'', d ''vehicle_type'']"
         and l = "''Add licence category''", OF no_fault stmt]
  show ?thesis
    by (simp add: addLicenceCategory_def addLicenceCategory_body_def checks run
        return_first_def rethrow_def translate_unique_violation new_Error_def)
qed

lemma saveApplication_checks_ok:
  assumes "saveApplication_checks d = Inr ()"
  shows "list_all (\<lambda>f. truthy (d f)) saveApplication_required"
    and "default_to (Str ''pending'') (d ''status'') \<in> set (map Str validStatuses)"
  using assms
  by (auto simp: saveApplication_checks_def Let_def validateRequiredFields_ok
      split: sum.splits if_splits)


lemma applications_insert_existing:
  assumes req: "list_all (\<lambda>f. truthy (d f)) saveApplication_required"
    and st: "status \<in> set (map Str validStatuses)"
    and mc: "d ''medical_certificate_id'' \<notin> {Undefined, Null}"
    and ex: "find (\<lambda>r. sql_eq (r ''application_id'') (d ''application_id''))
           (tables s ''applications'') = Some old"
  shows "applications_insert
           [d ''sub'', d ''application_id'', d ''medical_certificate_id'', d ''selectCategories'',
            status, total_amount, payment_reference_id, payment_transaction_id,
            d ''fullName'', d ''email'', phone, d ''dob'', gender, bloodGroup,
            d ''doctorName'', d ''hospital'', d ''issuedDate'', d ''expiryDate'',
            isFitToDrive, vision, hearing, remarks, photoUrl, writtenTest, practicalTest] now s =
         Inl (pg_error ''23505'' ''duplicate key value violates unique constraint on application_id'')"
proof -
  let ?new = "object
          (zip [''sub'', ''application_id'', ''medical_certificate_id'',
                ''selected_categories'', ''status'', ''total_amount'', ''payment_reference_id'',
                ''payment_transaction_id'', ''full_name'', ''email'', ''phone'',
                ''date_of_birth'', ''gender'', ''blood_group'', ''doctor_name'', ''hospital'',
                ''issued_date'', ''expiry_date'', ''is_fit_to_drive'', ''vision'', ''hearing'',
                ''remarks'', ''photo_url'', ''written_test'', ''practical_test'']
               (map bind [d ''sub'', d ''application_id'', d ''medical_certificate_id'', d ''selectCategories'',
            status, total_amount, payment_reference_id, payment_transaction_id,
            d ''fullName'', d ''email'', phone, d ''dob'', gender, bloodGroup,
            d ''doctorName'', d ''hospital'', d ''issuedDate'', d ''expiryDate'',
            isFitToDrive, vision, hearing, remarks, photoUrl, writtenTest, practicalTest])
           @ [(''admin_status'', Str ''unverified''),
              (''created_at'', Num now), (''updated_at'', Num now)])"
  have tr: "truthy (d ''sub'')" "truthy (d ''application_id'')" "truthy (d ''selectCategories'')"
    "truthy (d ''fullName'')" "truthy (d ''email'')" "truthy (d ''dob'')"
    "truthy (d ''doctorName'')" "truthy (d ''hospital'')" "truthy (d ''issuedDate'')"
    "truthy (d ''expiryDate'')"
    using req by (simp_all add: saveApplication_required_def)
  have nz: "bind (d ''sub'') \<noteq> Null" "bind (d ''application_id'') \<noteq> Null"
    "bind (d ''selectCategories'') \<noteq> Null" "bind (d ''fullName'') \<noteq> Null"
    "bind (d ''email'') \<noteq> Null" "bind (d ''dob'') \<noteq> Null" "bind (d ''doctorName'') \<noteq> Null"
    "bind (d ''hospital'') \<noteq> Null" "bind (d ''issuedDate'') \<noteq> Null"
    "bind (d ''expiryDate'') \<noteq> Null" "bind (d ''medical_certificate_id'') \<noteq> Null"
    using tr [THEN truthy_bind] mc by (simp_all add: bind_def)
  have bst: "bind status = status" using st by (auto simp: bind_def)
  have vals: "?new ''sub'' = bind (d ''sub'')" "?new ''application_id'' = d ''application_id''"
    "?new ''medical_certificate_id'' = bind (d ''medical_certificate_id'')"
    "?new ''full_name'' = bind (d ''fullName'')" "?new ''email'' = bind (d ''email'')"
    "?new ''date_of_birth'' = bind (d ''dob'')" "?new ''doctor_name'' = bind (d ''doctorName'')"
    "?new ''hospital'' = bind (d ''hospital'')" "?new ''issued_date'' = bind (d ''issuedDate'')"
    "?new ''expiry_date'' = bind (d ''expiryDate'')"
    "?new ''selected_categories'' = bind (d ''selectCategories'')"
    "?new ''status'' = status" "?new ''admin_status'' = Str ''unverified''"
    using truthy_bind [OF tr(2)] bst by (simp_all add: object_def)
  have nn: "find (\<lambda>c. before_row applications_schema ?new c = Null)
              (not_null applications_schema) = None"
    using vals nz truthy_bind [OF tr(2)] by (simp add: applications_schema_def)
  have ck: "check_ok applications_schema (before_row applications_schema ?new)"
    using vals st by (simp add: applications_schema_def check_in_def validAdminStatuses_def)
  have ex': "find (\<lambda>r. sql_eq (r (unique_key applications_schema))
                    (before_row applications_schema ?new (unique_key applications_schema)))
           (tables s (relation applications_schema)) = Some old"
    using ex vals by (simp add: applications_schema_def)
  show ?thesis
    unfolding applications_insert_def
    using insert_into_conflict_error [OF nn ck ex']
    by (simp add: applications_schema_def)
qed

lemma saveApplication_existing_key:
  assumes checks: "saveApplication_checks d = Inr ()"
    and mc: "d ''medical_certificate_id'' \<notin> {Undefined, Null}"
    and existing: "find (\<lambda>r. sql_eq (r ''application_id'') (d ''application_id''))
                     (tables s ''applications'') = Some old"
    and no_fault: "faults s (calls s) = None"
  shows "saveApplication d s =
     (Inl (Error None ''Failed to save application: Duplicate entry: Record already exists''),
      logOperation ''Save application'' False (s\<lparr>calls := Suc (calls s)\<rparr>))"
proof -
  have ex: "find (\<lambda>r. sql_eq (r ''application_id'') (d ''application_id''))
              (tables (s\<lparr>calls := Suc (calls s)\<rparr>) ''applications'') = Some old"
    using existing by simp
  note stmt = applications_insert_existing
      [OF saveApplication_checks_ok [OF checks] mc ex,
       of "default_to (Num 0) (d ''total_amount'')"
          "default_to Null (d ''payment_reference_id'')"
          "default_to Null (d ''payment_transaction_id'')"
          "d ''phone''" "d ''gender''" "d ''bloodGroup''" "d ''isFitToDrive''"
          "d ''vision''" "d ''hearing''" "d ''remarks''" "d ''photoUrl''"
          "if truthy (d ''writtenTest'') then d ''writtenTest'' else Null"
          "if truthy (d ''practicalTest'') then d ''practicalTest'' else Null"
          "clock s (calls s)"]
  note run = executeQuery_statement_fails
      [where l = "''Save application''"
         and query = "applications_insert
           [d ''sub'', d ''application_id'', d ''medical_certificate_id'', d ''selectCategories'',
            default_to (Str ''pending'') (d ''status''),
            default_to (Num 0) (d ''total_amount''),
            default_to Null (d ''payment_reference_id''),
            default_to Null (d ''payment_transaction_id''),
            d ''fullName'', d ''email'', d ''phone'', d ''dob'', d ''gender'', d ''bloodGroup'',
            d ''doctorName'', d ''hospital'', d ''issuedDate'', d ''expiryDate'',
            d ''isFitToDrive'', d ''vision'', d ''hearing'', d ''remarks'', d ''photoUrl'',
            if truthy (d ''writtenTest'') then d ''writtenTest'' else Null,
            if truthy (d ''practicalTest'') then d ''practicalTest'' else Null]",
       OF no_fault stmt]
  show ?thesis
    by (simp add: saveApplication_def saveApplication_body_def checks run Let_def
        return_first_def rethrow_def translate_unique_violation new_Error_def)
qed


lemma saveUserSession_checks_ok:
  assumes "saveUserSession_checks d = Inr ()"
  shows "truthy (d ''session_id'')" "truthy (d ''access_token'')"
  using assms by (simp_all add: saveUserSession_checks_def validateRequiredFields_ok)

lemma user_sessions_upsert_existing:
  assumes "truthy session_id" "truthy access_token"
    and "int4_in expires_in = Inr seconds"
    and "find (\<lambda>r. sql_eq (r ''session_id'') session_id) (tables s ''user_sessions'') = Some old"
  shows "user_sessions_upsert sub session_id access_token token_type expires_in scope now s =
         Inr ([calculate_expires_at
                 (old(''access_token'' := access_token, ''token_type'' := bind token_type,
                      ''expires_in'' := seconds, ''scope'' := bind scope,
                      ''created_at'' := Num now))],
              set_table ''user_sessions''
                (map (\<lambda>r. if sql_eq (r ''session_id'') session_id
                           then calculate_expires_at
                                  (old(''access_token'' := access_token,
                                       ''token_type'' := bind token_type,
                                       ''expires_in'' := seconds, ''scope'' := bind scope,
                                       ''created_at'' := Num now))
                           else r)
                     (tables s ''user_sessions'')) s)"
proof -
  let ?new = "object
               [(''sub'', bind sub), (''session_id'', bind session_id),
                (''access_token'', bind access_token), (''token_type'', bind token_type),
                (''expires_in'', seconds), (''scope'', bind scope),
                (''created_at'', Num now), (''expires_at'', Null)]"
  note t = truthy_bind [OF assms(1)] truthy_bind [OF assms(2)]
  have vals: "calculate_expires_at ?new ''session_id'' = session_id"
    "calculate_expires_at ?new ''access_token'' = access_token"
    "calculate_expires_at ?new ''token_type'' = bind token_type"
    "calculate_expires_at ?new ''expires_in'' = seconds"
    "calculate_expires_at ?new ''scope'' = bind scope"
    using t by (simp_all add: object_def calculate_expires_at_def)
  have nn: "find (\<lambda>c. before_row user_sessions_schema ?new c = Null)
              (not_null user_sessions_schema) = None"
    using vals t by (simp add: user_sessions_schema_def)
  have ck: "check_ok user_sessions_schema (before_row user_sessions_schema ?new)"
    by (simp add: user_sessions_schema_def)
  have ex: "find (\<lambda>r. sql_eq (r (unique_key user_sessions_schema))
                    (before_row user_sessions_schema ?new (unique_key user_sessions_schema)))
           (tables s (relation user_sessions_schema)) = Some old"
    using assms(4) vals by (simp add: user_sessions_schema_def)
  show ?thesis
    unfolding user_sessions_upsert_def assms(3)
    using insert_into_conflict_update [OF nn ck ex] vals
    by (simp add: user_sessions_schema_def cong: if_cong)
qed

lemma saveUserSession_existing_key:
  assumes checks: "saveUserSession_checks d = Inr ()"
    and secs: "int4_in (default_to (Num 3600) (d ''expires_in'')) = Inr seconds"
    and existing: "find (\<lambda>r. sql_eq (r ''session_id'') (d ''session_id''))
                     (tables s ''user_sessions'') = Some old"
    and no_fault: "faults s (calls s) = None"
  shows "saveUserSession userId d s =
     (Inr (Some (calculate_expires_at
                 (old(''access_token'' := d ''access_token'', ''token_type'' := bind (d ''token_type''),
                      ''expires_in'' := seconds, ''scope'' := bind (d ''scope''),
                      ''created_at'' := Num (clock s (calls s)))))),
      logOperation ''Save user session'' True
        (set_table ''user_sessions''
           (map (\<lambda>r. if sql_eq (r ''session_id'') (d ''session_id'')
                      then calculate_expires_at
                 (old(''access_token'' := d ''access_token'', ''token_type'' := bind (d ''token_type''),
                      ''expires_in'' := seconds, ''scope'' := bind (d ''scope''),
                      ''created_at'' := Num (clock s (calls s))))
                      else r)
                (tables s ''user_sessions''))
           (s\<lparr>calls := Suc (calls s)\<rparr>)))"
proof -
  have ex: "find (\<lambda>r. sql_eq (r ''session_id'') (d ''session_id''))
              (tables (s\<lparr>calls := Suc (calls s)\<rparr>) ''user_sessions'') = Some old"
    using existing by simp
  note stmt = user_sessions_upsert_existing
      [OF saveUserSession_checks_ok [OF checks] secs ex,
       of userId "d ''token_type''" "d ''scope''" "clock s (calls s)"]
  note run = executeQuery_select
      [where query = "user_sessions_upsert userId (d ''session_id'') (d ''access_token'')
                        (d ''token_type'') (default_to (Num 3600) (d ''expires_in'')) (d ''scope'')"
         and l = "''Save user session''", OF no_fault stmt]
  show ?thesis
    by (simp add: saveUserSession_def saveUserSession_body_def checks run Let_def
        return_first_def rethrow_def)
qed

lemma int4_in_error:
  assumes "int4_in v = Inl e"
  shows "translate_error e = e"
  using assms
  by (auto simp: int4_in_def translate_error_def pg_error_def split: if_splits option.splits)

lemma saveUserSession_cast_failure:
  assumes checks: "saveUserSession_checks d = Inr ()"
    and secs: "int4_in (default_to (Num 3600) (d ''expires_in'')) = Inl e"
    and no_fault: "faults s (calls s) = None"
  shows "saveUserSession userId d s =
     (Inl (Error None (''Failed to save user session: '' @ message e)),
      logOperation ''Save user session'' False (s\<lparr>calls := Suc (calls s)\<rparr>))"
proof -
  have stmt: "user_sessions_upsert userId (d ''session_id'') (d ''access_token'')
                (d ''token_type'') (default_to (Num 3600) (d ''expires_in'')) (d ''scope'')
                (clock s (calls s)) (s\<lparr>calls := Suc (calls s)\<rparr>) = Inl e"
    by (simp add: user_sessions_upsert_def secs)
  note run = executeQuery_statement_fails
      [where query = "user_sessions_upsert userId (d ''session_id'') (d ''access_token'')
                        (d ''token_type'') (default_to (Num 3600) (d ''expires_in'')) (d ''scope'')"
         and l = "''Save user session''", OF no_fault stmt]
  show ?thesis
    by (simp add: saveUserSession_def saveUserSession_body_def checks run Let_def
        return_first_def rethrow_def int4_in_error [OF secs] new_Error_def)
qed

lemma insert_into_not_null:
  assumes "find (\<lambda>c. before_row sch new c = Null) (not_null sch) = Some c"
  shows "insert_into sch on_conflict new s =
           Inl (pg_error ''23502'' (''null value in column '' @ c @ '' violates not-null constraint''))"
  using assms by (simp add: insert_into_def Let_def)

lemma applications_insert_without_certificate:
  assumes req: "list_all (\<lambda>f. truthy (d f)) saveApplication_required"
    and mc: "d ''medical_certificate_id'' \<in> {Undefined, Null}"
  shows "applications_insert
           [d ''sub'', d ''application_id'', d ''medical_certificate_id'', d ''selectCategories'',
            status, total_amount, payment_reference_id, payment_transaction_id,
            d ''fullName'', d ''email'', phone, d ''dob'', gender, bloodGroup,
            d ''doctorName'', d ''hospital'', d ''issuedDate'', d ''expiryDate'',
            isFitToDrive, vision, hearing, remarks, photoUrl, writtenTest, practicalTest] now s =
         Inl (pg_error ''23502''
                ''null value in column medical_certificate_id violates not-null constraint'')"
proof -
  let ?new = "object
          (zip [''sub'', ''application_id'', ''medical_certificate_id'',
                ''selected_categories'', ''status'', ''total_amount'', ''payment_reference_id'',
                ''payment_transaction_id'', ''full_name'', ''email'', ''phone'',
                ''date_of_birth'', ''gender'', ''blood_group'', ''doctor_name'', ''hospital'',
                ''issued_date'', ''expiry_date'', ''is_fit_to_drive'', ''vision'', ''hearing'',
                ''remarks'', ''photo_url'', ''written_test'', ''practical_test'']
               (map bind [d ''sub'', d ''application_id'', d ''medical_certificate_id'', d ''selectCategories'',
            status, total_amount, payment_reference_id, payment_transaction_id,
            d ''fullName'', d ''email'', phone, d ''dob'', gender, bloodGroup,
            d ''doctorName'', d ''hospital'', d ''issuedDate'', d ''expiryDate'',
            isFitToDrive, vision, hearing, remarks, photoUrl, writtenTest, practicalTest])
           @ [(''admin_status'', Str ''unverified''),
              (''created_at'', Num now), (''updated_at'', Num now)])"
  have tr: "truthy (d ''sub'')" "truthy (d ''application_id'')"
    using req by (simp_all add: saveApplication_required_def)
  have nz: "bind (d ''sub'') \<noteq> Null" "bind (d ''application_id'') \<noteq> Null"
    "bind (d ''medical_certificate_id'') = Null"
    using tr [THEN truthy_bind] mc by (auto simp: bind_def)
  have vals: "?new ''sub'' = bind (d ''sub'')" "?new ''application_id'' = bind (d ''application_id'')"
    "?new ''medical_certificate_id'' = bind (d ''medical_certificate_id'')"
    by (simp_all add: object_def)
  have nn: "find (\<lambda>c. before_row applications_schema ?new c = Null)
              (not_null applications_schema) = Some ''medical_certificate_id''"
    using vals nz by (simp add: applications_schema_def)
  show ?thesis
    unfolding applications_insert_def
    using insert_into_not_null [OF nn] by simp
qed

lemma saveApplication_without_certificate:
  assumes checks: "saveApplication_checks d = Inr ()"
    and mc: "d ''medical_certificate_id'' \<in> {Undefined, Null}"
    and no_fault: "faults s (calls s) = None"
  shows "saveApplication d s =
     (Inl (Error None ''Failed to save application: Required field is missing''),
      logOperation ''Save application'' False (s\<lparr>calls := Suc (calls s)\<rparr>))"
proof -
  note stmt = applications_insert_without_certificate
      [OF saveApplication_checks_ok(1) [OF checks] mc,
       of "default_to (Str ''pending'') (d ''status'')"
          "default_to (Num 0) (d ''total_amount'')"
          "default_to Null (d ''payment_reference_id'')"
          "default_to Null (d ''payment_transaction_id'')"
          "d ''phone''" "d ''gender''" "d ''bloodGroup''" "d ''isFitToDrive''"
          "d ''vision''" "d ''hearing''" "d ''remarks''" "d ''photoUrl''"
          "if truthy (d ''writtenTest'') then d ''writtenTest'' else Null"
          "if truthy (d ''practicalTest'') then d ''practicalTest'' else Null"
          "clock s (calls s)" "s\<lparr>calls := Suc (calls s)\<rparr>"]
  note run = executeQuery_statement_fails
      [where l = "''Save application''"
         and query = "applications_insert
           [d ''sub'', d ''application_id'', d ''medical_certificate_id'', d ''selectCategories'',
            default_to (Str ''pending'') (d ''status''),
            default_to (Num 0) (d ''total_amount''),
            default_to Null (d ''payment_reference_id''),
            default_to Null (d ''payment_transaction_id''),
            d ''fullName'', d ''email'', d ''phone'', d ''dob'', d ''gender'', d ''bloodGroup'',
            d ''doctorName'', d ''hospital'', d ''issuedDate'', d ''expiryDate'',
            d ''isFitToDrive'', d ''vision'', d ''hearing'', d ''remarks'', d ''photoUrl'',
            if truthy (d ''writtenTest'') then d ''writtenTest'' else Null,
            if truthy (d ''practicalTest'') then d ''practicalTest'' else Null]",
       OF no_fault stmt]
  show ?thesis
    by (simp add: saveApplication_def saveApplication_body_def checks run Let_def
        return_first_def rethrow_def translate_error_def pg_error_def new_Error_def)
qed

text \<open>
  Claim C3, as amended. Of the five create operations, \<open>saveUser\<close>,
  \<open>saveMedicalCertificate\<close> and \<open>saveUserSession\<close> are upserts keyed by \<open>sub\<close>,
  \<open>certificate_id\<close> and \<open>session_id\<close>. Called with a key that a row already has,
  with input that passes the operation's own checks, and with the statement not failing
  for a reason outside the tables (no connection failure, no timeout, every parameter
  accepted for its column's type; for \<open>saveUserSession\<close> that includes an
  \<open>expires_in\<close> which is absent or null or which the server reads as a 32-bit integer),
  they succeed and replace that row in place by the row updated from the new values; with
  an \<open>expires_in\<close> that the server does not read as an integer \<open>saveUserSession\<close> throws
  the server's error and leaves every table as it was. \<open>addLicenceCategory\<close> and
  \<open>saveApplication\<close> are plain inserts: called, under the same conditions, with a
  \<open>category_code\<close> or an \<open>application_id\<close> that a row already has, they throw and leave
  every table as it was. The message is "Duplicate entry: Record already exists", except
  that \<open>saveApplication\<close> without a \<open>medical_certificate_id\<close> (a \<^verbatim>\<open>NOT NULL\<close> column
  that the method's checks do not cover) throws "Required field is missing", whether the
  \<open>application_id\<close> exists or not.
\<close>

theorem create_upserts_users_certificates_sessions_only:
  assumes "faults s (calls s) = None"
  shows "(saveUser_checks valid_date u = Inr ()
          \<and> find (\<lambda>r. sql_eq (r ''sub'') (u ''sub'')) (tables s ''users'') = Some old_user
        \<longrightarrow> fst (saveUser valid_date u s) =
              Inr (Some (old_user(''name'' := u ''name'', ''email'' := bind (u ''email''),
                     ''phone'' := bind (u ''phone''),
                     ''date_of_birth'' := bind (u ''date_of_birth''),
                     ''address'' := bind (u ''address''),
                     ''updated_at'' := Num (clock s (calls s)))))
          \<and> tables (snd (saveUser valid_date u s)) =
              (tables s)(''users'' :=
                 map (\<lambda>r. if sql_eq (r ''sub'') (u ''sub'')
                      then old_user(''name'' := u ''name'', ''email'' := bind (u ''email''),
                     ''phone'' := bind (u ''phone''),
                     ''date_of_birth'' := bind (u ''date_of_birth''),
                     ''address'' := bind (u ''address''),
                     ''updated_at'' := Num (clock s (calls s)))
                      else r) (tables s ''users'')))
       \<and> (saveMedicalCertificate_checks m = Inr ()
          \<and> find (\<lambda>r. sql_eq (r ''certificate_id'') (m ''certificate_id''))
                (tables s ''medical_certificates'') = Some old_certificate
        \<longrightarrow> fst (saveMedicalCertificate userId m s) =
              Inr (Some (old_certificate(''issued_date'' := m ''issued_date'',
                   ''expiry_date'' := m ''expiry_date'',
                   ''doctor_name'' := m ''doctor_name'', ''hospital'' := m ''hospital'',
                   ''blood_group'' := bind (m ''blood_group''),
                   ''is_fit_to_drive'' := bind (m ''is_fit_to_drive''),
                   ''vision_status'' := bind (m ''vision_status''),
                   ''hearing_status'' := bind (m ''hearing_status''),
                   ''remarks'' := bind (m ''remarks''),
                   ''updated_at'' := Num (clock s (calls s)))))
          \<and> tables (snd (saveMedicalCertificate userId m s)) =
              (tables s)(''medical_certificates'' :=
                 map (\<lambda>r. if sql_eq (r ''certificate_id'') (m ''certificate_id'')
                      then old_certificate(''issued_date'' := m ''issued_date'',
                   ''expiry_date'' := m ''expiry_date'',
                   ''doctor_name'' := m ''doctor_name'', ''hospital'' := m ''hospital'',
                   ''blood_group'' := bind (m ''blood_group''),
                   ''is_fit_to_drive'' := bind (m ''is_fit_to_drive''),
                   ''vision_status'' := bind (m ''vision_status''),
                   ''hearing_status'' := bind (m ''hearing_status''),
                   ''remarks'' := bind (m ''remarks''),
                   ''updated_at'' := Num (clock s (calls s)))
                      else r) (tables s ''medical_certificates'')))
       \<and> (saveUserSession_checks d = Inr ()
          \<and> int4_in (default_to (Num 3600) (d ''expires_in'')) = Inr seconds
          \<and> find (\<lambda>r. sql_eq (r ''session_id'') (d ''session_id''))
                (tables s ''user_sessions'') = Some old_session
        \<longrightarrow> fst (saveUserSession userId d s) =
              Inr (Some (calculate_expires_at
                 (old_session(''access_token'' := d ''access_token'',
                      ''token_type'' := bind (d ''token_type''),
                      ''expires_in'' := seconds, ''scope'' := bind (d ''scope''),
                      ''created_at'' := Num (clock s (calls s))))))
          \<and> tables (snd (saveUserSession userId d s)) =
              (tables s)(''user_sessions'' :=
                 map (\<lambda>r. if sql_eq (r ''session_id'') (d ''session_id'')
                      then calculate_expires_at
                 (old_session(''access_token'' := d ''access_token'',
                      ''token_type'' := bind (d ''token_type''),
                      ''expires_in'' := seconds, ''scope'' := bind (d ''scope''),
                      ''created_at'' := Num (clock s (calls s))))
                      else r) (tables s ''user_sessions'')))
       \<and> (saveUserSession_checks d = Inr ()
          \<and> int4_in (default_to (Num 3600) (d ''expires_in'')) = Inl cast_error
        \<longrightarrow> fst (saveUserSession userId d s) =
              Inl (Error None (''Failed to save user session: '' @ message cast_error))
          \<and> tables (snd (saveUserSession userId d s)) = tables s)
       \<and> (addLicenceCategory_checks c = Inr ()
          \<and> find (\<lambda>r. sql_eq (r ''category_code'') (c ''category_code''))
                (tables s ''licence_categories'') = Some old_category
        \<longrightarrow> fst (addLicenceCategory c s) =
              Inl (Error None ''Failed to add licence category: Duplicate entry: Record already exists'')
          \<and> tables (snd (addLicenceCategory c s)) = tables s)
       \<and> (saveApplication_checks a = Inr ()
          \<and> a ''medical_certificate_id'' \<notin> {Undefined, Null}
          \<and> find (\<lambda>r. sql_eq (r ''application_id'') (a ''application_id''))
                (tables s ''applications'') = Some old_application
        \<longrightarrow> fst (saveApplication a s) =
              Inl (Error None ''Failed to save application: Duplicate entry: Record already exists'')
          \<and> tables (snd (saveApplication a s)) = tables s)
       \<and> (saveApplication_checks a = Inr ()
          \<and> a ''medical_certificate_id'' \<in> {Undefined, Null}
        \<longrightarrow> fst (saveApplication a s) =
              Inl (Error None ''Failed to save application: Required field is missing'')
          \<and> tables (snd (saveApplication a s)) = tables s)"
proof (intro conjI impI; elim conjE)
  assume h: "saveUser_checks valid_date u = Inr ()"
    "find (\<lambda>r. sql_eq (r ''sub'') (u ''sub'')) (tables s ''users'') = Some old_user"
  show "fst (saveUser valid_date u s) =
              Inr (Some (old_user(''name'' := u ''name'', ''email'' := bind (u ''email''),
                     ''phone'' := bind (u ''phone''),
                     ''date_of_birth'' := bind (u ''date_of_birth''),
                     ''address'' := bind (u ''address''),
                     ''updated_at'' := Num (clock s (calls s)))))"
    by (simp add: saveUser_existing_key [OF h assms])
  show "tables (snd (saveUser valid_date u s)) =
              (tables s)(''users'' :=
                 map (\<lambda>r. if sql_eq (r ''sub'') (u ''sub'')
                      then old_user(''name'' := u ''name'', ''email'' := bind (u ''email''),
                     ''phone'' := bind (u ''phone''),
                     ''date_of_birth'' := bind (u ''date_of_birth''),
                     ''address'' := bind (u ''address''),
                     ''updated_at'' := Num (clock s (calls s)))
                      else r) (tables s ''users''))"
    by (simp add: saveUser_existing_key [OF h assms])
next
  assume h: "saveMedicalCertificate_checks m = Inr ()"
    "find (\<lambda>r. sql_eq (r ''certificate_id'') (m ''certificate_id''))
                (tables s ''medical_certificates'') = Some old_certificate"
  show "fst (saveMedicalCertificate userId m s) =
              Inr (Some (old_certificate(''issued_date'' := m ''issued_date'',
                   ''expiry_date'' := m ''expiry_date'',
                   ''doctor_name'' := m ''doctor_name'', ''hospital'' := m ''hospital'',
                   ''blood_group'' := bind (m ''blood_group''),
                   ''is_fit_to_drive'' := bind (m ''is_fit_to_drive''),
                   ''vision_status'' := bind (m ''vision_status''),
                   ''hearing_status'' := bind (m ''hearing_status''),
                   ''remarks'' := bind (m ''remarks''),
                   ''updated_at'' := Num (clock s (calls s)))))"
    by (simp add: saveMedicalCertificate_existing_key [OF h assms])
  show "tables (snd (saveMedicalCertificate userId m s)) =
              (tables s)(''medical_certificates'' :=
                 map (\<lambda>r. if sql_eq (r ''certificate_id'') (m ''certificate_id'')
                      then old_certificate(''issued_date'' := m ''issued_date'',
                   ''expiry_date'' := m ''expiry_date'',
                   ''doctor_name'' := m ''doctor_name'', ''hospital'' := m ''hospital'',
                   ''blood_group'' := bind (m ''blood_group''),
                   ''is_fit_to_drive'' := bind (m ''is_fit_to_drive''),
                   ''vision_status'' := bind (m ''vision_status''),
                   ''hearing_status'' := bind (m ''hearing_status''),
                   ''remarks'' := bind (m ''remarks''),
                   ''updated_at'' := Num (clock s (calls s)))
                      else r) (tables s ''medical_certificates''))"
    by (simp add: saveMedicalCertificate_existing_key [OF h assms])
next
  assume h: "saveUserSession_checks d = Inr ()"
    "int4_in (default_to (Num 3600) (d ''expires_in'')) = Inr seconds"
    "find (\<lambda>r. sql_eq (r ''session_id'') (d ''session_id''))
                (tables s ''user_sessions'') = Some old_session"
  show "fst (saveUserSession userId d s) =
              Inr (Some (calculate_expires_at
                 (old_session(''access_token'' := d ''access_token'',
                      ''token_type'' := bind (d ''token_type''),
                      ''expires_in'' := seconds, ''scope'' := bind (d ''scope''),
                      ''created_at'' := Num (clock s (calls s))))))"
    by (simp add: saveUserSession_existing_key [OF h assms])
  show "tables (snd (saveUserSession userId d s)) =
              (tables s)(''user_sessions'' :=
                 map (\<lambda>r. if sql_eq (r ''session_id'') (d ''session_id'')
                      then calculate_expires_at
                 (old_session(''access_token'' := d ''access_token'',
                      ''token_type'' := bind (d ''token_type''),
                      ''expires_in'' := seconds, ''scope'' := bind (d ''scope''),
                      ''created_at'' := Num (clock s (calls s))))
                      else r) (tables s ''user_sessions''))"
    by (simp add: saveUserSession_existing_key [OF h assms])
next
  assume h: "saveUserSession_checks d = Inr ()"
    "int4_in (default_to (Num 3600) (d ''expires_in'')) = Inl cast_error"
  show "fst (saveUserSession userId d s) =
              Inl (Error None (''Failed to save user session: '' @ message cast_error))"
    by (simp add: saveUserSession_cast_failure [OF h assms])
  show "tables (snd (saveUserSession userId d s)) = tables s"
    by (simp add: saveUserSession_cast_failure [OF h assms])
next
  assume h: "addLicenceCategory_checks c = Inr ()"
    "find (\<lambda>r. sql_eq (r ''category_code'') (c ''category_code''))
                (tables s ''licence_categories'') = Some old_category"
  show "fst (addLicenceCategory c s) =
              Inl (Error None ''Failed to add licence category: Duplicate entry: Record already exists'')"
    by (simp add: addLicenceCategory_existing_key [OF h assms])
  show "tables (snd (addLicenceCategory c s)) = tables s"
    by (simp add: addLicenceCategory_existing_key [OF h assms])
next
  assume h: "saveApplication_checks a = Inr ()"
    "a ''medical_certificate_id'' \<notin> {Undefined, Null}"
    "find (\<lambda>r. sql_eq (r ''application_id'') (a ''application_id''))
                (tables s ''applications'') = Some old_application"
  show "fst (saveApplication a s) =
              Inl (Error None ''Failed to save application: Duplicate entry: Record already exists'')"
    by (simp add: saveApplication_existing_key [OF h assms])
  show "tables (snd (saveApplication a s)) = tables s"
    by (simp add: saveApplication_existing_key [OF h assms])
next
  assume h: "saveApplication_checks a = Inr ()"
    "a ''medical_certificate_id'' \<in> {Undefined, Null}"
  show "fst (saveApplication a s) =
              Inl (Error None ''Failed to save application: Required field is missing'')"
    by (simp add: saveApplication_without_certificate [OF h assms])
  show "tables (snd (saveApplication a s)) = tables s"
    by (simp add: saveApplication_without_certificate [OF h assms])
qed

lemma example_keys:
  "certificate_row ''certificate_id'' = Str ''MED001''"
  "certificate_data ''certificate_id'' = Str ''MED001''"
  "session_row ''session_id'' = Str ''sess-1''"
  "category_row ''category_code'' = Str ''B''" "category_B ''category_code'' = Str ''B''"
  "application_row ''application_id'' = Str ''APP001''"
  "application_data ''application_id'' = Str ''APP001''"
  "application_data ''medical_certificate_id'' = Str ''MED001''"
  by (simp_all add: certificate_row_def certificate_data_def session_row_def category_row_def
      category_B_def application_row_def application_data_def object_def)

lemma example_checks:
  "saveMedicalCertificate_checks certificate_data = Inr ()"
  "addLicenceCategory_checks category_B = Inr ()"
  "saveApplication_checks application_data = Inr ()"
proof -
  show "saveMedicalCertificate_checks certificate_data = Inr ()"
    by (simp add: saveMedicalCertificate_checks_def validateRequiredFields_ok
        certificate_data_def object_def)
  have "validateRequiredFields category_B
          [''category_code'', ''category_label'', ''description'', ''fee''] = Inr ()"
    by (simp add: validateRequiredFields_ok category_B_def object_def)
  then show "addLicenceCategory_checks category_B = Inr ()"
    by (simp add: addLicenceCategory_checks_def category_B_def object_def js_le_def)
  have "validateRequiredFields application_data saveApplication_required = Inr ()"
    by (simp add: validateRequiredFields_ok saveApplication_required_def application_data_def
        object_def)
  then show "saveApplication_checks application_data = Inr ()"
    by (simp add: saveApplication_checks_def Let_def application_data_def object_def
        default_to_def js_lt_def validStatuses_def)
qed

theorem create_upserts_users_certificates_sessions_only_witness:
  "faults seeded_db (calls seeded_db) = None
   \<and> saveUser_checks any_date alice_renamed = Inr ()
   \<and> find (\<lambda>r. sql_eq (r ''sub'') (alice_renamed ''sub'')) (tables seeded_db ''users'')
       = Some alice_row
   \<and> (\<exists>new. fst (saveUser any_date alice_renamed seeded_db) = Inr (Some new)
          \<and> new ''name'' = Str ''Alice B'' \<and> new ''created_at'' = Num 1000000
          \<and> tables (snd (saveUser any_date alice_renamed seeded_db)) ''users'' = [new])
   \<and> saveMedicalCertificate_checks certificate_data = Inr ()
   \<and> find (\<lambda>r. sql_eq (r ''certificate_id'') (certificate_data ''certificate_id''))
         (tables seeded_db ''medical_certificates'') = Some certificate_row
   \<and> (\<exists>new. fst (saveMedicalCertificate (Str ''sub-1'') certificate_data seeded_db) = Inr (Some new)
          \<and> new ''doctor_name'' = Str ''Dr. Jones'' \<and> new ''created_at'' = Num 2000000
          \<and> tables (snd (saveMedicalCertificate (Str ''sub-1'') certificate_data seeded_db))
                ''medical_certificates'' = [new])
   \<and> saveUserSession_checks session_data = Inr ()
   \<and> int4_in (default_to (Num 3600) (session_data ''expires_in'')) = Inr (Num 3600)
   \<and> find (\<lambda>r. sql_eq (r ''session_id'') (session_data ''session_id''))
         (tables seeded_db ''user_sessions'') = Some session_row
   \<and> (\<exists>new. fst (saveUserSession (Str ''sub-1'') session_data seeded_db) = Inr (Some new)
          \<and> new ''access_token'' = Str ''tok-1'' \<and> new ''expires_at'' = Num 3606000000
          \<and> tables (snd (saveUserSession (Str ''sub-1'') session_data seeded_db))
                ''user_sessions'' = [new])
   \<and> addLicenceCategory_checks category_B = Inr ()
   \<and> find (\<lambda>r. sql_eq (r ''category_code'') (category_B ''category_code''))
         (tables seeded_db ''licence_categories'') = Some category_row
   \<and> fst (addLicenceCategory category_B seeded_db)
       = Inl (Error None ''Failed to add licence category: Duplicate entry: Record already exists'')
   \<and> saveApplication_checks application_data = Inr ()
   \<and> application_data ''medical_certificate_id'' \<notin> {Undefined, Null}
   \<and> find (\<lambda>r. sql_eq (r ''application_id'') (application_data ''application_id''))
         (tables seeded_db ''applications'') = Some application_row
   \<and> fst (saveApplication application_data seeded_db)
       = Inl (Error None ''Failed to save application: Duplicate entry: Record already exists'')
   \<and> saveUserSession_checks (session_data(''expires_in'' := Str ''abc'')) = Inr ()
   \<and> int4_in (default_to (Num 3600) ((session_data(''expires_in'' := Str ''abc'')) ''expires_in''))
       = Inl (Error (Some ''22P02'') ''invalid input syntax for type integer'')
   \<and> fst (saveUserSession (Str ''sub-1'') (session_data(''expires_in'' := Str ''abc'')) seeded_db)
       = Inl (Error None ''Failed to save user session: invalid input syntax for type integer'')
   \<and> tables (snd (saveUserSession (Str ''sub-1'') (session_data(''expires_in'' := Str ''abc''))
                     seeded_db)) ''user_sessions'' = [session_row]
   \<and> saveApplication_checks (application_data(''medical_certificate_id'' := Undefined)) = Inr ()
   \<and> (application_data(''medical_certificate_id'' := Undefined)) ''medical_certificate_id''
         \<in> {Undefined, Null}
   \<and> fst (saveApplication (application_data(''medical_certificate_id'' := Undefined)) seeded_db)
       = Inl (Error None ''Failed to save application: Required field is missing'')
   \<and> tables (snd (saveApplication (application_data(''medical_certificate_id'' := Undefined))
                     seeded_db)) ''applications'' = [application_row]"
proof -
  have hu: "find (\<lambda>r. sql_eq (r ''sub'') (alice_renamed ''sub'')) (tables seeded_db ''users'')
       = Some alice_row"
    by (simp add: seeded_db_fields alice_renamed_fields alice_row_fields sql_eq_def)
  have hm: "find (\<lambda>r. sql_eq (r ''certificate_id'') (certificate_data ''certificate_id''))
         (tables seeded_db ''medical_certificates'') = Some certificate_row"
    by (simp add: seeded_db_fields example_keys sql_eq_def)
  have hd: "int4_in (default_to (Num 3600) (session_data ''expires_in'')) = Inr (Num 3600)"
    "find (\<lambda>r. sql_eq (r ''session_id'') (session_data ''session_id''))
         (tables seeded_db ''user_sessions'') = Some session_row"
    by (simp_all add: seeded_db_fields example_keys session_data_fields sql_eq_def
        default_to_def int4_in_def)
  have hc: "find (\<lambda>r. sql_eq (r ''category_code'') (category_B ''category_code''))
         (tables seeded_db ''licence_categories'') = Some category_row"
    by (simp add: seeded_db_fields example_keys sql_eq_def)
  have ha: "application_data ''medical_certificate_id'' \<notin> {Undefined, Null}"
    "find (\<lambda>r. sql_eq (r ''application_id'') (application_data ''application_id''))
         (tables seeded_db ''applications'') = Some application_row"
    by (simp_all add: seeded_db_fields example_keys sql_eq_def)
  note inst = create_upserts_users_certificates_sessions_only
    [OF seeded_db_fields(1),
     where valid_date = any_date and u = alice_renamed and old_user = alice_row
       and m = certificate_data and old_certificate = certificate_row
       and userId = "Str ''sub-1''" and d = session_data and seconds = "Num 3600"
       and old_session = session_row and c = category_B and old_category = category_row
       and a = application_data and old_application = application_row]
  have user: "\<exists>new. fst (saveUser any_date alice_renamed seeded_db) = Inr (Some new)
          \<and> new ''name'' = Str ''Alice B'' \<and> new ''created_at'' = Num 1000000
          \<and> tables (snd (saveUser any_date alice_renamed seeded_db)) ''users'' = [new]"
    using inst saveUser_checks_alice(2) hu
    by (simp add: seeded_db_fields alice_renamed_fields alice_row_fields sql_eq_def)
  have cert: "\<exists>new. fst (saveMedicalCertificate (Str ''sub-1'') certificate_data seeded_db) = Inr (Some new)
          \<and> new ''doctor_name'' = Str ''Dr. Jones'' \<and> new ''created_at'' = Num 2000000
          \<and> tables (snd (saveMedicalCertificate (Str ''sub-1'') certificate_data seeded_db))
                ''medical_certificates'' = [new]"
    using inst example_checks(1) hm
    by (simp add: seeded_db_fields example_keys sql_eq_def certificate_data_def
        certificate_row_def object_def)
  have sess: "\<exists>new. fst (saveUserSession (Str ''sub-1'') session_data seeded_db) = Inr (Some new)
          \<and> new ''access_token'' = Str ''tok-1'' \<and> new ''expires_at'' = Num 3606000000
          \<and> tables (snd (saveUserSession (Str ''sub-1'') session_data seeded_db))
                ''user_sessions'' = [new]"
    using inst saveUserSession_checks_session_data hd
    by (simp add: seeded_db_fields example_keys sql_eq_def session_data_fields
        calculate_expires_at_def)
  have cat: "fst (addLicenceCategory category_B seeded_db)
       = Inl (Error None ''Failed to add licence category: Duplicate entry: Record already exists'')"
    using inst example_checks(2) hc by blast
  have app: "fst (saveApplication application_data seeded_db)
       = Inl (Error None ''Failed to save application: Duplicate entry: Record already exists'')"
    using inst example_checks(3) ha by blast
  note inst2 = create_upserts_users_certificates_sessions_only
    [OF seeded_db_fields(1),
     where userId = "Str ''sub-1''" and d = "session_data(''expires_in'' := Str ''abc'')"
       and cast_error = "Error (Some ''22P02'') ''invalid input syntax for type integer''"
       and a = "application_data(''medical_certificate_id'' := Undefined)"]
  have hd2: "saveUserSession_checks (session_data(''expires_in'' := Str ''abc'')) = Inr ()"
    by (simp add: saveUserSession_checks_def validateRequiredFields_ok session_data_fields)
  have hc2: "int4_in (default_to (Num 3600) ((session_data(''expires_in'' := Str ''abc'')) ''expires_in''))
       = Inl (Error (Some ''22P02'') ''invalid input syntax for type integer'')"
    by code_simp
  have sess2: "fst (saveUserSession (Str ''sub-1'') (session_data(''expires_in'' := Str ''abc'')) seeded_db)
       = Inl (Error None ''Failed to save user session: invalid input syntax for type integer'')"
    "tables (snd (saveUserSession (Str ''sub-1'') (session_data(''expires_in'' := Str ''abc''))
                     seeded_db)) ''user_sessions'' = [session_row]"
    using inst2 hd2 hc2 by (simp_all add: seeded_db_fields)
  have "validateRequiredFields (application_data(''medical_certificate_id'' := Undefined))
          saveApplication_required = Inr ()"
    by (simp add: validateRequiredFields_ok saveApplication_required_def example_data_fields)
  then have ha2: "saveApplication_checks (application_data(''medical_certificate_id'' := Undefined))
          = Inr ()"
    by (simp add: saveApplication_checks_def Let_def application_data_def object_def
        default_to_def js_lt_def validStatuses_def)
  have hm2: "(application_data(''medical_certificate_id'' := Undefined)) ''medical_certificate_id''
         \<in> {Undefined, Null}"
    by simp
  have app2: "fst (saveApplication (application_data(''medical_certificate_id'' := Undefined)) seeded_db)
       = Inl (Error None ''Failed to save application: Required field is missing'')"
    "tables (snd (saveApplication (application_data(''medical_certificate_id'' := Undefined))
                     seeded_db)) ''applications'' = [application_row]"
    using inst2 ha2 hm2 by (simp_all add: seeded_db_fields)
  show ?thesis
    by (intro conjI seeded_db_fields(1) saveUser_checks_alice(2) hu user example_checks hm cert
        saveUserSession_checks_session_data hd sess hc cat ha app hd2 hc2 sess2 ha2 hm2 app2)
qed

text \<open>
  Claim C3 as stated counts the licence category among the entities created by upsert. On
  a database that has category B, \<open>addLicenceCategory\<close> with code B (an input that
  passes the method's checks) throws the duplicate-entry error and leaves the row as it
  was.
\<close>

theorem addLicenceCategory_twice_counterexample:
  "addLicenceCategory_checks category_B = Inr ()
   \<and> find (\<lambda>r. sql_eq (r ''category_code'') (category_B ''category_code''))
         (tables seeded_db ''licence_categories'') = Some category_row
   \<and> fst (addLicenceCategory category_B seeded_db)
       = Inl (Error None ''Failed to add licence category: Duplicate entry: Record already exists'')
   \<and> tables (snd (addLicenceCategory category_B seeded_db)) ''licence_categories'' = [category_row]"
proof -
  have f: "find (\<lambda>r. sql_eq (r ''category_code'') (category_B ''category_code''))
         (tables seeded_db ''licence_categories'') = Some category_row"
    by (simp add: seeded_db_fields example_keys sql_eq_def)
  show ?thesis
    using addLicenceCategory_existing_key [OF example_checks(2) f seeded_db_fields(1)]
    by (simp add: example_checks seeded_db_fields example_keys sql_eq_def)
qed

section \<open>Searching the listing\<close>

lemma like_percent:
  "like (CHR ''%'' # ps) t \<longleftrightarrow> (\<exists>a b. t = a @ b \<and> like ps b)"
proof (induction t)
  case Nil
  show ?case by simp
next
  case (Cons c cs)
  have "like (CHR ''%'' # ps) (c # cs) \<longleftrightarrow> like ps (c # cs) \<or> like (CHR ''%'' # ps) cs"
    by simp
  also have "\<dots> \<longleftrightarrow> like ps (c # cs) \<or> (\<exists>a b. cs = a @ b \<and> like ps b)"
    using Cons.IH by simp
  also have "\<dots> \<longleftrightarrow> (\<exists>a b. c # cs = a @ b \<and> like ps b)"
  proof
    assume "like ps (c # cs) \<or> (\<exists>a b. cs = a @ b \<and> like ps b)"
    then show "\<exists>a b. c # cs = a @ b \<and> like ps b"
    proof
      assume "like ps (c # cs)"
      then have "c # cs = [] @ (c # cs) \<and> like ps (c # cs)" by simp
      then show ?thesis by blast
    next
      assume "\<exists>a b. cs = a @ b \<and> like ps b"
      then obtain a b where "cs = a @ b" "like ps b" by blast
      then have "c # cs = (c # a) @ b \<and> like ps b" by simp
      then show ?thesis by blast
    qed
  next
    assume "\<exists>a b. c # cs = a @ b \<and> like ps b"
    then obtain a b where ab: "c # cs = a @ b" "like ps b" by blast
    show "like ps (c # cs) \<or> (\<exists>a b. cs = a @ b \<and> like ps b)"
    proof (cases a)
      case Nil
      then show ?thesis using ab by simp
    next
      case (Cons x xs)
      then have "cs = xs @ b" using ab by simp
      then show ?thesis using ab(2) by blast
    qed
  qed
  finally show ?case .
qed

lemma like_literal:
  assumes "c \<notin> like_special"
  shows "like (c # ps) t \<longleftrightarrow> (\<exists>cs. t = c # cs \<and> like ps cs)"
  using assms by (cases t) (auto simp: like_special_def)

lemma like_literals:
  assumes "set lit \<inter> like_special = {}"
  shows "like (lit @ ps) t \<longleftrightarrow> (\<exists>r. t = lit @ r \<and> like ps r)"
  using assms
proof (induction lit arbitrary: t)
  case Nil
  show ?case by simp
next
  case (Cons c lit)
  have c: "c \<notin> like_special" and rest: "set lit \<inter> like_special = {}"
    using Cons.prems by auto
  show ?case
    using Cons.IH [OF rest] like_literal [OF c, of "lit @ ps" t]
    by auto
qed

lemma like_percent_only: "like [CHR ''%''] t"
  by (simp add: like_percent)

lemma like_contains:
  assumes "set lit \<inter> like_special = {}"
  shows "like (CHR ''%'' # lit @ [CHR ''%'']) t \<longleftrightarrow> sublist lit t"
proof -
  have "like (CHR ''%'' # lit @ [CHR ''%'']) t
        \<longleftrightarrow> (\<exists>a b. t = a @ b \<and> (\<exists>r. b = lit @ r \<and> like [CHR ''%''] r))"
    by (simp only: like_percent like_literals [OF assms])
  also have "\<dots> \<longleftrightarrow> (\<exists>a r. t = a @ lit @ r)"
    by (auto simp: like_percent_only)
  also have "\<dots> \<longleftrightarrow> sublist lit t"
    by (simp add: sublist_def)
  finally show ?thesis .
qed

lemma to_lower_meta: "to_lower c \<in> like_special \<longleftrightarrow> c \<in> like_special"
proof (cases "CHR ''A'' \<le> c \<and> c \<le> CHR ''Z''")
  case False
  then show ?thesis by (auto simp: to_lower_def)
next
  case True
  then have range: "65 \<le> (of_char c :: nat)" "(of_char c :: nat) \<le> 90"
    by (simp_all add: less_eq_char_def)
  have "(of_char (to_lower c) :: nat) = of_char c + 32"
    using True range by (simp add: to_lower_def)
  then have low: "97 \<le> (of_char (to_lower c) :: nat)" "(of_char (to_lower c) :: nat) \<le> 122"
    using range by simp_all
  have "to_lower c \<notin> like_special"
  proof
    assume "to_lower c \<in> like_special"
    then have "(of_char (to_lower c) :: nat) \<in> {37, 95, 92}"
      by (auto simp: like_special_def)
    then show False using low by auto
  qed
  moreover have "c \<notin> like_special"
  proof
    assume "c \<in> like_special"
    then have "(of_char c :: nat) \<in> {37, 95, 92}"
      by (auto simp: like_special_def)
    then show False using range by auto
  qed
  ultimately show ?thesis by simp
qed

lemma ilike_contains:
  assumes "set term \<inter> like_special = {}"
  shows "ilike v (''%'' @ term @ ''%'')
         \<longleftrightarrow> (\<exists>t. v = Str t \<and> sublist (map to_lower term) (map to_lower t))"
proof -
  have low: "set (map to_lower term) \<inter> like_special = {}"
    using assms to_lower_meta by auto
  have pat: "to_lower CHR ''%'' = CHR ''%''"
    by (simp add: to_lower_def less_eq_char_def)
  show ?thesis
    by (cases v) (simp_all add: ilike_def pat like_contains [OF low])
qed


lemma map_rows_Inr:
  assumes "map_rows f rows = Inr rows'"
  shows "list_all2 (\<lambda>r r'. f r = Inr r') rows rows'"
  using assms
proof (induction rows arbitrary: rows')
  case Nil
  then show ?case by simp
next
  case (Cons r rs)
  then show ?case by (auto split: sum.splits)
qed

lemma parse_column_other:
  assumes "parse_column JSON_parse col app = Inr app'" "c \<noteq> col"
  shows "app' c = app c"
  using assms by (auto simp: parse_column_def split: if_splits sum.splits)

lemma parse_jsonb_fields_other:
  assumes "parse_jsonb_fields JSON_parse app = Inr app'"
    and "c \<notin> {''selected_categories'', ''written_test'', ''practical_test''}"
  shows "app' c = app c"
proof -
  from assms(1) obtain app1 app2 where
    p: "parse_column JSON_parse ''selected_categories'' app = Inr app1"
      "parse_column JSON_parse ''written_test'' app1 = Inr app2"
      "parse_column JSON_parse ''practical_test'' app2 = Inr app'"
    by (auto simp: parse_jsonb_fields_def split: sum.splits)
  have "app' c = app2 c" using parse_column_other [OF p(3)] assms(2) by simp
  also have "\<dots> = app1 c" using parse_column_other [OF p(2)] assms(2) by simp
  also have "\<dots> = app c" using parse_column_other [OF p(1)] assms(2) by simp
  finally show ?thesis .
qed

lemma executeQuery_Inr:
  assumes "fst (executeQuery q l s) = Inr rows"
  shows "faults s (calls s) = None"
    and "\<exists>s2. q (clock s (calls s)) (s\<lparr>calls := Suc (calls s)\<rparr>) = Inr (rows, s2)"
  using assms
  by (auto simp: executeQuery_def Let_def split: option.splits fault.splits sum.splits)

lemma both_queries_Inr:
  assumes "fst (both_queries q1 l1 q2 l2 s) = Inr (rows1, rows2)"
  shows "fst (executeQuery q1 l1 s) = Inr rows1"
    and "fst (executeQuery q2 l2 (snd (executeQuery q1 l1 s))) = Inr rows2"
  using assms by (auto simp: both_queries_def Let_def split: sum.splits)

lemma respond_Inr:
  assumes "fst (respond JSON_parse r) = Inr response"
  shows "\<exists>rows1 rows2. fst r = Inr (rows1, rows2)
           \<and> map_rows (parse_jsonb_fields JSON_parse) rows1 = Inr (applications response)
           \<and> totalCount response = count_of rows2"
  using assms by (auto simp: respond_def split: sum.splits prod.splits)

lemma set_order_by [simp]: "set (order_by column descending rows) = set rows"
  by (simp add: order_by_def)

lemma limit_offset_subset:
  assumes "limit_offset limit offset rows = Inr page_rows"
  shows "set page_rows \<subseteq> set rows"
  using assms
  by (auto simp: limit_offset_def split: if_splits dest: in_set_takeD in_set_dropD)

lemma applications_page_rows:
  assumes "applications_page wh sortColumn descending limit offset now s = Inr (rows, s')"
  shows "\<exists>src. rows = map (project listed_columns) src
            \<and> set src \<subseteq> {a \<in> set (tables s ''applications''). wh a}"
proof -
  from assms obtain src where
    src: "limit_offset limit offset (order_by sortColumn descending (filter wh (tables s ''applications'')))
          = Inr src" "rows = map (project listed_columns) src"
    by (auto simp: applications_page_def split: sum.splits)
  from limit_offset_subset [OF src(1)]
  have "set src \<subseteq> {a \<in> set (tables s ''applications''). wh a}" by auto
  with src(2) show ?thesis by blast
qed

lemma ilike_column:
  assumes "set term \<inter> like_special = {}"
  shows "ilike v (CHR ''%'' # term @ ''%'')
         = (case v of Str t \<Rightarrow> sublist (map to_lower term) (map to_lower t) | _ \<Rightarrow> False)"
  using ilike_contains [OF assms, of v] by (cases v) (simp_all add: ilike_def)

lemma search_condition_contains:
  assumes "term \<noteq> []" "set term \<inter> like_special = {}"
    and "search_condition (Some term) a"
  shows "contains_term term a"
  using assms(3) assms(1)
  by (auto simp: search_condition_def Let_def contains_term_def search_columns_def
      ilike_column [OF assms(2)])

lemma contains_term_cong:
  assumes "\<And>c. c \<in> set search_columns \<Longrightarrow> b c = a c"
  shows "contains_term term b = contains_term term a"
  using assms by (simp add: contains_term_def search_columns_def)


lemma list_all2_right_member:
  assumes "list_all2 P xs ys" "y \<in> set ys"
  shows "\<exists>x \<in> set xs. P x y"
  using assms by (induction rule: list_all2_induct) auto

lemma filtered_listing_rows:
  assumes "fst (filtered_listing JSON_parse page limit status search sortBy sortOrder s) = Inr response"
  shows "\<exists>src. map_rows (parse_jsonb_fields JSON_parse) (map (project listed_columns) src)
                 = Inr (applications response)
            \<and> set src \<subseteq> {a \<in> set (tables s ''applications'').
                             status_condition status a \<and> search_condition search a}"
proof -
  let ?wh = "\<lambda>a. status_condition status a \<and> search_condition search a"
  let ?sortBy = "case sortBy of None \<Rightarrow> ''created_at'' | Some c \<Rightarrow> c"
  let ?sortOrder = "case sortOrder of None \<Rightarrow> ''DESC'' | Some d \<Rightarrow> d"
  let ?q1 = "applications_page ?wh
               (if ?sortBy \<in> set validSortColumns then ?sortBy else ''created_at'')
               (map to_upper ?sortOrder \<noteq> ''ASC'') limit ((page - 1) * limit)"
  let ?both = "both_queries ?q1 ''Get applications'' (applications_count ?wh) ''Count applications'' s"
  have "fst (respond JSON_parse ?both) = Inr response"
    using assms by (simp add: filtered_listing_def Let_def)
  from respond_Inr [OF this] obtain rows1 rows2 where
    r: "fst ?both = Inr (rows1, rows2)"
      "map_rows (parse_jsonb_fields JSON_parse) rows1 = Inr (applications response)"
    by blast
  from executeQuery_Inr(2) [OF both_queries_Inr(1) [OF r(1)]] obtain s2 where
    "?q1 (clock s (calls s)) (s\<lparr>calls := Suc (calls s)\<rparr>) = Inr (rows1, s2)"
    by blast
  from applications_page_rows [OF this] obtain src where
    "rows1 = map (project listed_columns) src"
    "set src \<subseteq> {a \<in> set (tables (s\<lparr>calls := Suc (calls s)\<rparr>) ''applications''). ?wh a}"
    by blast
  with r(2) show ?thesis by auto
qed

text \<open>
  Claim C9, as amended. For a listing with a non-empty search term that has none of the
  characters \<^verbatim>\<open>%\<close>, \<^verbatim>\<open>_\<close> and backslash: when the filtered block succeeds (its page
  query and count query succeed and the documents of the page parse), the handler returns
  that block's response, and every application in it has the term, letter case aside, as a
  substring of one of application_id, medical_certificate_id, sub, full_name and email.
\<close>

theorem search_page_holds_only_matching_applications:
  assumes "term \<noteq> []" and "set term \<inter> like_special = {}"
    and "fst (filtered_listing JSON_parse page limit status (Some term) sortBy sortOrder s)
           = Inr response"
  shows "fst (get_applications JSON_parse page limit status (Some term) sortBy sortOrder s)
           = Inr response
       \<and> list_all (contains_term term) (applications response)"
proof -
  have same: "fst (get_applications JSON_parse page limit status (Some term) sortBy sortOrder s)
           = Inr response"
    using assms(3) by (simp add: get_applications_def Let_def)
  from filtered_listing_rows [OF assms(3)] obtain src where
    src: "map_rows (parse_jsonb_fields JSON_parse) (map (project listed_columns) src)
            = Inr (applications response)"
      "set src \<subseteq> {a \<in> set (tables s ''applications'').
                             status_condition status a \<and> search_condition (Some term) a}"
    by blast
  have "contains_term term a" if "a \<in> set (applications response)" for a
  proof -
    from list_all2_right_member [OF map_rows_Inr [OF src(1)] that]
    obtain b where b: "b \<in> set src"
      "parse_jsonb_fields JSON_parse (project listed_columns b) = Inr a"
      by auto
    have "search_condition (Some term) b" using b(1) src(2) by auto
    then have cb: "contains_term term b"
      by (rule search_condition_contains [OF assms(1,2)])
    have "a c = b c" if "c \<in> set search_columns" for c
    proof -
      have "c \<notin> {''selected_categories'', ''written_test'', ''practical_test''}"
        "c \<in> set listed_columns"
        using that by (auto simp: search_columns_def listed_columns_def)
      then show ?thesis
        using parse_jsonb_fields_other [OF b(2), of c] by (simp add: project_def)
    qed
    then show ?thesis using cb contains_term_cong [of a b] by simp
  qed
  then show ?thesis using same by (simp add: list_all_iff)
qed


theorem search_page_holds_only_matching_applications_witness:
  "''app'' \<noteq> [] \<and> set ''app'' \<inter> like_special = {}
   \<and> \<not> isl (fst (filtered_listing no_json 1 100 None (Some ''app'') None None seeded_db))
   \<and> map (\<lambda>a. a ''application_id'')
         (returned_page (get_applications no_json 1 100 None (Some ''app'') None None seeded_db))
       = [Str ''APP001'']
   \<and> list_all (contains_term ''app'')
         (returned_page (get_applications no_json 1 100 None (Some ''app'') None None seeded_db))"
proof -
  let ?tried = "filtered_listing no_json 1 100 None (Some ''app'') None None seeded_db"
  have w: "''app'' \<noteq> []" "set ''app'' \<inter> like_special = {}"
    by (simp_all add: like_special_def)
  have ok: "\<not> isl (fst ?tried)"
    by code_simp
  then obtain found where r: "fst ?tried = Inr found"
    by (cases "fst ?tried") simp_all
  have ids: "map (\<lambda>a. a ''application_id'')
         (returned_page (get_applications no_json 1 100 None (Some ''app'') None None seeded_db))
       = [Str ''APP001'']"
    by code_simp
  note t = search_page_holds_only_matching_applications [OF w r]
  have "returned_page (get_applications no_json 1 100 None (Some ''app'') None None seeded_db)
        = applications found"
    using t by (simp add: returned_page_def)
  then show ?thesis
    using t w ok ids by simp
qed

text \<open>
  Claim C9 as stated fails in two ways. When the filtered page query fails (here it times
  out), the handler answers with the unfiltered page: a search for "zzz" returns
  application APP001, which has no "zzz" in any of the five columns. And the term goes
  into the \<^verbatim>\<open>ILIKE\<close> pattern as it is: a search for "_" matches any character, and
  returns APP001, which has no underscore in any of the five columns.
\<close>

theorem search_page_counterexample:
  "map (\<lambda>a. (a ''application_id'', contains_term ''zzz'' a))
     (returned_page (get_applications no_json 1 100 None (Some ''zzz'') None None slow_db))
   = [(Str ''APP001'', False)]
   \<and> map (\<lambda>a. (a ''application_id'', contains_term ''_'' a))
       (returned_page (get_applications no_json 1 100 None (Some ''_'') None None seeded_db))
     = [(Str ''APP001'', False)]"
  by code_simp


section \<open>The fallback of the listing\<close>

lemma executeQuery_read_only:
  assumes "\<And>now s rows s'. q now s = Inr (rows, s') \<Longrightarrow> s' = s"
  shows "tables (snd (executeQuery q l s)) = tables s"
    and "calls (snd (executeQuery q l s)) = Suc (calls s)"
    and "faults (snd (executeQuery q l s)) = faults s"
    and "clock (snd (executeQuery q l s)) = clock s"
proof -
  let ?s1 = "s\<lparr>calls := Suc (calls s)\<rparr>"
  have "snd (executeQuery q l s) = ?s1 \<or> (\<exists>b. snd (executeQuery q l s) = logOperation l b ?s1)"
  proof (cases "faults s (calls s)")
    case (Some f)
    then show ?thesis by (cases f) (auto simp: executeQuery_def Let_def)
  next
    case None
    show ?thesis
    proof (cases "q (clock s (calls s)) ?s1")
      case (Inl e)
      then show ?thesis using None by (auto simp: executeQuery_def Let_def)
    next
      case (Inr r)
      obtain rows s2 where r: "r = (rows, s2)" by (cases r)
      have "s2 = ?s1" using assms Inr r by blast
      then show ?thesis using None Inr r by (auto simp: executeQuery_def Let_def)
    qed
  qed
  then show "tables (snd (executeQuery q l s)) = tables s"
    and "calls (snd (executeQuery q l s)) = Suc (calls s)"
    and "faults (snd (executeQuery q l s)) = faults s"
    and "clock (snd (executeQuery q l s)) = clock s"
    by (auto simp: logOperation_def)
qed

lemma read_only_statements:
  "applications_page wh c d limit offset now s = Inr (rows, s') \<Longrightarrow> s' = s"
  "applications_count wh now s = Inr (rows, s') \<Longrightarrow> s' = s"
  "applications_simple_page limit offset now s = Inr (rows, s') \<Longrightarrow> s' = s"
  "applications_simple_count now s = Inr (rows, s') \<Longrightarrow> s' = s"
  by (auto simp: applications_page_def applications_count_def applications_simple_page_def
      applications_simple_count_def split: sum.splits)

lemma snd_both_queries:
  "snd (both_queries q1 l1 q2 l2 s) = snd (executeQuery q2 l2 (snd (executeQuery q1 l1 s)))"
  by (simp add: both_queries_def Let_def split: sum.splits)

lemma snd_respond: "snd (respond JSON_parse r) = snd r"
  by (simp add: respond_def split: sum.splits prod.splits)

lemma after_filtered_listing:
  assumes s1_def: "s1 = snd (filtered_listing JSON_parse page limit status search sortBy sortOrder s)"
  shows "tables s1 = tables s" "calls s1 = calls s + 2" "faults s1 = faults s"
proof -
  let ?wh = "\<lambda>a. status_condition status a \<and> search_condition search a"
  let ?sortBy = "case sortBy of None \<Rightarrow> ''created_at'' | Some c \<Rightarrow> c"
  let ?sortOrder = "case sortOrder of None \<Rightarrow> ''DESC'' | Some d \<Rightarrow> d"
  let ?q1 = "applications_page ?wh
               (if ?sortBy \<in> set validSortColumns then ?sortBy else ''created_at'')
               (map to_upper ?sortOrder \<noteq> ''ASC'') limit ((page - 1) * limit)"
  let ?m = "snd (executeQuery ?q1 ''Get applications'' s)"
  have s1: "s1 = snd (executeQuery (applications_count ?wh) ''Count applications'' ?m)"
    by (simp add: s1_def filtered_listing_def Let_def snd_respond snd_both_queries)
  note first = executeQuery_read_only [of ?q1 "''Get applications''" s, OF read_only_statements(1)]
  note second = executeQuery_read_only
      [of "applications_count ?wh" "''Count applications''" ?m, OF read_only_statements(2)]
  show "tables s1 = tables s" "calls s1 = calls s + 2" "faults s1 = faults s"
    unfolding s1 using first second by simp_all
qed

lemma simple_listing_succeeds:
  assumes "faults s (calls s) = None" "faults s (Suc (calls s)) = None"
    and "0 \<le> limit" "0 \<le> (page - 1) * limit"
    and "map_rows (parse_jsonb_fields JSON_parse)
           (take (nat limit) (drop (nat ((page - 1) * limit))
              (order_by ''created_at'' True (tables s ''applications'')))) = Inr apps"
  shows "fst (simple_listing JSON_parse page limit s)
         = Inr \<lparr>applications = apps, totalCount = int (length (tables s ''applications''))\<rparr>"
  using assms
  by (simp add: simple_listing_def both_queries_def respond_def executeQuery_def Let_def
      applications_simple_page_def applications_simple_count_def limit_offset_def
      logOperation_def count_of_def object_def)

lemma simple_listing_fails:
  assumes "(page - 1) * limit < 0 \<or> limit < 0
           \<or> faults s (calls s) \<noteq> None \<or> faults s (Suc (calls s)) \<noteq> None"
  shows "isl (fst (simple_listing JSON_parse page limit s))"
proof -
  let ?q1 = "applications_simple_page limit ((page - 1) * limit)"
  let ?r1 = "executeQuery ?q1 ''Get applications simple'' s"
  let ?r2 = "executeQuery applications_simple_count ''Count applications simple'' (snd ?r1)"
  note st = executeQuery_read_only
      [of ?q1 "''Get applications simple''" s, OF read_only_statements(3)]
  have "isl (fst ?r1) \<or> isl (fst ?r2)"
  proof (cases "faults s (calls s)")
    case (Some f)
    then have "isl (fst ?r1)" by (cases f) (simp_all add: executeQuery_def Let_def)
    then show ?thesis by simp
  next
    case None
    show ?thesis
    proof (cases "(page - 1) * limit < 0 \<or> limit < 0")
      case True
      then have "\<exists>e. ?q1 (clock s (calls s)) (s\<lparr>calls := Suc (calls s)\<rparr>) = Inl e"
        by (auto simp: applications_simple_page_def limit_offset_def)
      then have "isl (fst ?r1)" using None by (auto simp: executeQuery_def Let_def)
      then show ?thesis by simp
    next
      case False
      with assms None obtain f where "faults s (Suc (calls s)) = Some f" by auto
      then have "faults (snd ?r1) (calls (snd ?r1)) = Some f" using st by simp
      then have "isl (fst ?r2)" by (cases f) (simp_all add: executeQuery_def Let_def)
      then show ?thesis by simp
    qed
  qed
  then show ?thesis
    by (auto simp: simple_listing_def both_queries_def respond_def Let_def isl_def
        split: sum.splits)
qed

lemma newest_first_order_by: "newest_first (order_by ''created_at'' True rows)"
proof -
  have "sorted (map (\<lambda>r. sort_key_of (r ''created_at''))
                 (sort_key (\<lambda>r. sort_key_of (r ''created_at'')) rows))"
    by (rule sorted_sort_key)
  then show ?thesis
    by (simp add: newest_first_def order_by_def sorted_wrt_rev sorted_wrt_map)
qed

lemma newest_first_take_drop:
  "newest_first rows \<Longrightarrow> newest_first (take n (drop m rows))"
  by (simp add: newest_first_def)

lemma newest_first_parsed:
  assumes "map_rows (parse_jsonb_fields JSON_parse) rows = Inr apps" "newest_first rows"
  shows "newest_first apps"
proof -
  have "list_all2 (\<lambda>r a. a ''created_at'' = r ''created_at'') rows apps"
    using map_rows_Inr [OF assms(1)]
    by (rule list_all2_mono) (simp add: parse_jsonb_fields_other)
  then have "map (\<lambda>a. sort_key_of (a ''created_at'')) apps
           = map (\<lambda>r. sort_key_of (r ''created_at'')) rows"
    by (induction rule: list_all2_induct) simp_all
  moreover have "newest_first xs \<longleftrightarrow>
      sorted_wrt (\<lambda>x y. y \<le> x) (map (\<lambda>r. sort_key_of (r ''created_at'')) xs)" for xs
    by (simp add: newest_first_def sorted_wrt_map)
  ultimately show ?thesis using assms(2) by simp
qed


lemma filtered_listing_page_query_fault:
  assumes "faults s (calls s) = Some (StatementError e)"
  shows "fst (filtered_listing JSON_parse page limit status search sortBy sortOrder s)
         = Inl (translate_error e)"
  using assms
  by (simp add: filtered_listing_def Let_def respond_def both_queries_def executeQuery_def)

lemma simple_listing_parse_fails:
  assumes "faults s (calls s) = None" "faults s (Suc (calls s)) = None"
    and "0 \<le> limit" "0 \<le> (page - 1) * limit"
    and "map_rows (parse_jsonb_fields JSON_parse)
           (take (nat limit) (drop (nat ((page - 1) * limit))
              (order_by ''created_at'' True (tables s ''applications'')))) = Inl e"
  shows "fst (simple_listing JSON_parse page limit s) = Inl e"
  using assms
  by (simp add: simple_listing_def both_queries_def respond_def executeQuery_def Let_def
      applications_simple_page_def applications_simple_count_def limit_offset_def
      logOperation_def)

text \<open>
  Claim C5, as amended. When the filtered block of the listing fails (its page query or
  its count query fails, for whatever reason, or \<^verbatim>\<open>JSON.parse\<close> throws on a document
  of its page), the handler drops that error and runs the unfiltered page query and the
  unfiltered count query, with the same limit and offset. When these two succeed and the
  documents of the page parse, the response is that page, newest first, with the count of
  all applications. When \<^verbatim>\<open>JSON.parse\<close> throws on a document of that page, or one of
  the two queries fails (as both page queries do on a negative limit or offset), the
  handler ends in that error.
\<close>

theorem listing_falls_back_to_unfiltered_page:
  assumes "fst (filtered_listing JSON_parse page limit status search sortBy sortOrder s)
             = Inl dbError"
  shows "get_applications JSON_parse page limit status search sortBy sortOrder s
           = simple_listing JSON_parse page limit
               (snd (filtered_listing JSON_parse page limit status search sortBy sortOrder s))
       \<and> (faults s (calls s + 2) = None \<and> faults s (calls s + 3) = None
            \<and> 0 \<le> limit \<and> 0 \<le> (page - 1) * limit
            \<and> map_rows (parse_jsonb_fields JSON_parse)
                 (take (nat limit) (drop (nat ((page - 1) * limit))
                    (order_by ''created_at'' True (tables s ''applications'')))) = Inr apps
          \<longrightarrow> fst (get_applications JSON_parse page limit status search sortBy sortOrder s)
                = Inr \<lparr>applications = apps,
                       totalCount = int (length (tables s ''applications''))\<rparr>
              \<and> newest_first apps)
       \<and> (faults s (calls s + 2) = None \<and> faults s (calls s + 3) = None
            \<and> 0 \<le> limit \<and> 0 \<le> (page - 1) * limit
            \<and> map_rows (parse_jsonb_fields JSON_parse)
                 (take (nat limit) (drop (nat ((page - 1) * limit))
                    (order_by ''created_at'' True (tables s ''applications'')))) = Inl syntax_error
          \<longrightarrow> fst (get_applications JSON_parse page limit status search sortBy sortOrder s)
                = Inl syntax_error)
       \<and> ((page - 1) * limit < 0 \<or> limit < 0
            \<or> faults s (calls s + 2) \<noteq> None \<or> faults s (calls s + 3) \<noteq> None
          \<longrightarrow> isl (fst (get_applications JSON_parse page limit status search sortBy sortOrder s)))"
proof -
  let ?s1 = "snd (filtered_listing JSON_parse page limit status search sortBy sortOrder s)"
  note after = after_filtered_listing [OF refl, of JSON_parse page limit status search sortBy sortOrder s]
  have fallback: "get_applications JSON_parse page limit status search sortBy sortOrder s
           = simple_listing JSON_parse page limit ?s1"
    using assms by (simp add: get_applications_def Let_def)
  have good: "fst (get_applications JSON_parse page limit status search sortBy sortOrder s)
                = Inr \<lparr>applications = apps,
                       totalCount = int (length (tables s ''applications''))\<rparr>
              \<and> newest_first apps"
    if h: "faults s (calls s + 2) = None" "faults s (calls s + 3) = None"
      "0 \<le> limit" "0 \<le> (page - 1) * limit"
      "map_rows (parse_jsonb_fields JSON_parse)
                 (take (nat limit) (drop (nat ((page - 1) * limit))
                    (order_by ''created_at'' True (tables s ''applications'')))) = Inr apps"
  proof -
    have f: "faults ?s1 (calls ?s1) = None" "faults ?s1 (Suc (calls ?s1)) = None"
      using h(1,2) after by (simp_all add: numeral_3_eq_3)
    have rows: "map_rows (parse_jsonb_fields JSON_parse)
                 (take (nat limit) (drop (nat ((page - 1) * limit))
                    (order_by ''created_at'' True (tables ?s1 ''applications'')))) = Inr apps"
      using h(5) after by simp
    have "fst (simple_listing JSON_parse page limit ?s1)
         = Inr \<lparr>applications = apps, totalCount = int (length (tables ?s1 ''applications''))\<rparr>"
      by (rule simple_listing_succeeds [OF f h(3,4) rows])
    moreover have "newest_first apps"
      using newest_first_parsed [OF h(5)] newest_first_take_drop [OF newest_first_order_by]
      by blast
    ultimately show ?thesis using fallback after by simp
  qed
  have unparsed: "fst (get_applications JSON_parse page limit status search sortBy sortOrder s)
                = Inl syntax_error"
    if h: "faults s (calls s + 2) = None" "faults s (calls s + 3) = None"
      "0 \<le> limit" "0 \<le> (page - 1) * limit"
      "map_rows (parse_jsonb_fields JSON_parse)
                 (take (nat limit) (drop (nat ((page - 1) * limit))
                    (order_by ''created_at'' True (tables s ''applications'')))) = Inl syntax_error"
  proof -
    have f: "faults ?s1 (calls ?s1) = None" "faults ?s1 (Suc (calls ?s1)) = None"
      using h(1,2) after by (simp_all add: numeral_3_eq_3)
    have rows: "map_rows (parse_jsonb_fields JSON_parse)
                 (take (nat limit) (drop (nat ((page - 1) * limit))
                    (order_by ''created_at'' True (tables ?s1 ''applications'')))) = Inl syntax_error"
      using h(5) after by simp
    have "fst (simple_listing JSON_parse page limit ?s1) = Inl syntax_error"
      by (rule simple_listing_parse_fails [OF f h(3,4) rows])
    then show ?thesis using fallback by simp
  qed
  have bad: "isl (fst (get_applications JSON_parse page limit status search sortBy sortOrder s))"
    if h: "(page - 1) * limit < 0 \<or> limit < 0
            \<or> faults s (calls s + 2) \<noteq> None \<or> faults s (calls s + 3) \<noteq> None"
  proof -
    have "(page - 1) * limit < 0 \<or> limit < 0
           \<or> faults ?s1 (calls ?s1) \<noteq> None \<or> faults ?s1 (Suc (calls ?s1)) \<noteq> None"
      using h after by (simp add: numeral_3_eq_3)
    from simple_listing_fails [OF this] show ?thesis
      using fallback by simp
  qed
  show ?thesis
    using fallback good unparsed bad by blast
qed

lemma application_row_parses:
  "parse_jsonb_fields no_json application_row = Inr application_row"
  by (simp add: parse_jsonb_fields_def parse_column_def application_row_def object_def)

lemma slow_db_two_fields:
  "faults slow_db_two (calls slow_db_two) = Some (StatementError
         (Error (Some ''57014'') ''canceling statement due to statement timeout''))"
  "faults slow_db_two (calls slow_db_two + 2) = None"
  "faults slow_db_two (calls slow_db_two + 3) = None"
  "tables slow_db_two ''applications'' = [application_row, newer_application_row]"
  by (simp_all add: slow_db_two_def slow_db_def seeded_db_def empty_db_def)

lemma text_document_db_fields:
  "faults text_document_db (calls text_document_db) = None"
  "faults text_document_db (calls text_document_db + 2) = None"
  "faults text_document_db (calls text_document_db + 3) = None"
  "tables text_document_db ''applications'' = [text_document_row]"
  by (simp_all add: text_document_db_def seeded_db_def empty_db_def)

lemma thrown_Some: "thrown r = Some e \<Longrightarrow> fst r = Inl e"
  by (simp add: thrown_def split: sum.splits)

lemma newer_application_row_parses:
  "parse_jsonb_fields no_json newer_application_row = Inr newer_application_row"
  by (simp add: parse_jsonb_fields_def parse_column_def newer_application_row_def
      application_row_def object_def)

theorem listing_falls_back_to_unfiltered_page_witness:
  "fst (filtered_listing no_json 1 100 None (Some ''zzz'') None None slow_db_two)
     = Inl (Error (Some ''57014'') ''canceling statement due to statement timeout'')
   \<and> faults slow_db_two (calls slow_db_two + 2) = None
   \<and> faults slow_db_two (calls slow_db_two + 3) = None
   \<and> (0::int) \<le> 100 \<and> (0::int) \<le> (1 - 1) * 100
   \<and> tables slow_db_two ''applications'' = [application_row, newer_application_row]
   \<and> map_rows (parse_jsonb_fields no_json)
        (take (nat 100) (drop (nat ((1 - 1) * 100))
           (order_by ''created_at'' True (tables slow_db_two ''applications''))))
       = Inr [newer_application_row, application_row]
   \<and> fst (get_applications no_json 1 100 None (Some ''zzz'') None None slow_db_two)
       = Inr \<lparr>applications = [newer_application_row, application_row], totalCount = 2\<rparr>
   \<and> newest_first [newer_application_row, application_row]
   \<and> fst (filtered_listing no_json 1 100 None None None None text_document_db)
       = Inl (Error None ''Unexpected token'')
   \<and> faults text_document_db (calls text_document_db + 2) = None
   \<and> faults text_document_db (calls text_document_db + 3) = None
   \<and> map_rows (parse_jsonb_fields no_json)
        (take (nat 100) (drop (nat ((1 - 1) * 100))
           (order_by ''created_at'' True (tables text_document_db ''applications''))))
       = Inl (Error None ''Unexpected token'')
   \<and> fst (get_applications no_json 1 100 None None None None text_document_db)
       = Inl (Error None ''Unexpected token'')
   \<and> isl (fst (filtered_listing no_json 0 10 None None None None slow_db))
   \<and> ((0::int) - 1) * 10 < 0
   \<and> isl (fst (get_applications no_json 0 10 None None None None slow_db))"
proof -
  have failed: "fst (filtered_listing no_json 1 100 None (Some ''zzz'') None None slow_db_two)
     = Inl (Error (Some ''57014'') ''canceling statement due to statement timeout'')"
    using filtered_listing_page_query_fault [OF slow_db_two_fields(1)]
    by (simp add: translate_error_def)
  have sorted: "order_by ''created_at'' True (tables slow_db_two ''applications'')
       = [newer_application_row, application_row]"
    by (simp add: slow_db_two_fields order_by_def sort_key_of_def newer_application_row_def
        application_row_def object_def)
  have rows: "map_rows (parse_jsonb_fields no_json)
        (take (nat 100) (drop (nat ((1 - 1) * 100))
           (order_by ''created_at'' True (tables slow_db_two ''applications''))))
       = Inr [newer_application_row, application_row]"
    by (simp add: sorted application_row_parses newer_application_row_parses)
  have bounds: "(0::int) \<le> 100" "(0::int) \<le> (1 - 1) * 100" "((0::int) - 1) * 10 < 0"
    by simp_all
  have listed: "fst (get_applications no_json 1 100 None (Some ''zzz'') None None slow_db_two)
       = Inr \<lparr>applications = [newer_application_row, application_row], totalCount = 2\<rparr>
     \<and> newest_first [newer_application_row, application_row]"
    using listing_falls_back_to_unfiltered_page
        [OF failed, where apps = "[newer_application_row, application_row]",
         THEN conjunct2, THEN conjunct1]
      rows slow_db_two_fields(2,3) bounds
    by (simp add: slow_db_two_fields(4))
  have "thrown (filtered_listing no_json 1 100 None None None None text_document_db)
       = Some (Error None ''Unexpected token'')"
    by code_simp
  then have failed1: "fst (filtered_listing no_json 1 100 None None None None text_document_db)
       = Inl (Error None ''Unexpected token'')"
    by (rule thrown_Some)
  have rows1: "map_rows (parse_jsonb_fields no_json)
        (take (nat 100) (drop (nat ((1 - 1) * 100))
           (order_by ''created_at'' True (tables text_document_db ''applications''))))
       = Inl (Error None ''Unexpected token'')"
    by (simp add: text_document_db_fields order_by_def parse_jsonb_fields_def parse_column_def
        text_document_row_def application_row_def object_def no_json_def new_Error_def)
  have thrown1: "fst (get_applications no_json 1 100 None None None None text_document_db)
       = Inl (Error None ''Unexpected token'')"
    using listing_falls_back_to_unfiltered_page
        [OF failed1, where syntax_error = "Error None ''Unexpected token''",
         THEN conjunct2, THEN conjunct2, THEN conjunct1]
      rows1 text_document_db_fields(2,3) bounds
    by simp
  have failed0: "isl (fst (filtered_listing no_json 0 10 None None None None slow_db))"
    using filtered_listing_page_query_fault [OF slow_db_fields(1)]
    by simp
  then obtain e where e: "fst (filtered_listing no_json 0 10 None None None None slow_db) = Inl e"
    by (auto simp: isl_def)
  have thrown0: "isl (fst (get_applications no_json 0 10 None None None None slow_db))"
    using listing_falls_back_to_unfiltered_page
        [OF e, THEN conjunct2, THEN conjunct2, THEN conjunct2]
    by simp
  show ?thesis
    using listed
    by (intro conjI failed slow_db_two_fields(2,3,4) bounds rows failed1
        text_document_db_fields(2,3) rows1 thrown1 failed0 thrown0) simp_all
qed

text \<open>
  Claim C5 as stated has the handler return the unfiltered listing whenever the filtered
  query fails. For \<^verbatim>\<open>page=0\<close> the offset is negative: the filtered page query fails,
  the unfiltered page query fails for the same reason, and the handler passes that error
  on; no page is returned.
\<close>

theorem listing_fallback_counterexample:
  "isl (fst (filtered_listing no_json 0 10 None None None None seeded_db))
   \<and> thrown (get_applications no_json 0 10 None None None None seeded_db)
       = Some (Error (Some ''2201X'') ''OFFSET must not be negative'')
   \<and> returned_page (get_applications no_json 0 10 None None None None seeded_db) = []"
  by code_simp

end
